theory Spec2Isabelle
  imports Main "HOL-Library.AList" "HOL-Library.Char_ord" "HOL-Library.List_Lexorder"
    "HOL-Library.Word"
begin

section \<open>Argument values and their JSON encoding\<close>

text \<open>
  A tool invocation carries its arguments as a Go \<^verbatim>\<open>map[string]interface{}\<close>.
  The dynamic values are modelled by \<open>jvalue\<close>. An object is the list of its entries in
  the order in which the map happens to be enumerated; the keys of a Go map are distinct.
  \<open>JUnsupported\<close> stands for a Go value that \<^verbatim>\<open>encoding/json\<close> refuses to encode
  (a channel, a function, a NaN); its number tells two such values apart.
  A Go map variable may also be \<^verbatim>\<open>nil\<close>, which is what decoding the JSON text
  \<^verbatim>\<open>null\<close> into it leaves behind: \<open>NilMap\<close>.
\<close>

datatype jvalue =
    JNull
  | JBool bool
  | JNumber int
  | JString string
  | JArray "jvalue list"
  | JObject "(string \<times> jvalue) list"
  | JUnsupported nat

datatype arguments = NilMap | Entries "(string \<times> jvalue) list"

type_synonym byte = "8 word"

datatype mcp_Content = TextContent string | OtherContent nat

record CallToolResult =
  Content :: "mcp_Content list"
  IsError :: bool

text \<open>
  Library functions the program calls and whose code is not part of the repository are
  parameters: the SHA-256 digest, the JSON encoders of a string literal and of a number,
  \<^verbatim>\<open>json.Marshal\<close> on a tool result and \<^verbatim>\<open>json.MarshalIndent\<close> on a list of strings.
\<close>

record golib =
  sha256_Sum256 :: "string \<Rightarrow> byte list"
  encString :: "string \<Rightarrow> string"
  encNumber :: "int \<Rightarrow> string"
  marshalResult :: "CallToolResult \<Rightarrow> string option"
  marshalIndent :: "string list \<Rightarrow> string"

fun join :: "string \<Rightarrow> string list \<Rightarrow> string" where
  "join sep [] = []"
| "join sep [x] = x"
| "join sep (x # y # r) = x @ sep @ join sep (y # r)"

fun encode_member :: "(string \<Rightarrow> string) \<Rightarrow> string \<times> string option \<Rightarrow> string option" where
  "encode_member q (k, None) = None"
| "encode_member q (k, Some t) = Some (q k @ '':'' @ t)"

text \<open>
  \<^verbatim>\<open>encoding/json\<close> writes a map as an object whose members are sorted by key
  (byte-wise string order), whatever the enumeration order; one member that cannot be
  encoded makes the whole encoding fail.
\<close>

definition encode_object ::
  "(string \<Rightarrow> string) \<Rightarrow> (string \<times> string option) list \<Rightarrow> string option" where
  "encode_object q ms =
     map_option (\<lambda>ts. ''{'' @ join '','' ts @ ''}'')
       (those (map (encode_member q) (sort_key fst ms)))"

definition encode_array :: "string option list \<Rightarrow> string option" where
  "encode_array es = map_option (\<lambda>ts. ''['' @ join '','' ts @ '']'') (those es)"

primrec marshal_value :: "golib \<Rightarrow> jvalue \<Rightarrow> string option" where
  "marshal_value G JNull = Some ''null''"
| "marshal_value G (JBool b) = Some (if b then ''true'' else ''false'')"
| "marshal_value G (JNumber n) = Some (encNumber G n)"
| "marshal_value G (JString s) = Some (encString G s)"
| "marshal_value G (JArray vs) = encode_array (map (marshal_value G) vs)"
| "marshal_value G (JObject kvs) =
     encode_object (encString G) (map (map_prod id (marshal_value G)) kvs)"
| "marshal_value G (JUnsupported n) = None"

text \<open>\<^verbatim>\<open>json.Marshal(args)\<close>: a nil map is written \<^verbatim>\<open>null\<close>, any other map as an object.\<close>

definition json_Marshal :: "golib \<Rightarrow> arguments \<Rightarrow> string option" where
  "json_Marshal G args =
     (case args of
        NilMap \<Rightarrow> Some ''null''
      | Entries kvs \<Rightarrow> marshal_value G (JObject kvs))"

definition hex_digit :: "nat \<Rightarrow> char" where
  "hex_digit n = ''0123456789abcdef'' ! (n mod 16)"

text \<open>The \<^verbatim>\<open>%x\<close> verb on a byte slice: two lower-case digits per byte.\<close>

definition hex_bytes :: "byte list \<Rightarrow> string" where
  "hex_bytes bs = concat (map (\<lambda>b. [hex_digit (unat b div 16), hex_digit (unat b mod 16)]) bs)"

definition generateCacheKey :: "golib \<Rightarrow> string \<Rightarrow> arguments \<Rightarrow> string" where
  "generateCacheKey G toolName args =
     (case json_Marshal G args of
        None \<Rightarrow> toolName
      | Some argsJSON \<Rightarrow>
          (let hash = sha256_Sum256 G (toolName @ '':'' @ argsJSON)
           in toolName @ '':'' @ hex_bytes (take 8 hash)))"

text \<open>
  Two values are the same value when they agree up to the enumeration order of the maps
  inside them; two argument maps are equal as sets of key/value pairs when they have the
  same keys and each key leads to the same value.
\<close>

fun jeq :: "jvalue \<Rightarrow> jvalue \<Rightarrow> bool" where
  "jeq JNull w = (w = JNull)"
| "jeq (JBool b) w = (w = JBool b)"
| "jeq (JNumber n) w = (w = JNumber n)"
| "jeq (JString s) w = (w = JString s)"
| "jeq (JUnsupported n) w = (w = JUnsupported n)"
| "jeq (JArray xs) w = (case w of JArray ys \<Rightarrow> list_all2 jeq xs ys | _ \<Rightarrow> False)"
| "jeq (JObject xs) w =
     (case w of
        JObject ys \<Rightarrow>
          distinct (map fst xs) \<and> distinct (map fst ys) \<and>
          set (map fst xs) = set (map fst ys) \<and>
          (\<forall>(k, v) \<in> set xs. \<forall>(k', v') \<in> set ys. k = k' \<longrightarrow> jeq v v')
      | _ \<Rightarrow> False)"

definition same_entries :: "(string \<times> jvalue) list \<Rightarrow> (string \<times> jvalue) list \<Rightarrow> bool" where
  "same_entries xs ys \<longleftrightarrow> jeq (JObject xs) (JObject ys)"

fun same_arguments :: "arguments \<Rightarrow> arguments \<Rightarrow> bool" where
  "same_arguments NilMap NilMap = True"
| "same_arguments NilMap (Entries ys) = (ys = [])"
| "same_arguments (Entries xs) NilMap = (xs = [])"
| "same_arguments (Entries xs) (Entries ys) = same_entries xs ys"

fun is_nil :: "arguments \<Rightarrow> bool" where
  "is_nil NilMap = True"
| "is_nil (Entries xs) = False"

section \<open>The result cache\<close>

text \<open>
  Times are readings of the monotonic clock in nanoseconds, durations are differences of
  readings. \<^verbatim>\<open>time.Now()\<close> is an input of the operations that read the clock.
  The Go map \<^verbatim>\<open>store\<close> is the list of its entries, one entry for a key.
\<close>

record CachedResult =
  Content :: string
  Timestamp :: int
  IsError :: bool

record ResultCache =
  store :: "(string \<times> CachedResult) list"
  ttl :: int

definition NewResultCache :: "int \<Rightarrow> ResultCache" where
  "NewResultCache t = \<lparr>store = [], ttl = t\<rparr>"

definition Get :: "ResultCache \<Rightarrow> int \<Rightarrow> string \<Rightarrow> CachedResult option" where
  "Get c now key =
     (case map_of (store c) key of
        None \<Rightarrow> None
      | Some result \<Rightarrow>
          if now - CachedResult.Timestamp result > ttl c then None else Some result)"

definition Set :: "ResultCache \<Rightarrow> int \<Rightarrow> string \<Rightarrow> string \<Rightarrow> bool \<Rightarrow> ResultCache" where
  "Set c now key content isError =
     c\<lparr>store := AList.update key
          \<lparr>CachedResult.Content = content, Timestamp = now, CachedResult.IsError = isError\<rparr>
          (store c)\<rparr>"

text \<open>One tick of the sweep that \<^verbatim>\<open>cleanupExpired\<close> runs every minute.\<close>

definition cleanupExpired :: "ResultCache \<Rightarrow> int \<Rightarrow> ResultCache" where
  "cleanupExpired c now =
     c\<lparr>store := filter (\<lambda>(key, result). \<not> now - CachedResult.Timestamp result > ttl c)
                  (store c)\<rparr>"

definition Stats :: "ResultCache \<Rightarrow> (string \<times> int) list" where
  "Stats c = [(''total_entries'', int (length (store c)))]"

text \<open>No entry of the store is the result of a failed call.\<close>

definition no_cached_errors :: "ResultCache \<Rightarrow> bool" where
  "no_cached_errors c \<longleftrightarrow> (\<forall>(key, result) \<in> set (store c). \<not> CachedResult.IsError result)"

definition CacheTTL :: int where
  "CacheTTL = 5 * 60 * 1000000000"

definition MaxToolIterations :: nat where
  "MaxToolIterations = 5"

section \<open>The orchestration loop\<close>

text \<open>
  The records follow the Go structs of the packages \<^verbatim>\<open>ai\<close> and \<^verbatim>\<open>models\<close>.
  \<^verbatim>\<open>ai.ToolCall\<close> and \<^verbatim>\<open>models.ToolCall\<close> have the same three fields and share one
  record. Fields the loop never reads (token usage, the schema of a tool, the provider and
  model of a request) are left out.
\<close>

record Tool =
  Name :: string
  Description :: string

record ToolCall =
  ID :: string
  Name :: string
  Arguments :: arguments

record ai_ToolResult =
  ToolCallID :: string
  Content :: string
  IsError :: bool

record models_ToolResult =
  ToolCallID :: string
  Name :: string
  Content :: string
  IsError :: bool

record Message =
  Role :: string
  Content :: string
  ToolCalls :: "ToolCall list"
  ToolResults :: "ai_ToolResult list"

record Response =
  Content :: string
  ToolCalls :: "ToolCall list"
  FinishReason :: string

record ChatRequest =
  Prompt :: string

datatype meta_value = MInt int | MString string | MBool bool | MStats "(string \<times> int) list"

record ChatResponse =
  Response :: string
  ToolCalls :: "ToolCall list"
  ToolResults :: "models_ToolResult list"
  Metadata :: "(string \<times> meta_value) list"

text \<open>
  The collaborators of the loop act on the world outside the process, of type \<open>'w\<close>: the
  model adapter (\<^verbatim>\<open>aiProvider.Chat\<close>, which fails with a message or answers), the
  tool client (\<^verbatim>\<open>mcpClient.CallTool\<close>, likewise) and the clock. Each call takes the
  world as it is and returns the world it leaves.
\<close>

record 'w env =
  Chat :: "'w \<Rightarrow> string \<Rightarrow> Tool list \<Rightarrow> Message list \<Rightarrow> (string + Response) \<times> 'w"
  GetProviderName :: string
  CallTool :: "'w \<Rightarrow> string \<Rightarrow> arguments \<Rightarrow> (string + CallToolResult) \<times> 'w"
  Now :: "'w \<Rightarrow> int \<times> 'w"

text \<open>
  The local variables of \<^verbatim>\<open>ProcessPrompt\<close> that the resolution of an invocation may
  change. The other two, \<^verbatim>\<open>iteration\<close> and \<^verbatim>\<open>currentPrompt\<close>, are arguments of the
  loop itself.
\<close>

record loop_state =
  conversationHistory :: "Message list"
  allToolCalls :: "ToolCall list"
  allToolResults :: "models_ToolResult list"
  cacheHits :: nat
  cacheMisses :: nat

definition text_parts :: "mcp_Content list \<Rightarrow> string list" where
  "text_parts cs = concat (map (\<lambda>c. case c of TextContent t \<Rightarrow> [t] | OtherContent n \<Rightarrow> []) cs)"

definition formatToolResult :: "golib \<Rightarrow> CallToolResult \<Rightarrow> string" where
  "formatToolResult G result =
     (if length (CallToolResult.Content result) = 0
      then ''Tool executed successfully with no output''
      else
        (let textParts = text_parts (CallToolResult.Content result)
         in if length textParts = 0
            then (case marshalResult G result of
                    None \<Rightarrow> ''Tool result could not be formatted''
                  | Some jsonBytes \<Rightarrow> jsonBytes)
            else if length textParts = 1 then hd textParts
            else marshalIndent G textParts))"

definition newline :: string where
  "newline = [CHR 0x0A]"

definition cross_mark :: string where
  "cross_mark = [CHR 0xE2, CHR 0x9D, CHR 0x8C]"

definition check_mark :: string where
  "check_mark = [CHR 0xE2, CHR 0x9C, CHR 0x93]"

definition formatToolResultsForPrompt :: "ai_ToolResult list \<Rightarrow> string" where
  "formatToolResultsForPrompt results =
     (if length results = 0 then []
      else ''Tool execution results:'' @ newline @ newline
           @ concat (map (\<lambda>result.
               if ai_ToolResult.IsError result
               then cross_mark @ '' Error: '' @ ai_ToolResult.Content result @ newline @ newline
               else check_mark @ '' Success: '' @ ai_ToolResult.Content result @ newline @ newline)
               results)
           @ ''Please analyze these results and provide a response to the user.'')"

text \<open>
  The statements that close the body of the inner loop: the result joins the results of
  this iteration, the invocation and the result join the trace of the whole call.
\<close>

definition record_result ::
  "ToolCall \<Rightarrow> string \<Rightarrow> bool \<Rightarrow> ai_ToolResult list \<Rightarrow> loop_state
     \<Rightarrow> ai_ToolResult list \<times> loop_state" where
  "record_result toolCall resultContent isError toolResults s =
     (toolResults @
        [\<lparr>ai_ToolResult.ToolCallID = ToolCall.ID toolCall,
          ai_ToolResult.Content = resultContent,
          ai_ToolResult.IsError = isError\<rparr>],
      s\<lparr>allToolCalls := allToolCalls s @
           [\<lparr>ToolCall.ID = ToolCall.ID toolCall,
             ToolCall.Name = ToolCall.Name toolCall,
             Arguments = Arguments toolCall\<rparr>],
        allToolResults := allToolResults s @
           [\<lparr>models_ToolResult.ToolCallID = ToolCall.ID toolCall,
             models_ToolResult.Name = ToolCall.Name toolCall,
             models_ToolResult.Content = resultContent,
             models_ToolResult.IsError = isError\<rparr>]\<rparr>)"

text \<open>
  One pass through the body of \<^verbatim>\<open>for _, toolCall := range aiResponse.ToolCalls\<close>.
  The state is the list \<^verbatim>\<open>toolResults\<close> of the iteration, the variables of the call,
  the shared cache and the world.
\<close>

definition execute_tool_call ::
  "'w env \<Rightarrow> golib \<Rightarrow> ToolCall \<Rightarrow> ai_ToolResult list \<times> loop_state \<times> ResultCache \<times> 'w
     \<Rightarrow> ai_ToolResult list \<times> loop_state \<times> ResultCache \<times> 'w" where
  "execute_tool_call E G toolCall st =
     (case st of (toolResults, s, c, w) \<Rightarrow>
        (let cacheKey = generateCacheKey G (ToolCall.Name toolCall) (Arguments toolCall)
         in case Now E w of (now, w1) \<Rightarrow>
            (case Get c now cacheKey of
               Some cached \<Rightarrow>
                 (case record_result toolCall (CachedResult.Content cached)
                         (CachedResult.IsError cached) toolResults
                         (s\<lparr>cacheHits := cacheHits s + 1\<rparr>) of
                    (toolResults', s') \<Rightarrow> (toolResults', s', c, w1))
             | None \<Rightarrow>
                 (let s1 = s\<lparr>cacheMisses := cacheMisses s + 1\<rparr>
                  in case CallTool E w1 (ToolCall.Name toolCall) (Arguments toolCall) of
                       (Inl err, w2) \<Rightarrow>
                         (let errMsg = ''Error calling tool '' @ ToolCall.Name toolCall
                                       @ '': '' @ err
                          in (toolResults @
                                [\<lparr>ai_ToolResult.ToolCallID = ToolCall.ID toolCall,
                                  ai_ToolResult.Content = errMsg,
                                  ai_ToolResult.IsError = True\<rparr>],
                              s1\<lparr>allToolResults := allToolResults s1 @
                                   [\<lparr>models_ToolResult.ToolCallID = ToolCall.ID toolCall,
                                     models_ToolResult.Name = ToolCall.Name toolCall,
                                     models_ToolResult.Content = errMsg,
                                     models_ToolResult.IsError = True\<rparr>]\<rparr>,
                              c, w2))
                     | (Inr mcpResult, w2) \<Rightarrow>
                         (let resultContent = formatToolResult G mcpResult;
                              isError = CallToolResult.IsError mcpResult
                          in case (if \<not> isError
                                   then (case Now E w2 of (stored, w3) \<Rightarrow>
                                           (Set c stored cacheKey resultContent isError, w3))
                                   else (c, w2)) of
                               (c', w3) \<Rightarrow>
                                 (case record_result toolCall resultContent isError
                                         toolResults s1 of
                                    (toolResults', s') \<Rightarrow> (toolResults', s', c', w3)))))))"

fun execute_tool_calls ::
  "'w env \<Rightarrow> golib \<Rightarrow> ToolCall list \<Rightarrow> ai_ToolResult list \<times> loop_state \<times> ResultCache \<times> 'w
     \<Rightarrow> ai_ToolResult list \<times> loop_state \<times> ResultCache \<times> 'w" where
  "execute_tool_calls E G [] st = st"
| "execute_tool_calls E G (toolCall # rest) st =
     execute_tool_calls E G rest (execute_tool_call E G toolCall st)"

definition assistant_message :: "string \<Rightarrow> Message" where
  "assistant_message content =
     \<lparr>Role = ''assistant'', Message.Content = content,
      Message.ToolCalls = [], Message.ToolResults = []\<rparr>"

definition tool_results_message :: "ai_ToolResult list \<Rightarrow> Message" where
  "tool_results_message toolResults =
     \<lparr>Role = ''assistant'', Message.Content = [],
      Message.ToolCalls = [], Message.ToolResults = toolResults\<rparr>"

text \<open>The response returned when the model asks for no tool.\<close>

definition done_response ::
  "'w env \<Rightarrow> Tool list \<Rightarrow> ResultCache \<Rightarrow> nat \<Rightarrow> loop_state \<Rightarrow> Response \<Rightarrow> ChatResponse" where
  "done_response E tools c iteration s aiResponse =
     \<lparr>Response = Response.Content aiResponse,
      ChatResponse.ToolCalls = allToolCalls s,
      ChatResponse.ToolResults = allToolResults s,
      Metadata =
        [(''iterations'', MInt (int iteration)),
         (''finish_reason'', MString (FinishReason aiResponse)),
         (''provider'', MString (GetProviderName E)),
         (''tools_available'', MInt (int (length tools))),
         (''cache_hits'', MInt (int (cacheHits s))),
         (''cache_misses'', MInt (int (cacheMisses s))),
         (''cache_stats'', MStats (Stats c))]\<rparr>"

text \<open>The response returned when the loop runs out of iterations.\<close>

definition limit_response ::
  "'w env \<Rightarrow> Tool list \<Rightarrow> ResultCache \<Rightarrow> nat \<Rightarrow> loop_state \<Rightarrow> ChatResponse" where
  "limit_response E tools c iteration s =
     \<lparr>Response =
        ''Maximum tool execution iterations reached. Please try breaking down your request.'',
      ChatResponse.ToolCalls = allToolCalls s,
      ChatResponse.ToolResults = allToolResults s,
      Metadata =
        [(''iterations'', MInt (int iteration)),
         (''max_reached'', MBool True),
         (''provider'', MString (GetProviderName E)),
         (''tools_available'', MInt (int (length tools))),
         (''cache_hits'', MInt (int (cacheHits s))),
         (''cache_misses'', MInt (int (cacheMisses s))),
         (''cache_stats'', MStats (Stats c))]\<rparr>"

text \<open>
  How one pass through the body of \<^verbatim>\<open>for iteration < MaxToolIterations\<close> ends: with
  the error of the adapter, with the final response, or at the closing brace with the next
  prompt.
\<close>

datatype step = Abort string | Return ChatResponse | Continue string loop_state

definition loop_body ::
  "'w env \<Rightarrow> golib \<Rightarrow> Tool list \<Rightarrow> nat \<Rightarrow> string \<Rightarrow> loop_state \<Rightarrow> ResultCache \<Rightarrow> 'w
     \<Rightarrow> step \<times> ResultCache \<times> 'w" where
  "loop_body E G tools iteration currentPrompt s c w =
     (case Chat E w currentPrompt tools (conversationHistory s) of
        (Inl err, w1) \<Rightarrow> (Abort (''AI provider error: '' @ err), c, w1)
      | (Inr aiResponse, w1) \<Rightarrow>
          (let s1 = s\<lparr>conversationHistory := conversationHistory s @
                        [assistant_message (Response.Content aiResponse)]\<rparr>
           in if length (Response.ToolCalls aiResponse) = 0
              then (Return (done_response E tools c iteration s1 aiResponse), c, w1)
              else
                (case execute_tool_calls E G (Response.ToolCalls aiResponse) ([], s1, c, w1) of
                   (toolResults, s2, c2, w2) \<Rightarrow>
                     (Continue (formatToolResultsForPrompt toolResults)
                        (s2\<lparr>conversationHistory := conversationHistory s2 @
                              [tool_results_message toolResults]\<rparr>),
                      c2, w2))))"

function tool_loop ::
  "'w env \<Rightarrow> golib \<Rightarrow> Tool list \<Rightarrow> nat \<Rightarrow> string \<Rightarrow> loop_state \<Rightarrow> ResultCache \<Rightarrow> 'w
     \<Rightarrow> (string + ChatResponse) \<times> ResultCache \<times> 'w" where
  "tool_loop E G tools iteration currentPrompt s c w =
     (if iteration < MaxToolIterations
      then (case loop_body E G tools (iteration + 1) currentPrompt s c w of
              (Abort err, c', w') \<Rightarrow> (Inl err, c', w')
            | (Return response, c', w') \<Rightarrow> (Inr response, c', w')
            | (Continue prompt' s', c', w') \<Rightarrow>
                tool_loop E G tools (iteration + 1) prompt' s' c' w')
      else (Inr (limit_response E tools c iteration s), c, w))"
  by pat_completeness auto
termination
  by (relation "measure (\<lambda>(E, G, tools, iteration, p, s, c, w). MaxToolIterations - iteration)")
     auto

definition ProcessPrompt ::
  "'w env \<Rightarrow> golib \<Rightarrow> Tool list \<Rightarrow> ChatRequest \<Rightarrow> ResultCache \<Rightarrow> 'w
     \<Rightarrow> (string + ChatResponse) \<times> ResultCache \<times> 'w" where
  "ProcessPrompt E G tools request c w =
     tool_loop E G tools 0 (Prompt request)
       \<lparr>conversationHistory = [], allToolCalls = [], allToolResults = [],
        cacheHits = 0, cacheMisses = 0\<rparr> c w"

text \<open>
  What the adapter answered, call after call, in the run that starts in the given state:
  the answer of the first call, then the answers of the run that follows the first pass
  through the body.
\<close>

function chat_outcomes ::
  "'w env \<Rightarrow> golib \<Rightarrow> Tool list \<Rightarrow> nat \<Rightarrow> string \<Rightarrow> loop_state \<Rightarrow> ResultCache \<Rightarrow> 'w
     \<Rightarrow> (string + Response) list" where
  "chat_outcomes E G tools iteration currentPrompt s c w =
     (if iteration < MaxToolIterations
      then fst (Chat E w currentPrompt tools (conversationHistory s)) #
           (case loop_body E G tools (iteration + 1) currentPrompt s c w of
              (Continue prompt' s', c', w') \<Rightarrow>
                chat_outcomes E G tools (iteration + 1) prompt' s' c' w'
            | _ \<Rightarrow> [])
      else [])"
  by pat_completeness auto
termination
  by (relation "measure (\<lambda>(E, G, tools, iteration, p, s, c, w). MaxToolIterations - iteration)")
     auto

text \<open>The answers of the adapter in a whole call of \<^verbatim>\<open>ProcessPrompt\<close>.\<close>

definition adapter_outcomes ::
  "'w env \<Rightarrow> golib \<Rightarrow> Tool list \<Rightarrow> ChatRequest \<Rightarrow> ResultCache \<Rightarrow> 'w
     \<Rightarrow> (string + Response) list" where
  "adapter_outcomes E G tools request c w =
     chat_outcomes E G tools 0 (Prompt request)
       \<lparr>conversationHistory = [], allToolCalls = [], allToolResults = [],
        cacheHits = 0, cacheMisses = 0\<rparr> c w"

text \<open>An answer that asks for at least one tool.\<close>

fun asks_tools :: "string + Response \<Rightarrow> bool" where
  "asks_tools (Inl err) = False"
| "asks_tools (Inr aiResponse) = (Response.ToolCalls aiResponse \<noteq> [])"

text \<open>The invocations that an answer asks for.\<close>

fun invocations :: "string + Response \<Rightarrow> ToolCall list" where
  "invocations (Inl err) = []"
| "invocations (Inr aiResponse) = Response.ToolCalls aiResponse"

text \<open>
  The cache is shared by all the calls of the service and swept in the background. A
  history of the cache is a list of operations, in the order in which they reach the
  cache: a sweep at some time; one pass through the body of the inner loop, for some
  invocation, in whatever state and world the call that runs it is in; one pass through
  the body of the outer loop, likewise; or a whole call of \<^verbatim>\<open>ProcessPrompt\<close>. So the
  passes of calls that run side by side may alternate in any way, and the cache is seen
  between any two of them.
\<close>

datatype 'w cache_op =
    Sweep int
  | Resolve ToolCall "ai_ToolResult list" loop_state 'w
  | Iterate nat string loop_state 'w
  | Serve ChatRequest 'w

fun apply_op :: "'w env \<Rightarrow> golib \<Rightarrow> Tool list \<Rightarrow> ResultCache \<Rightarrow> 'w cache_op \<Rightarrow> ResultCache" where
  "apply_op E G tools c (Sweep now) = cleanupExpired c now"
| "apply_op E G tools c (Resolve toolCall toolResults s w) =
     fst (snd (snd (execute_tool_call E G toolCall (toolResults, s, c, w))))"
| "apply_op E G tools c (Iterate iteration currentPrompt s w) =
     fst (snd (loop_body E G tools iteration currentPrompt s c w))"
| "apply_op E G tools c (Serve request w) = fst (snd (ProcessPrompt E G tools request c w))"

definition run_ops :: "'w env \<Rightarrow> golib \<Rightarrow> Tool list \<Rightarrow> 'w cache_op list \<Rightarrow> ResultCache \<Rightarrow> ResultCache" where
  "run_ops E G tools ops c = foldl (apply_op E G tools) c ops"

section \<open>The tool client over the SDK session\<close>

text \<open>
  The client that the service is built against keeps the catalog it last listed and a flag
  that says whether the session is open. The session belongs to the SDK: connecting,
  listing and calling are parameters that act on the state \<open>'t\<close> of the transport and of
  the endpoint behind it.
\<close>

record Client =
  tools_cached :: "Tool list"
  initialized :: bool

record 't session =
  Connect :: "'t \<Rightarrow> string option \<times> 't"
  session_ListTools :: "'t \<Rightarrow> (string + Tool list) \<times> 't"
  session_CallTool :: "'t \<Rightarrow> string \<Rightarrow> arguments \<Rightarrow> (string + CallToolResult) \<times> 't"

definition NewClient :: Client where
  "NewClient = \<lparr>tools_cached = [], initialized = False\<rparr>"

definition Client_Initialize :: "'t session \<Rightarrow> Client \<Rightarrow> 't \<Rightarrow> string option \<times> Client \<times> 't" where
  "Client_Initialize S cl t =
     (if initialized cl then (None, cl, t)
      else (case Connect S t of
              (Some err, t1) \<Rightarrow>
                (Some (''failed to connect to MCP server via HTTP: '' @ err), cl, t1)
            | (None, t1) \<Rightarrow> (None, cl\<lparr>initialized := True\<rparr>, t1)))"

definition Client_ListTools ::
  "'t session \<Rightarrow> Client \<Rightarrow> 't \<Rightarrow> (string + Tool list) \<times> Client \<times> 't" where
  "Client_ListTools S cl t =
     (case (if \<not> initialized cl then Client_Initialize S cl t else (None, cl, t)) of
        (Some err, cl1, t1) \<Rightarrow> (Inl err, cl1, t1)
      | (None, cl1, t1) \<Rightarrow>
          (case session_ListTools S t1 of
             (Inl err, t2) \<Rightarrow> (Inl (''failed to list tools: '' @ err), cl1, t2)
           | (Inr result, t2) \<Rightarrow> (Inr result, cl1\<lparr>tools_cached := result\<rparr>, t2)))"

definition Client_CallTool ::
  "'t session \<Rightarrow> Client \<Rightarrow> string \<Rightarrow> arguments \<Rightarrow> 't
     \<Rightarrow> (string + CallToolResult) \<times> Client \<times> 't" where
  "Client_CallTool S cl name arguments t =
     (case (if \<not> initialized cl then Client_Initialize S cl t else (None, cl, t)) of
        (Some err, cl1, t1) \<Rightarrow> (Inl err, cl1, t1)
      | (None, cl1, t1) \<Rightarrow>
          (case session_CallTool S t1 name arguments of
             (Inl err, t2) \<Rightarrow> (Inl (''failed to call tool '' @ name @ '': '' @ err), cl1, t2)
           | (Inr result, t2) \<Rightarrow> (Inr result, cl1, t2)))"

section \<open>The tool client over standard input and output\<close>

text \<open>
  The older client writes one request per line to the standard input of the server and
  reads the responses in a goroutine of its own. The declaration of the response type is
  not among the sources; its fields are the ones that \<^verbatim>\<open>call\<close> and
  \<^verbatim>\<open>readResponses\<close> read. An id decodes to a number, to nothing, or to a value of another
  type.
\<close>

datatype rpc_id = NoID | NumberID int | OtherID

record JSONRPCError =
  Code :: int
  Message :: string

record JSONRPCResponse =
  ID :: rpc_id
  Result :: jvalue
  Error :: "JSONRPCError option"

datatype call_error = MarshalError | WriteError | RPCError int string

datatype call_status = Blocked | Returned "call_error + jvalue"

text \<open>
  The state of the client and of the goroutines around it. A channel of capacity one is
  its buffer: empty or holding one response. \<open>pendingCalls\<close> maps the id of a request to
  the channel of its caller, \<open>callers\<close> tells where the goroutine that runs
  \<^verbatim>\<open>call\<close> with that id stands. \<open>inbound\<close> is what the server will still write
  before the transport closes: each line decodes to a response or is malformed. \<open>reading\<close>
  holds while \<^verbatim>\<open>readResponses\<close> has not returned.
\<close>

record stdio_client =
  requestID :: int
  pendingCalls :: "(int \<times> JSONRPCResponse option) list"
  callers :: "(int \<times> call_status) list"
  inbound :: "JSONRPCResponse option list"
  reading :: bool

datatype send_outcome = MarshalFails | WriteFails | Written

datatype event = Call send_outcome | Scan | Receive int | Close

text \<open>
  \<open>Call\<close>: a goroutine enters \<^verbatim>\<open>call\<close>, takes the next id, registers its channel and
  sends the request; it returns at once when the request cannot be encoded or written, and
  blocks on its channel otherwise. \<open>Scan\<close>: one turn of the loop of
  \<^verbatim>\<open>readResponses\<close>, or its exit when the stream has ended; a send to a full channel
  waits. \<open>Receive\<close>: the caller with that id takes the response from its channel, the
  deferred function removes the channel from the table, and \<^verbatim>\<open>call\<close> returns.
  \<open>Close\<close>: \<^verbatim>\<open>Close\<close> closes the standard input of the server and kills it, so that
  nothing more arrives; the table of pending calls is not touched. An event that cannot
  happen in a state leaves it as it is.
\<close>

definition call_result :: "JSONRPCResponse \<Rightarrow> call_error + jvalue" where
  "call_result response =
     (case Error response of
        Some e \<Rightarrow> Inl (RPCError (Code e) (JSONRPCError.Message e))
      | None \<Rightarrow> Inr (Result response))"

fun step_client :: "stdio_client \<Rightarrow> event \<Rightarrow> stdio_client" where
  "step_client s (Call outcome) =
     (let rid = requestID s + 1;
          s1 = s\<lparr>requestID := rid, pendingCalls := AList.update rid None (pendingCalls s)\<rparr>
      in case outcome of
           MarshalFails \<Rightarrow>
             s1\<lparr>pendingCalls := AList.delete rid (pendingCalls s1),
                callers := AList.update rid (Returned (Inl MarshalError)) (callers s1)\<rparr>
         | WriteFails \<Rightarrow>
             s1\<lparr>pendingCalls := AList.delete rid (pendingCalls s1),
                callers := AList.update rid (Returned (Inl WriteError)) (callers s1)\<rparr>
         | Written \<Rightarrow> s1\<lparr>callers := AList.update rid Blocked (callers s1)\<rparr>)"
| "step_client s Scan =
     (if \<not> reading s then s
      else (case inbound s of
              [] \<Rightarrow> s\<lparr>reading := False\<rparr>
            | None # rest \<Rightarrow> s\<lparr>inbound := rest\<rparr>
            | Some response # rest \<Rightarrow>
                (case JSONRPCResponse.ID response of
                   NoID \<Rightarrow> s\<lparr>inbound := rest\<rparr>
                 | OtherID \<Rightarrow> s\<lparr>inbound := rest\<rparr>
                 | NumberID rid \<Rightarrow>
                     (case map_of (pendingCalls s) rid of
                        None \<Rightarrow> s\<lparr>inbound := rest\<rparr>
                      | Some None \<Rightarrow>
                          s\<lparr>inbound := rest,
                            pendingCalls := AList.update rid (Some response) (pendingCalls s)\<rparr>
                      | Some (Some full) \<Rightarrow> s))))"
| "step_client s (Receive rid) =
     (case (map_of (callers s) rid, map_of (pendingCalls s) rid) of
        (Some Blocked, Some (Some response)) \<Rightarrow>
          s\<lparr>callers := AList.update rid (Returned (call_result response)) (callers s),
            pendingCalls := AList.delete rid (pendingCalls s)\<rparr>
      | _ \<Rightarrow> s)"
| "step_client s Close = s\<lparr>inbound := []\<rparr>"

definition run_client :: "stdio_client \<Rightarrow> event list \<Rightarrow> stdio_client" where
  "run_client s evs = foldl step_client s evs"

text \<open>
  A caller is stranded when the stream has ended while it waits on its channel, which is
  registered and empty.
\<close>

definition stranded :: "stdio_client \<Rightarrow> int \<Rightarrow> bool" where
  "stranded s i \<longleftrightarrow>
     inbound s = [] \<and> map_of (callers s) i = Some Blocked
     \<and> map_of (pendingCalls s) i = Some None \<and> i \<le> requestID s"

text \<open>
  \<^verbatim>\<open>Initialize\<close> and \<^verbatim>\<open>CallTool\<close> of the older client, as functions of the fields
  that they read and write. \<^verbatim>\<open>call\<close> and \<^verbatim>\<open>notify\<close> read and write the request
  counter, the table of pending calls and the pipes only, so here they are operations on
  the world: \<^verbatim>\<open>call\<close> returns an error, returns the result of the server, or does not
  return. The declarations of the parameter and result types of this client are not among
  the sources: the result of the handshake and the result of a tool are type parameters,
  decoded by \<^verbatim>\<open>json.Unmarshal\<close>, and the catalog holds tools as above.
\<close>

datatype 'a returned = Never | Returns 'a

datatype rpc_params = InitializeParams | ToolCallParams string arguments

record ('t, 'i, 'r) stdio =
  rpc_call :: "'t \<Rightarrow> string \<Rightarrow> rpc_params \<Rightarrow> (string + jvalue) returned \<times> 't"
  rpc_notify :: "'t \<Rightarrow> string \<Rightarrow> string option \<times> 't"
  marshal_result :: "jvalue \<Rightarrow> string + string"
  unmarshal_InitializeResult :: "string \<Rightarrow> string + 'i"
  unmarshal_ToolCallResult :: "string \<Rightarrow> string + 'r"

record 'i stdio_fields =
  stdio_initialized :: bool
  serverInfo :: "'i option"
  stdio_tools :: "Tool list"

definition Stdio_Initialize ::
  "('t, 'i, 'r) stdio \<Rightarrow> 'i stdio_fields \<Rightarrow> 't \<Rightarrow> string option returned \<times> 'i stdio_fields \<times> 't" where
  "Stdio_Initialize L cl t =
     (if stdio_initialized cl then (Returns None, cl, t)
      else
        (case rpc_call L t ''initialize'' InitializeParams of
           (Never, t1) \<Rightarrow> (Never, cl, t1)
         | (Returns (Inl err), t1) \<Rightarrow>
             (Returns (Some (''initialization failed: '' @ err)), cl, t1)
         | (Returns (Inr result), t1) \<Rightarrow>
             (case marshal_result L result of
                Inl err \<Rightarrow>
                  (Returns (Some (''failed to marshal init result: '' @ err)), cl, t1)
              | Inr resultBytes \<Rightarrow>
                  (case unmarshal_InitializeResult L resultBytes of
                     Inl err \<Rightarrow>
                       (Returns (Some (''failed to unmarshal init result: '' @ err)), cl, t1)
                   | Inr initResult \<Rightarrow>
                       (let cl1 = cl\<lparr>serverInfo := Some initResult,
                                      stdio_initialized := True\<rparr>
                        in case rpc_notify L t1 ''notifications/initialized'' of
                             (Some err, t2) \<Rightarrow>
                               (Returns (Some (''failed to send initialized notification: ''
                                               @ err)), cl1, t2)
                           | (None, t2) \<Rightarrow> (Returns None, cl1, t2))))))"

definition Stdio_CallTool ::
  "('t, 'i, 'r) stdio \<Rightarrow> 'i stdio_fields \<Rightarrow> string \<Rightarrow> arguments \<Rightarrow> 't
     \<Rightarrow> (string + 'r) returned \<times> 'i stdio_fields \<times> 't" where
  "Stdio_CallTool L cl name arguments t =
     (case (if \<not> stdio_initialized cl then Stdio_Initialize L cl t
            else (Returns None, cl, t)) of
        (Never, cl1, t1) \<Rightarrow> (Never, cl1, t1)
      | (Returns (Some err), cl1, t1) \<Rightarrow> (Returns (Inl err), cl1, t1)
      | (Returns None, cl1, t1) \<Rightarrow>
          (case rpc_call L t1 ''tools/call'' (ToolCallParams name arguments) of
             (Never, t2) \<Rightarrow> (Never, cl1, t2)
           | (Returns (Inl err), t2) \<Rightarrow>
               (Returns (Inl (''failed to call tool '' @ name @ '': '' @ err)), cl1, t2)
           | (Returns (Inr result), t2) \<Rightarrow>
               (case marshal_result L result of
                  Inl err \<Rightarrow>
                    (Returns (Inl (''failed to marshal tool call result: '' @ err)), cl1, t2)
                | Inr resultBytes \<Rightarrow>
                    (case unmarshal_ToolCallResult L resultBytes of
                       Inl err \<Rightarrow>
                         (Returns (Inl (''failed to unmarshal tool call result: '' @ err)),
                          cl1, t2)
                     | Inr toolResult \<Rightarrow> (Returns (Inr toolResult), cl1, t2)))))"

section \<open>Sample collaborators\<close>

text \<open>
  A library, a catalog and collaborators on which the statements below are tried. The
  digest is SHA-256 on the three texts that the sample runs hash, as the reference
  implementation computes it, and the empty slice elsewhere. The string encoder is right for
  strings that need no escape, the number encoder for integers.
\<close>

definition quoted :: "string \<Rightarrow> string" where
  "quoted s = [CHR 0x22] @ s @ [CHR 0x22]"

definition orders_text :: string where
  "orders_text =
     ''get_blueprint:{'' @ quoted ''filter'' @ '':{'' @ quoted ''kind'' @ '':'' @ quoted ''db''
     @ '','' @ quoted ''live'' @ '':true},'' @ quoted ''name'' @ '':'' @ quoted ''orders'' @ ''}''"

definition sha256_table :: "string \<Rightarrow> byte list" where
  "sha256_table text =
     (if text = ''list_blueprints:{}''
      then [84, 10, 75, 90, 83, 249, 151, 123, 173, 185, 109, 217, 68, 135, 132, 93,
            29, 29, 69, 62, 60, 253, 95, 74, 252, 127, 163, 219, 8, 145, 193, 52]
      else if text = ''list_blueprints:null''
      then [130, 72, 109, 97, 94, 30, 179, 200, 249, 109, 228, 160, 63, 69, 108, 90,
            6, 98, 227, 144, 245, 206, 31, 32, 99, 91, 0, 139, 227, 193, 119, 20]
      else if text = orders_text
      then [189, 100, 220, 174, 175, 19, 64, 119, 5, 102, 89, 142, 142, 19, 163, 218,
            93, 137, 59, 139, 129, 11, 19, 77, 209, 51, 157, 15, 198, 169, 57, 226]
      else [])"

fun digits :: "nat \<Rightarrow> string" where
  "digits n =
     (if n < 10 then [char_of (48 + n)] else digits (n div 10) @ [char_of (48 + n mod 10)])"

definition decimal :: "int \<Rightarrow> string" where
  "decimal n = (if n < 0 then ''-'' @ digits (nat (- n)) else digits (nat n))"

definition sample_lib :: golib where
  "sample_lib =
     \<lparr>sha256_Sum256 = sha256_table, encString = quoted, encNumber = decimal,
      marshalResult = (\<lambda>result. None), marshalIndent = join '',''\<rparr>"

definition sample_tools :: "Tool list" where
  "sample_tools = [\<lparr>Tool.Name = ''list_blueprints'', Description = ''List the blueprints''\<rparr>]"

definition list_call :: ToolCall where
  "list_call =
     \<lparr>ToolCall.ID = ''call_1'', ToolCall.Name = ''list_blueprints'', Arguments = Entries []\<rparr>"

definition orders_filter :: "(string \<times> jvalue) list" where
  "orders_filter = [(''live'', JBool True), (''kind'', JString ''db'')]"

definition orders_filter' :: "(string \<times> jvalue) list" where
  "orders_filter' = [(''kind'', JString ''db''), (''live'', JBool True)]"

definition orders_args :: arguments where
  "orders_args = Entries [(''name'', JString ''orders''), (''filter'', JObject orders_filter)]"

definition orders_args' :: arguments where
  "orders_args' = Entries [(''filter'', JObject orders_filter'), (''name'', JString ''orders'')]"

text \<open>
  A sample world counts the calls of the adapter and of the tool client and carries the
  clock, which advances by one at every call and every reading.
\<close>

type_synonym sample_world = "nat \<times> nat \<times> int"

definition asks_list :: Response where
  "asks_list =
     \<lparr>Response.Content = ''TOOL_CALL: list_blueprints({})'',
      Response.ToolCalls = [list_call], FinishReason = ''stop''\<rparr>"

definition answers :: Response where
  "answers =
     \<lparr>Response.Content = ''No blueprints found'', Response.ToolCalls = [],
      FinishReason = ''stop''\<rparr>"

text \<open>The adapter of scenario A asks for the list once and answers when it sees a history.\<close>

definition chat_once ::
  "sample_world \<Rightarrow> string \<Rightarrow> Tool list \<Rightarrow> Message list \<Rightarrow> (string + Response) \<times> sample_world" where
  "chat_once w prompt catalog history =
     (case w of (n, m, t) \<Rightarrow>
        (if history = [] then Inr asks_list else Inr answers, (n + 1, m, t + 1)))"

definition chat_always ::
  "sample_world \<Rightarrow> string \<Rightarrow> Tool list \<Rightarrow> Message list \<Rightarrow> (string + Response) \<times> sample_world" where
  "chat_always w prompt catalog history =
     (case w of (n, m, t) \<Rightarrow> (Inr asks_list, (n + 1, m, t + 1)))"

definition empty_list :: CallToolResult where
  "empty_list =
     \<lparr>CallToolResult.Content = [TextContent ''[]''], CallToolResult.IsError = False\<rparr>"

definition tool_up ::
  "sample_world \<Rightarrow> string \<Rightarrow> arguments \<Rightarrow> (string + CallToolResult) \<times> sample_world" where
  "tool_up w name args = (case w of (n, m, t) \<Rightarrow> (Inr empty_list, (n, m + 1, t + 1)))"

definition tool_down ::
  "sample_world \<Rightarrow> string \<Rightarrow> arguments \<Rightarrow> (string + CallToolResult) \<times> sample_world" where
  "tool_down w name args =
     (case w of (n, m, t) \<Rightarrow> (Inl ''connection refused'', (n, m + 1, t + 1)))"

definition chat_broken ::
  "sample_world \<Rightarrow> string \<Rightarrow> Tool list \<Rightarrow> Message list \<Rightarrow> (string + Response) \<times> sample_world" where
  "chat_broken w prompt catalog history =
     (case w of (n, m, t) \<Rightarrow> (Inl ''quota exceeded'', (n + 1, m, t + 1)))"

definition reads_clock :: "sample_world \<Rightarrow> int \<times> sample_world" where
  "reads_clock w = (case w of (n, m, t) \<Rightarrow> (t, (n, m, t + 1)))"

definition sample_env ::
  "(sample_world \<Rightarrow> string \<Rightarrow> Tool list \<Rightarrow> Message list \<Rightarrow> (string + Response) \<times> sample_world)
   \<Rightarrow> (sample_world \<Rightarrow> string \<Rightarrow> arguments \<Rightarrow> (string + CallToolResult) \<times> sample_world)
   \<Rightarrow> sample_world env" where
  "sample_env chat tool =
     \<lparr>Chat = chat, GetProviderName = ''gemini'', CallTool = tool, Now = reads_clock\<rparr>"

text \<open>Scenario A, a model that never stops asking, and both with the endpoint out of reach.\<close>

definition scenario_env :: "sample_world env" where
  "scenario_env = sample_env chat_once tool_up"

definition insisting_env :: "sample_world env" where
  "insisting_env = sample_env chat_always tool_up"

definition scenario_down_env :: "sample_world env" where
  "scenario_down_env = sample_env chat_once tool_down"

definition insisting_down_env :: "sample_world env" where
  "insisting_down_env = sample_env chat_always tool_down"

definition broken_env :: "sample_world env" where
  "broken_env = sample_env chat_broken tool_up"

definition empty_cache :: ResultCache where
  "empty_cache = NewResultCache CacheTTL"

definition start :: sample_world where
  "start = (0, 0, 0)"

definition orders_call :: ToolCall where
  "orders_call =
     \<lparr>ToolCall.ID = ''call_2'', ToolCall.Name = ''get_blueprint'', Arguments = orders_args\<rparr>"

definition orders_call' :: ToolCall where
  "orders_call' =
     \<lparr>ToolCall.ID = ''call_3'', ToolCall.Name = ''get_blueprint'', Arguments = orders_args'\<rparr>"



definition fresh_state :: loop_state where
  "fresh_state =
     \<lparr>conversationHistory = [], allToolCalls = [], allToolResults = [],
      cacheHits = 0, cacheMisses = 0\<rparr>"

definition list_request :: ChatRequest where
  "list_request = \<lparr>Prompt = ''Which blueprints are there?''\<rparr>"

text \<open>
  A history in which a pass of one call, a sweep, an iteration of another call and a whole
  call follow each other.
\<close>

definition sample_history :: "sample_world cache_op list" where
  "sample_history =
     [Resolve list_call [] fresh_state (1, 0, 1), Sweep 100,
      Iterate 1 (Prompt list_request) fresh_state (2, 1, 120),
      Serve list_request (4, 1, 140)]"

text \<open>
  An endpoint that knows one tool and keeps a log of the calls that reach it, and a client
  that has listed its catalog.
\<close>

definition logging_session :: "(string \<times> arguments) list session" where
  "logging_session =
     \<lparr>Connect = (\<lambda>t. (None, t)),
      session_ListTools = (\<lambda>t. (Inr sample_tools, t)),
      session_CallTool = (\<lambda>t name args.
        (if name = ''list_blueprints''
         then Inr \<lparr>CallToolResult.Content = [TextContent ''[]''],
                   CallToolResult.IsError = False\<rparr>
         else Inl ''unknown tool'',
         t @ [(name, args)]))\<rparr>"

definition refusing_session :: "(string \<times> arguments) list session" where
  "refusing_session = logging_session\<lparr>Connect := (\<lambda>t. (Some ''connection refused'', t))\<rparr>"

definition listed_client :: Client where
  "listed_client = \<lparr>tools_cached = sample_tools, initialized = True\<rparr>"

text \<open>The older client as \<^verbatim>\<open>NewClient\<close> leaves it, when the server will write nothing.\<close>

definition silent_client :: stdio_client where
  "silent_client =
     \<lparr>requestID = 0, pendingCalls = [], callers = [], inbound = [], reading = True\<rparr>"

text \<open>
  The older client with one call outstanding, at the moment when the reader is about to
  find that the stream has ended.
\<close>

definition one_pending :: stdio_client where
  "one_pending =
     \<lparr>requestID = 1, pendingCalls = [(1, None)], callers = [(1, Blocked)],
      inbound = [], reading = True\<rparr>"

text \<open>The same client when the response to the call is still to come.\<close>

definition one_answered :: stdio_client where
  "one_answered =
     one_pending\<lparr>inbound :=
       [Some \<lparr>JSONRPCResponse.ID = NumberID 1, Result = JString ''[]'', Error = None\<rparr>]\<rparr>"

text \<open>The cache that scenario A leaves behind.\<close>

definition scenario_cache :: ResultCache where
  "scenario_cache =
     fst (snd (ProcessPrompt scenario_env sample_lib sample_tools list_request empty_cache start))"





text \<open>
  A server behind the older client that knows one tool and keeps a log of the requests
  that reach it, and a client that has shaken hands and listed its catalog.
\<close>

definition logging_stdio :: "((string \<times> rpc_params) list, string, string) stdio" where
  "logging_stdio =
     \<lparr>rpc_call = (\<lambda>t method params.
        (if method = ''tools/call'' \<and> params \<noteq> ToolCallParams ''list_blueprints'' (Entries [])
         then Returns (Inl ''JSON-RPC error -32602: unknown tool'')
         else Returns (Inr (JString ''[]'')),
         t @ [(method, params)])),
      rpc_notify = (\<lambda>t method. (None, t)),
      marshal_result = (\<lambda>v. case v of JString s \<Rightarrow> Inr (quoted s)
                                      | _ \<Rightarrow> Inl ''unsupported type''),
      unmarshal_InitializeResult = Inr,
      unmarshal_ToolCallResult = Inr\<rparr>"

definition listed_stdio :: "string stdio_fields" where
  "listed_stdio =
     \<lparr>stdio_initialized = True, serverInfo = Some ''server'', stdio_tools = sample_tools\<rparr>"

section \<open>The cache\<close>

lemma map_of_filter_distinct:
  "distinct (map fst al) \<Longrightarrow>
   map_of (filter (\<lambda>(k, v). P v) al) k =
     (case map_of al k of None \<Rightarrow> None | Some v \<Rightarrow> if P v then Some v else None)"
proof (induction al)
  case Nil
  then show ?case by simp
next
  case (Cons p al)
  obtain k' v' where p: "p = (k', v')" by (cases p)
  from Cons.prems p have notin: "k' \<notin> fst ` set al" and d: "distinct (map fst al)"
    by auto
  have none: "map_of al k' = None"
    using notin by (simp add: map_of_eq_None_iff)
  show ?case
    using Cons.IH [OF d] none by (auto simp: p split: option.splits)
qed

lemma Get_Some_iff:
  "Get c now k = Some e \<longleftrightarrow>
     map_of (store c) k = Some e \<and> now - CachedResult.Timestamp e \<le> ttl c"
  by (auto simp: Get_def split: option.splits)

lemma Get_None_iff:
  "Get c now k = None \<longleftrightarrow>
     (\<forall>e. map_of (store c) k = Some e \<longrightarrow> now - CachedResult.Timestamp e > ttl c)"
  by (auto simp: Get_def split: option.splits)

lemma Get_cleanupExpired:
  assumes "distinct (map fst (store c))" "swept \<le> now"
  shows "Get (cleanupExpired c swept) now k = Get c now k"
  using assms(2)
  by (auto simp: Get_def cleanupExpired_def map_of_filter_distinct [OF assms(1)]
           split: option.splits)

lemma Get_Set_same:
  "Get (Set c now k v e) later k =
     (if later - now > ttl c then None
      else Some \<lparr>CachedResult.Content = v, Timestamp = now, CachedResult.IsError = e\<rparr>)"
  by (simp add: Get_def Set_def update_conv')

lemma Get_Set_other:
  "k' \<noteq> k \<Longrightarrow> Get (Set c now k v e) later k' = Get c later k'"
  by (simp add: Get_def Set_def update_conv' split: option.splits)

text \<open>
  C3. \<^verbatim>\<open>Get\<close> returns an entry exactly when the store holds it under the key and its
  age is at most the time to live, and nothing otherwise; a sweep that ran before the
  lookup does not change the answer; an entry stored without error is returned by a lookup
  that follows within the time to live, and is not returned once more than the time to live
  has passed.
\<close>

theorem Get_present_and_fresh:
  "(Get c now k = Some e \<longleftrightarrow>
      map_of (store c) k = Some e \<and> now - CachedResult.Timestamp e \<le> ttl c)
   \<and> (Get c now k = None \<longleftrightarrow>
      (\<forall>e. map_of (store c) k = Some e \<longrightarrow> now - CachedResult.Timestamp e > ttl c))
   \<and> (distinct (map fst (store c)) \<and> swept \<le> now \<longrightarrow>
      Get (cleanupExpired c swept) now k = Get c now k)
   \<and> (later - now \<le> ttl c \<longrightarrow>
      Get (Set c now k v False) later k =
        Some \<lparr>CachedResult.Content = v, Timestamp = now, CachedResult.IsError = False\<rparr>)
   \<and> (later - now > ttl c \<longrightarrow> Get (Set c now k v False) later k = None)"
  using Get_Some_iff [of c now k e] Get_None_iff [of c now k]
    Get_cleanupExpired [of c swept now k] Get_Set_same [of c now k v False later]
  by simp

theorem Get_present_and_fresh_witness:
  "distinct (map fst (store (NewResultCache CacheTTL))) \<and> (50::int) \<le> 60
   \<and> (60::int) - 10 \<le> ttl (NewResultCache CacheTTL)
   \<and> (300000000011::int) - 10 > ttl (NewResultCache CacheTTL)
   \<and> Get (cleanupExpired (NewResultCache CacheTTL) 50) 60 ''k'' =
       Get (NewResultCache CacheTTL) 60 ''k''
   \<and> Get (Set (NewResultCache CacheTTL) 10 ''k'' ''v'' False) 60 ''k'' =
       Some \<lparr>CachedResult.Content = ''v'', Timestamp = 10, CachedResult.IsError = False\<rparr>
   \<and> Get (Set (NewResultCache CacheTTL) 10 ''k'' ''v'' False) 300000000011 ''k'' = None"
  using Get_present_and_fresh [where c = "NewResultCache CacheTTL" and now = 60 and k = "''k''"
      and swept = 50]
    Get_present_and_fresh [where c = "NewResultCache CacheTTL" and now = 10 and k = "''k''"
      and later = 60 and v = "''v''"]
    Get_present_and_fresh [where c = "NewResultCache CacheTTL" and now = 10 and k = "''k''"
      and later = 300000000011 and v = "''v''"]
  by (simp add: NewResultCache_def CacheTTL_def)

section \<open>The cache key\<close>

lemma sort_key_fst_unique:
  fixes xs ys :: "(string \<times> 'a) list"
  assumes "distinct (map fst xs)" "distinct (map fst ys)" "set xs = set ys"
  shows "sort_key fst xs = sort_key fst ys"
proof (rule map_sorted_distinct_set_unique [where f = fst])
  have "inj_on fst (set xs)"
    using assms(1) by (simp add: distinct_map)
  then show "inj_on fst (set (sort_key fst xs) \<union> set (sort_key fst ys))"
    using assms(3) by simp
  show "sorted (map fst (sort_key fst xs))" by simp
  show "sorted (map fst (sort_key fst ys))" by simp
  show "distinct (map fst (sort_key fst xs))"
    using assms(1) by (simp add: distinct_map)
  show "distinct (map fst (sort_key fst ys))"
    using assms(2) by (simp add: distinct_map)
  show "set (sort_key fst xs) = set (sort_key fst ys)"
    using assms(3) by simp
qed

lemma encode_object_same:
  fixes xs ys :: "(string \<times> jvalue) list"
  assumes dx: "distinct (map fst xs)" and dy: "distinct (map fst ys)"
    and keys: "set (map fst xs) = set (map fst ys)"
    and same: "\<And>k v v'. (k, v) \<in> set xs \<Longrightarrow> (k, v') \<in> set ys \<Longrightarrow> f v = f v'"
  shows "encode_object q (map (map_prod id f) xs) = encode_object q (map (map_prod id f) ys)"
proof -
  let ?m = "map_prod id f"
  have sub: "set (map ?m as) \<subseteq> set (map ?m bs)"
    if ks: "set (map fst as) \<subseteq> set (map fst bs)"
      and eq: "\<And>k v v'. (k, v) \<in> set as \<Longrightarrow> (k, v') \<in> set bs \<Longrightarrow> f v = f v'"
    for as bs :: "(string \<times> jvalue) list"
  proof
    fix p assume "p \<in> set (map ?m as)"
    then obtain k v where kv: "(k, v) \<in> set as" and p: "p = (k, f v)"
      by auto
    from kv have "k \<in> set (map fst as)" by force
    then have "k \<in> set (map fst bs)" using ks by blast
    then obtain v' where kv': "(k, v') \<in> set bs" by auto
    from eq [OF kv kv'] have "p = ?m (k, v')" using p by simp
    then show "p \<in> set (map ?m bs)" using kv' by (metis image_eqI set_map)
  qed
  have fsts: "map fst (map ?m zs) = map fst zs" for zs :: "(string \<times> jvalue) list"
    by (induction zs) auto
  have "sort_key fst (map ?m xs) = sort_key fst (map ?m ys)"
  proof (rule sort_key_fst_unique)
    show "distinct (map fst (map ?m xs))"
      using dx by (simp only: fsts)
    show "distinct (map fst (map ?m ys))"
      using dy by (simp only: fsts)
    show "set (map ?m xs) = set (map ?m ys)"
    proof (rule equalityI)
      show "set (map ?m xs) \<subseteq> set (map ?m ys)"
        by (rule sub) (use keys same in auto)
      show "set (map ?m ys) \<subseteq> set (map ?m xs)"
        by (rule sub) (use keys same [symmetric] in auto)
    qed
  qed
  then show ?thesis by (simp add: encode_object_def)
qed

lemma jeq_marshal: "jeq v v' \<Longrightarrow> marshal_value G v = marshal_value G v'"
proof (induction v v' rule: jeq.induct)
  case (6 xs w)
  from "6.prems" obtain ys where w: "w = JArray ys" and all: "list_all2 jeq xs ys"
    by (cases w) auto
  have "list_all2 (\<lambda>x y. marshal_value G x = marshal_value G y) xs ys"
    using all "6.IH" [OF w]
    by (auto simp: list_all2_conv_all_nth)
  then have "map (marshal_value G) xs = map (marshal_value G) ys"
    by (induction xs ys rule: list_all2_induct) auto
  then show ?case by (simp add: w)
next
  case (7 xs w)
  from "7.prems" obtain ys where w: "w = JObject ys"
    and dx: "distinct (map fst xs)" and dy: "distinct (map fst ys)"
    and keys: "set (map fst xs) = set (map fst ys)"
    and vals: "\<forall>(k, v) \<in> set xs. \<forall>(k', v') \<in> set ys. k = k' \<longrightarrow> jeq v v'"
    by (cases w) auto
  have same: "marshal_value G v = marshal_value G v'"
    if "(k, v) \<in> set xs" "(k, v') \<in> set ys" for k v v'
  proof -
    from vals that have "jeq v v'" by fastforce
    with "7.IH" [OF w that(1) refl that(2) refl refl] show ?thesis by simp
  qed
  show ?case
    unfolding w marshal_value.simps
    by (rule encode_object_same [OF dx dy keys same])
qed auto



lemma same_arguments_same_key:
  assumes "same_arguments A1 A2" "is_nil A1 = is_nil A2"
  shows "generateCacheKey G T A1 = generateCacheKey G T A2"
proof (cases A1)
  case NilMap
  with assms(2) have "A2 = NilMap" by (cases A2) auto
  with NilMap show ?thesis by simp
next
  case (Entries xs)
  with assms(2) obtain ys where A2: "A2 = Entries ys" by (cases A2) auto
  from assms(1) Entries A2 have "jeq (JObject xs) (JObject ys)"
    by (simp add: same_entries_def)
  then have "marshal_value G (JObject xs) = marshal_value G (JObject ys)"
    by (rule jeq_marshal)
  then show ?thesis
    by (simp add: generateCacheKey_def json_Marshal_def Entries A2)
qed

text \<open>
  C4, as the code has it. Two argument maps that are equal as sets of key/value pairs,
  in whatever order they and the maps inside them are enumerated, get the same key for
  the same tool, provided both are nil or neither is.
\<close>

theorem generateCacheKey_same_arguments:
  assumes "same_arguments A1 A2" "is_nil A1 = is_nil A2"
  shows "generateCacheKey G T A1 = generateCacheKey G T A2"
  using assms by (rule same_arguments_same_key)

theorem generateCacheKey_same_arguments_witness:
  "same_arguments orders_args orders_args' \<and> is_nil orders_args = is_nil orders_args'
   \<and> orders_args \<noteq> orders_args'
   \<and> generateCacheKey sample_lib ''get_blueprint'' orders_args =
       generateCacheKey sample_lib ''get_blueprint'' orders_args'"
proof -
  have same: "same_arguments orders_args orders_args'"
    by code_simp
  have nil: "is_nil orders_args = is_nil orders_args'"
    by (simp add: orders_args_def orders_args'_def)
  have differ: "orders_args \<noteq> orders_args'"
    by (simp add: orders_args_def orders_args'_def)
  from generateCacheKey_same_arguments [OF same nil] same nil differ
  show ?thesis by simp
qed

text \<open>
  The claim C4 as it is stated fails: the nil map and the empty map have the same
  key/value pairs, none, and are written \<^verbatim>\<open>null\<close> and \<^verbatim>\<open>{}\<close>.
\<close>

theorem generateCacheKey_nil_and_empty:
  "same_arguments NilMap (Entries [])
   \<and> generateCacheKey sample_lib ''list_blueprints'' NilMap = ''list_blueprints:82486d615e1eb3c8''
   \<and> generateCacheKey sample_lib ''list_blueprints'' (Entries []) =
       ''list_blueprints:540a4b5a53f9977b''
   \<and> generateCacheKey sample_lib ''list_blueprints'' NilMap \<noteq>
       generateCacheKey sample_lib ''list_blueprints'' (Entries [])"
  by (simp add: generateCacheKey_def json_Marshal_def encode_object_def sample_lib_def
        sha256_table_def hex_bytes_def hex_digit_def)

section \<open>Resolving an invocation\<close>

declare tool_loop.simps [simp del] chat_outcomes.simps [simp del]

lemma execute_tool_call_hit:
  assumes "Now E w = (now, w1)"
    and "Get c now (generateCacheKey G (ToolCall.Name tc) (Arguments tc)) = Some cached"
  shows "execute_tool_call E G tc (trs, s, c, w) =
    (trs @ [\<lparr>ai_ToolResult.ToolCallID = ToolCall.ID tc,
              ai_ToolResult.Content = CachedResult.Content cached,
              ai_ToolResult.IsError = CachedResult.IsError cached\<rparr>],
     s\<lparr>cacheHits := cacheHits s + 1,
       allToolCalls := allToolCalls s @ [tc],
       allToolResults := allToolResults s @
         [\<lparr>models_ToolResult.ToolCallID = ToolCall.ID tc,
           models_ToolResult.Name = ToolCall.Name tc,
           models_ToolResult.Content = CachedResult.Content cached,
           models_ToolResult.IsError = CachedResult.IsError cached\<rparr>]\<rparr>,
     c, w1)"
  using assms by (simp add: execute_tool_call_def record_result_def Let_def)

lemma execute_tool_call_transport_error:
  assumes "Now E w = (now, w1)"
    and "Get c now (generateCacheKey G (ToolCall.Name tc) (Arguments tc)) = None"
    and "CallTool E w1 (ToolCall.Name tc) (Arguments tc) = (Inl err, w2)"
  shows "execute_tool_call E G tc (trs, s, c, w) =
    (trs @ [\<lparr>ai_ToolResult.ToolCallID = ToolCall.ID tc,
              ai_ToolResult.Content = ''Error calling tool '' @ ToolCall.Name tc @ '': '' @ err,
              ai_ToolResult.IsError = True\<rparr>],
     s\<lparr>cacheMisses := cacheMisses s + 1,
       allToolResults := allToolResults s @
         [\<lparr>models_ToolResult.ToolCallID = ToolCall.ID tc,
           models_ToolResult.Name = ToolCall.Name tc,
           models_ToolResult.Content = ''Error calling tool '' @ ToolCall.Name tc @ '': '' @ err,
           models_ToolResult.IsError = True\<rparr>]\<rparr>,
     c, w2)"
  using assms by (simp add: execute_tool_call_def Let_def)

lemma execute_tool_call_tool_error:
  assumes "Now E w = (now, w1)"
    and "Get c now (generateCacheKey G (ToolCall.Name tc) (Arguments tc)) = None"
    and "CallTool E w1 (ToolCall.Name tc) (Arguments tc) = (Inr res, w2)"
    and "CallToolResult.IsError res"
  shows "execute_tool_call E G tc (trs, s, c, w) =
    (trs @ [\<lparr>ai_ToolResult.ToolCallID = ToolCall.ID tc,
              ai_ToolResult.Content = formatToolResult G res,
              ai_ToolResult.IsError = True\<rparr>],
     s\<lparr>cacheMisses := cacheMisses s + 1,
       allToolCalls := allToolCalls s @ [tc],
       allToolResults := allToolResults s @
         [\<lparr>models_ToolResult.ToolCallID = ToolCall.ID tc,
           models_ToolResult.Name = ToolCall.Name tc,
           models_ToolResult.Content = formatToolResult G res,
           models_ToolResult.IsError = True\<rparr>]\<rparr>,
     c, w2)"
  using assms by (simp add: execute_tool_call_def record_result_def Let_def)

lemma execute_tool_call_stored:
  assumes "Now E w = (now, w1)"
    and "Get c now (generateCacheKey G (ToolCall.Name tc) (Arguments tc)) = None"
    and "CallTool E w1 (ToolCall.Name tc) (Arguments tc) = (Inr res, w2)"
    and "\<not> CallToolResult.IsError res"
    and "Now E w2 = (stored, w3)"
  shows "execute_tool_call E G tc (trs, s, c, w) =
    (trs @ [\<lparr>ai_ToolResult.ToolCallID = ToolCall.ID tc,
              ai_ToolResult.Content = formatToolResult G res,
              ai_ToolResult.IsError = False\<rparr>],
     s\<lparr>cacheMisses := cacheMisses s + 1,
       allToolCalls := allToolCalls s @ [tc],
       allToolResults := allToolResults s @
         [\<lparr>models_ToolResult.ToolCallID = ToolCall.ID tc,
           models_ToolResult.Name = ToolCall.Name tc,
           models_ToolResult.Content = formatToolResult G res,
           models_ToolResult.IsError = False\<rparr>]\<rparr>,
     Set c stored (generateCacheKey G (ToolCall.Name tc) (Arguments tc))
       (formatToolResult G res) False,
     w3)"
  using assms by (simp add: execute_tool_call_def record_result_def Let_def)

text \<open>The four ways through the body of the inner loop.\<close>

lemma execute_tool_call_cases:
  obtains (hit) now w1 cached where
      "Now E w = (now, w1)"
      "Get c now (generateCacheKey G (ToolCall.Name tc) (Arguments tc)) = Some cached"
  | (transport_error) now w1 err w2 where
      "Now E w = (now, w1)"
      "Get c now (generateCacheKey G (ToolCall.Name tc) (Arguments tc)) = None"
      "CallTool E w1 (ToolCall.Name tc) (Arguments tc) = (Inl err, w2)"
  | (tool_error) now w1 res w2 where
      "Now E w = (now, w1)"
      "Get c now (generateCacheKey G (ToolCall.Name tc) (Arguments tc)) = None"
      "CallTool E w1 (ToolCall.Name tc) (Arguments tc) = (Inr res, w2)"
      "CallToolResult.IsError res"
  | (stored) now w1 res w2 stored w3 where
      "Now E w = (now, w1)"
      "Get c now (generateCacheKey G (ToolCall.Name tc) (Arguments tc)) = None"
      "CallTool E w1 (ToolCall.Name tc) (Arguments tc) = (Inr res, w2)"
      "\<not> CallToolResult.IsError res"
      "Now E w2 = (stored, w3)"
proof -
  obtain now w1 where n: "Now E w = (now, w1)" by (cases "Now E w")
  show thesis
  proof (cases "Get c now (generateCacheKey G (ToolCall.Name tc) (Arguments tc))")
    case (Some cached)
    with n show thesis by (rule hit)
  next
    case None
    obtain r w2 where ct: "CallTool E w1 (ToolCall.Name tc) (Arguments tc) = (r, w2)"
      by (cases "CallTool E w1 (ToolCall.Name tc) (Arguments tc)")
    show thesis
    proof (cases r)
      case (Inl err)
      with n None ct show thesis by (auto intro: transport_error)
    next
      case (Inr res)
      obtain stored w3 where n2: "Now E w2 = (stored, w3)" by (cases "Now E w2")
      show thesis
      proof (cases "CallToolResult.IsError res")
        case True
        with n None ct Inr show thesis by (auto intro: tool_error)
      next
        case False
        with n None ct Inr n2 show thesis by (auto intro: stored)
      qed
    qed
  qed
qed


lemma update_entries: "set (AList.update k v al) \<subseteq> insert (k, v) (set al)"
  by (induction al) auto

lemma no_cached_errors_Set:
  "no_cached_errors c \<Longrightarrow> no_cached_errors (Set c now k v False)"
  using update_entries [of k _ "store c"]
  by (fastforce simp: no_cached_errors_def Set_def)

lemma no_cached_errors_cleanupExpired:
  "no_cached_errors c \<Longrightarrow> no_cached_errors (cleanupExpired c now)"
  by (auto simp: no_cached_errors_def cleanupExpired_def)

lemma no_cached_errors_New: "no_cached_errors (NewResultCache t)"
  by (simp add: no_cached_errors_def NewResultCache_def)

lemma no_cached_errors_Get:
  "no_cached_errors c \<Longrightarrow> Get c now k = Some r \<Longrightarrow> \<not> CachedResult.IsError r"
  by (auto simp: no_cached_errors_def Get_def split: option.splits if_splits dest!: map_of_SomeD)

text \<open>What one pass through the body of the inner loop leaves unchanged or extends.\<close>

lemma execute_tool_call_effect:
  assumes "execute_tool_call E G tc (trs, s, c, w) = (trs', s', c', w')"
  shows "\<exists>content failed.
           trs' = trs @ [\<lparr>ai_ToolResult.ToolCallID = ToolCall.ID tc,
                           ai_ToolResult.Content = content,
                           ai_ToolResult.IsError = failed\<rparr>]
           \<and> allToolResults s' = allToolResults s @
                 [\<lparr>models_ToolResult.ToolCallID = ToolCall.ID tc,
                   models_ToolResult.Name = ToolCall.Name tc,
                   models_ToolResult.Content = content,
                   models_ToolResult.IsError = failed\<rparr>]"
    and "conversationHistory s' = conversationHistory s"
    and "ttl c' = ttl c"
    and "no_cached_errors c \<Longrightarrow> no_cached_errors c'"
    and "cacheHits s' + cacheMisses s' = cacheHits s + cacheMisses s + 1"
    and "allToolCalls s' = allToolCalls s @ [tc] \<or> allToolCalls s' = allToolCalls s"
proof -
  consider (hit) now w1 cached where
      "Now E w = (now, w1)"
      "Get c now (generateCacheKey G (ToolCall.Name tc) (Arguments tc)) = Some cached"
  | (transport_error) now w1 err w2 where
      "Now E w = (now, w1)"
      "Get c now (generateCacheKey G (ToolCall.Name tc) (Arguments tc)) = None"
      "CallTool E w1 (ToolCall.Name tc) (Arguments tc) = (Inl err, w2)"
  | (tool_error) now w1 res w2 where
      "Now E w = (now, w1)"
      "Get c now (generateCacheKey G (ToolCall.Name tc) (Arguments tc)) = None"
      "CallTool E w1 (ToolCall.Name tc) (Arguments tc) = (Inr res, w2)"
      "CallToolResult.IsError res"
  | (stored) now w1 res w2 stored w3 where
      "Now E w = (now, w1)"
      "Get c now (generateCacheKey G (ToolCall.Name tc) (Arguments tc)) = None"
      "CallTool E w1 (ToolCall.Name tc) (Arguments tc) = (Inr res, w2)"
      "\<not> CallToolResult.IsError res"
      "Now E w2 = (stored, w3)"
    by (rule execute_tool_call_cases)
  then have "(\<exists>content failed.
           trs' = trs @ [\<lparr>ai_ToolResult.ToolCallID = ToolCall.ID tc,
                           ai_ToolResult.Content = content,
                           ai_ToolResult.IsError = failed\<rparr>]
           \<and> allToolResults s' = allToolResults s @
                 [\<lparr>models_ToolResult.ToolCallID = ToolCall.ID tc,
                   models_ToolResult.Name = ToolCall.Name tc,
                   models_ToolResult.Content = content,
                   models_ToolResult.IsError = failed\<rparr>])
    \<and> conversationHistory s' = conversationHistory s
    \<and> ttl c' = ttl c
    \<and> (no_cached_errors c \<longrightarrow> no_cached_errors c')
    \<and> cacheHits s' + cacheMisses s' = cacheHits s + cacheMisses s + 1
    \<and> (allToolCalls s' = allToolCalls s @ [tc] \<or> allToolCalls s' = allToolCalls s)"
  proof cases
    case hit
    from execute_tool_call_hit [OF hit, of trs s] assms show ?thesis by auto
  next
    case transport_error
    from execute_tool_call_transport_error [OF transport_error, of trs s] assms
    show ?thesis by auto
  next
    case tool_error
    from execute_tool_call_tool_error [OF tool_error, of trs s] assms show ?thesis by auto
  next
    case stored
    from execute_tool_call_stored [OF stored, of trs s] assms show ?thesis
      by (auto simp: no_cached_errors_Set) (simp add: Set_def)
  qed
  then show "\<exists>content failed.
           trs' = trs @ [\<lparr>ai_ToolResult.ToolCallID = ToolCall.ID tc,
                           ai_ToolResult.Content = content,
                           ai_ToolResult.IsError = failed\<rparr>]
           \<and> allToolResults s' = allToolResults s @
                 [\<lparr>models_ToolResult.ToolCallID = ToolCall.ID tc,
                   models_ToolResult.Name = ToolCall.Name tc,
                   models_ToolResult.Content = content,
                   models_ToolResult.IsError = failed\<rparr>]"
    and "conversationHistory s' = conversationHistory s"
    and "ttl c' = ttl c"
    and "no_cached_errors c \<Longrightarrow> no_cached_errors c'"
    and "cacheHits s' + cacheMisses s' = cacheHits s + cacheMisses s + 1"
    and "allToolCalls s' = allToolCalls s @ [tc] \<or> allToolCalls s' = allToolCalls s"
    by blast+
qed


lemma execute_tool_calls_effect:
  assumes "execute_tool_calls E G tcs (trs, s, c, w) = (trs', s', c', w')"
  shows "map ai_ToolResult.ToolCallID trs' = map ai_ToolResult.ToolCallID trs @ map ToolCall.ID tcs"
    and "map (\<lambda>r. (models_ToolResult.ToolCallID r, models_ToolResult.Name r)) (allToolResults s') =
         map (\<lambda>r. (models_ToolResult.ToolCallID r, models_ToolResult.Name r)) (allToolResults s)
         @ map (\<lambda>tc. (ToolCall.ID tc, ToolCall.Name tc)) tcs"
    and "conversationHistory s' = conversationHistory s"
    and "ttl c' = ttl c"
    and "no_cached_errors c \<Longrightarrow> no_cached_errors c'"
    and "cacheHits s' + cacheMisses s' = cacheHits s + cacheMisses s + length tcs"
  using assms
proof (induction tcs arbitrary: trs s c w)
  case Nil
  {
    case 1 then show ?case by simp
  next
    case 2 then show ?case by simp
  next
    case 3 then show ?case by simp
  next
    case 4 then show ?case by simp
  next
    case 5 then show ?case by simp
  next
    case 6 then show ?case by simp
  }
next
  case (Cons tc tcs)
  {
    case 1
    obtain trs1 s1 c1 w1 where one: "execute_tool_call E G tc (trs, s, c, w) = (trs1, s1, c1, w1)"
      by (cases "execute_tool_call E G tc (trs, s, c, w)") auto
    with 1 have rest: "execute_tool_calls E G tcs (trs1, s1, c1, w1) = (trs', s', c', w')"
      by simp
    from Cons.IH(1) [OF rest] execute_tool_call_effect(1) [OF one] show ?case by auto
  next
    case 2
    obtain trs1 s1 c1 w1 where one: "execute_tool_call E G tc (trs, s, c, w) = (trs1, s1, c1, w1)"
      by (cases "execute_tool_call E G tc (trs, s, c, w)") auto
    with 2 have rest: "execute_tool_calls E G tcs (trs1, s1, c1, w1) = (trs', s', c', w')"
      by simp
    from Cons.IH(2) [OF rest] execute_tool_call_effect(1) [OF one] show ?case by auto
  next
    case 3
    obtain trs1 s1 c1 w1 where one: "execute_tool_call E G tc (trs, s, c, w) = (trs1, s1, c1, w1)"
      by (cases "execute_tool_call E G tc (trs, s, c, w)") auto
    with 3 have rest: "execute_tool_calls E G tcs (trs1, s1, c1, w1) = (trs', s', c', w')"
      by simp
    from Cons.IH(3) [OF rest] execute_tool_call_effect(2) [OF one] show ?case by simp
  next
    case 4
    obtain trs1 s1 c1 w1 where one: "execute_tool_call E G tc (trs, s, c, w) = (trs1, s1, c1, w1)"
      by (cases "execute_tool_call E G tc (trs, s, c, w)") auto
    with 4 have rest: "execute_tool_calls E G tcs (trs1, s1, c1, w1) = (trs', s', c', w')"
      by simp
    from Cons.IH(4) [OF rest] execute_tool_call_effect(3) [OF one] show ?case by simp
  next
    case 5
    obtain trs1 s1 c1 w1 where one: "execute_tool_call E G tc (trs, s, c, w) = (trs1, s1, c1, w1)"
      by (cases "execute_tool_call E G tc (trs, s, c, w)") auto
    with 5 have rest: "execute_tool_calls E G tcs (trs1, s1, c1, w1) = (trs', s', c', w')"
      by simp
    from Cons.IH(5) [OF _ rest] execute_tool_call_effect(4) [OF one] 5 show ?case by simp
  next
    case 6
    obtain trs1 s1 c1 w1 where one: "execute_tool_call E G tc (trs, s, c, w) = (trs1, s1, c1, w1)"
      by (cases "execute_tool_call E G tc (trs, s, c, w)") auto
    with 6 have rest: "execute_tool_calls E G tcs (trs1, s1, c1, w1) = (trs', s', c', w')"
      by simp
    from Cons.IH(6) [OF rest] execute_tool_call_effect(5) [OF one] show ?case by simp
  }
qed

section \<open>One iteration and the whole loop\<close>

lemma loop_body_Abort:
  assumes "Chat E w p tools (conversationHistory s) = (Inl err, w1)"
  shows "loop_body E G tools n p s c w = (Abort (''AI provider error: '' @ err), c, w1)"
  using assms by (simp add: loop_body_def)

lemma loop_body_Return:
  assumes "Chat E w p tools (conversationHistory s) = (Inr resp, w1)"
    and "Response.ToolCalls resp = []"
  shows "loop_body E G tools n p s c w =
    (Return (done_response E tools c n
       (s\<lparr>conversationHistory := conversationHistory s @
            [assistant_message (Response.Content resp)]\<rparr>) resp), c, w1)"
  using assms by (simp add: loop_body_def)

lemma loop_body_Continue:
  assumes "Chat E w p tools (conversationHistory s) = (Inr resp, w1)"
    and "Response.ToolCalls resp \<noteq> []"
  obtains trs s2 c2 w2 where
    "execute_tool_calls E G (Response.ToolCalls resp)
       ([], s\<lparr>conversationHistory := conversationHistory s @
                 [assistant_message (Response.Content resp)]\<rparr>, c, w1) = (trs, s2, c2, w2)"
    "loop_body E G tools n p s c w =
       (Continue (formatToolResultsForPrompt trs)
          (s2\<lparr>conversationHistory := conversationHistory s2 @ [tool_results_message trs]\<rparr>),
        c2, w2)"
proof -
  obtain trs s2 c2 w2 where ex:
    "execute_tool_calls E G (Response.ToolCalls resp)
       ([], s\<lparr>conversationHistory := conversationHistory s @
                 [assistant_message (Response.Content resp)]\<rparr>, c, w1) = (trs, s2, c2, w2)"
    by (metis prod_cases4)
  with assms have "loop_body E G tools n p s c w =
       (Continue (formatToolResultsForPrompt trs)
          (s2\<lparr>conversationHistory := conversationHistory s2 @ [tool_results_message trs]\<rparr>),
        c2, w2)"
    by (simp add: loop_body_def)
  with ex show thesis by (rule that)
qed

lemma loop_body_cache:
  assumes "loop_body E G tools n p s c w = (r, c', w')"
  shows "ttl c' = ttl c" and "no_cached_errors c \<Longrightarrow> no_cached_errors c'"
proof -
  obtain o1 w1 where chat: "Chat E w p tools (conversationHistory s) = (o1, w1)"
    by (cases "Chat E w p tools (conversationHistory s)")
  have "ttl c' = ttl c \<and> (no_cached_errors c \<longrightarrow> no_cached_errors c')"
  proof (cases o1)
    case (Inl err)
    with chat loop_body_Abort [of E w p tools s err w1 G n c] assms show ?thesis by simp
  next
    case (Inr resp)
    show ?thesis
    proof (cases "Response.ToolCalls resp = []")
      case True
      with chat Inr loop_body_Return [of E w p tools s resp w1 G n c] assms
      show ?thesis by simp
    next
      case False
      from chat Inr have ch: "Chat E w p tools (conversationHistory s) = (Inr resp, w1)"
        by simp
      from ch False obtain trs s2 c2 w2 where
        ex: "execute_tool_calls E G (Response.ToolCalls resp)
          ([], s\<lparr>conversationHistory := conversationHistory s @
                    [assistant_message (Response.Content resp)]\<rparr>, c, w1) = (trs, s2, c2, w2)"
        and lb: "loop_body E G tools n p s c w =
          (Continue (formatToolResultsForPrompt trs)
            (s2\<lparr>conversationHistory := conversationHistory s2 @ [tool_results_message trs]\<rparr>),
           c2, w2)"
        by (rule loop_body_Continue)
      from lb assms have "c' = c2" by simp
      with execute_tool_calls_effect(4,5) [OF ex] show ?thesis by simp
    qed
  qed
  then show "ttl c' = ttl c" and "no_cached_errors c \<Longrightarrow> no_cached_errors c'"
    by simp_all
qed

lemma tool_loop_exhausted:
  assumes "\<not> iteration < MaxToolIterations"
  shows "tool_loop E G tools iteration p s c w =
           (Inr (limit_response E tools c iteration s), c, w)"
    and "chat_outcomes E G tools iteration p s c w = []"
  using assms by (simp_all add: tool_loop.simps chat_outcomes.simps)

lemma tool_loop_Abort:
  assumes "iteration < MaxToolIterations"
    and "loop_body E G tools (iteration + 1) p s c w = (Abort e, c', w')"
  shows "tool_loop E G tools iteration p s c w = (Inl e, c', w')"
    and "chat_outcomes E G tools iteration p s c w =
           [fst (Chat E w p tools (conversationHistory s))]"
  using assms by (simp_all add: tool_loop.simps [of E G tools iteration]
    chat_outcomes.simps [of E G tools iteration])

lemma tool_loop_Return:
  assumes "iteration < MaxToolIterations"
    and "loop_body E G tools (iteration + 1) p s c w = (Return r, c', w')"
  shows "tool_loop E G tools iteration p s c w = (Inr r, c', w')"
    and "chat_outcomes E G tools iteration p s c w =
           [fst (Chat E w p tools (conversationHistory s))]"
  using assms by (simp_all add: tool_loop.simps [of E G tools iteration]
    chat_outcomes.simps [of E G tools iteration])

lemma tool_loop_Continue:
  assumes "iteration < MaxToolIterations"
    and "loop_body E G tools (iteration + 1) p s c w = (Continue p' s', c', w')"
  shows "tool_loop E G tools iteration p s c w =
           tool_loop E G tools (iteration + 1) p' s' c' w'"
    and "chat_outcomes E G tools iteration p s c w =
           fst (Chat E w p tools (conversationHistory s)) #
           chat_outcomes E G tools (iteration + 1) p' s' c' w'"
  using assms by (simp_all add: tool_loop.simps [of E G tools iteration]
    chat_outcomes.simps [of E G tools iteration])

text \<open>The loop leaves the time to live alone and never stores a failed result.\<close>

lemma tool_loop_cache:
  assumes "tool_loop E G tools iteration p s c w = (r, c', w')"
  shows "ttl c' = ttl c \<and> (no_cached_errors c \<longrightarrow> no_cached_errors c')"
  using assms
proof (induction "MaxToolIterations - iteration" arbitrary: iteration p s c w)
  case 0
  then have "\<not> iteration < MaxToolIterations" by simp
  from tool_loop_exhausted(1) [OF this, of E G tools p s c w] "0.prems" show ?case by simp
next
  case (Suc k)
  then have lt: "iteration < MaxToolIterations" by simp
  obtain st c1 w1 where lb: "loop_body E G tools (iteration + 1) p s c w = (st, c1, w1)"
    by (metis prod_cases3)
  note cache = loop_body_cache [OF lb]
  show ?case
  proof (cases st)
    case (Abort e)
    from tool_loop_Abort(1) [OF lt lb [unfolded Abort]] Suc.prems cache show ?thesis by simp
  next
    case (Return resp)
    from tool_loop_Return(1) [OF lt lb [unfolded Return]] Suc.prems cache show ?thesis by simp
  next
    case (Continue p' s')
    from tool_loop_Continue(1) [OF lt lb [unfolded Continue]] Suc.prems
    have next_run: "tool_loop E G tools (iteration + 1) p' s' c1 w1 = (r, c', w')"
      by simp
    from Suc.hyps(2) have "k = MaxToolIterations - (iteration + 1)" by simp
    from Suc.hyps(1) [OF this next_run] cache show ?thesis by simp
  qed
qed

text \<open>
  The shape of a run that starts with \<open>iteration\<close> passes behind it: every answer but
  the last asks for tools, and the last answer decides how the call ends.
\<close>

lemma run_summary:
  fixes E :: "'w env"
  defines "limit \<equiv> MaxToolIterations"
  shows
  "length (chat_outcomes E G tools iteration p s c w) \<le> limit - iteration
   \<and> (\<forall>x \<in> set (butlast (chat_outcomes E G tools iteration p s c w)). asks_tools x)
   \<and> (iteration < limit \<longrightarrow>
        chat_outcomes E G tools iteration p s c w \<noteq> []
        \<and> (case last (chat_outcomes E G tools iteration p s c w) of
             Inl err \<Rightarrow>
               fst (tool_loop E G tools iteration p s c w) = Inl (''AI provider error: '' @ err)
           | Inr resp \<Rightarrow>
               if Response.ToolCalls resp = []
               then (\<exists>s' c'. fst (tool_loop E G tools iteration p s c w) =
                       Inr (done_response E tools c'
                         (iteration + length (chat_outcomes E G tools iteration p s c w)) s' resp))
               else iteration + length (chat_outcomes E G tools iteration p s c w) = limit
                    \<and> (\<exists>s' c'. fst (tool_loop E G tools iteration p s c w) =
                          Inr (limit_response E tools c' limit s'))))"
proof (induction "limit - iteration" arbitrary: iteration p s c w)
  case 0
  then have ge: "\<not> iteration < MaxToolIterations" by (simp add: limit_def)
  from tool_loop_exhausted(2) [OF ge, of E G tools p s c w] ge show ?case
    by (simp add: limit_def)
next
  case (Suc k)
  then have lt: "iteration < MaxToolIterations" by (simp add: limit_def)
  obtain o1 w1 where chat: "Chat E w p tools (conversationHistory s) = (o1, w1)"
    by (cases "Chat E w p tools (conversationHistory s)")
  show ?case
  proof (cases o1)
    case (Inl err)
    from chat Inl have "loop_body E G tools (iteration + 1) p s c w =
        (Abort (''AI provider error: '' @ err), c, w1)"
      by (simp add: loop_body_Abort)
    from tool_loop_Abort [OF lt this] chat Inl lt show ?thesis
      by (simp add: limit_def)
  next
    case (Inr resp)
    with chat have ch: "Chat E w p tools (conversationHistory s) = (Inr resp, w1)"
      by simp
    show ?thesis
    proof (cases "Response.ToolCalls resp = []")
      case True
      from tool_loop_Return [OF lt loop_body_Return [OF ch True]] ch True lt show ?thesis
        by (auto simp: limit_def)
    next
      case False
      from ch False obtain trs s2 c2 w2 where
        lb: "loop_body E G tools (iteration + 1) p s c w =
          (Continue (formatToolResultsForPrompt trs)
            (s2\<lparr>conversationHistory := conversationHistory s2 @ [tool_results_message trs]\<rparr>),
           c2, w2)"
        by (rule loop_body_Continue)
      let ?p' = "formatToolResultsForPrompt trs"
      let ?s' = "s2\<lparr>conversationHistory := conversationHistory s2 @ [tool_results_message trs]\<rparr>"
      let ?rest = "chat_outcomes E G tools (iteration + 1) ?p' ?s' c2 w2"
      note unfold = tool_loop_Continue [OF lt lb]
      have outcomes: "chat_outcomes E G tools iteration p s c w = Inr resp # ?rest"
        using unfold(2) ch by simp
      from Suc.hyps(2) have k: "k = limit - (iteration + 1)" by simp
      note IH = Suc.hyps(1) [OF k, of ?p' ?s' c2 w2]
      show ?thesis
      proof (cases "iteration + 1 < limit")
        case True
        with IH have ne: "?rest \<noteq> []" by simp
        from IH True ne show ?thesis
          unfolding outcomes unfold(1)
          using False lt by (auto simp: limit_def split: sum.splits if_splits)
      next
        case False
        then have ge: "\<not> iteration + 1 < MaxToolIterations" by (simp add: limit_def)
        from lt ge have last_pass: "Suc iteration = MaxToolIterations" by simp
        from tool_loop_exhausted [OF ge, of E G tools ?p' ?s' c2 w2] lt
          \<open>Response.ToolCalls resp \<noteq> []\<close>
        show ?thesis
          unfolding outcomes unfold(1)
          by (auto simp: limit_def last_pass [symmetric])
      qed
    qed
  qed
qed

lemma done_response_fields:
  "Response (done_response E tools c n s resp) = Response.Content resp"
  "ChatResponse.ToolCalls (done_response E tools c n s resp) = allToolCalls s"
  "ChatResponse.ToolResults (done_response E tools c n s resp) = allToolResults s"
  "map_of (Metadata (done_response E tools c n s resp)) ''iterations'' = Some (MInt (int n))"
  "map_of (Metadata (done_response E tools c n s resp)) ''finish_reason'' =
     Some (MString (FinishReason resp))"
  "map_of (Metadata (done_response E tools c n s resp)) ''max_reached'' = None"
  by (simp_all add: done_response_def)

lemma limit_response_fields:
  "Response (limit_response E tools c n s) =
     ''Maximum tool execution iterations reached. Please try breaking down your request.''"
  "ChatResponse.ToolCalls (limit_response E tools c n s) = allToolCalls s"
  "ChatResponse.ToolResults (limit_response E tools c n s) = allToolResults s"
  "map_of (Metadata (limit_response E tools c n s)) ''iterations'' = Some (MInt (int n))"
  "map_of (Metadata (limit_response E tools c n s)) ''max_reached'' = Some (MBool True)"
  by (simp_all add: limit_response_def)

lemma last_answer_is_final:
  assumes all: "\<forall>x \<in> set (butlast rs). asks_tools x"
    and N: "0 < N" "N \<le> length rs" and final: "\<not> asks_tools (rs ! (N - 1))"
  shows "N = length rs" and "last rs = rs ! (N - 1)"
proof -
  have "\<not> N - 1 < length (butlast rs)"
  proof
    assume lt: "N - 1 < length (butlast rs)"
    then have "butlast rs ! (N - 1) \<in> set (butlast rs)" by (rule nth_mem)
    with all have "asks_tools (butlast rs ! (N - 1))" by blast
    with lt final show False by (simp add: nth_butlast)
  qed
  with N show "N = length rs" by simp
  with N show "last rs = rs ! (N - 1)" by (simp add: last_conv_nth)
qed

text \<open>
  C1. Let \<open>rs\<close> be the answers of the adapter in a call of \<^verbatim>\<open>ProcessPrompt\<close>. If the
  answer of iteration \<open>N\<close> asks for no tool, then \<open>N\<close> is at most 5, it is the last
  iteration, and the call returns without error the text of that answer with
  \<open>iterations = N\<close> and the finish reason of the adapter. If every answer asks for a tool,
  there are exactly 5 answers and the call returns without error the fixed advisory message
  with \<open>iterations = 5\<close> and \<open>max_reached = true\<close>.
\<close>

theorem ProcessPrompt_iterations:
  fixes E :: "'w env" and G tools request c w
  defines "rs \<equiv> adapter_outcomes E G tools request c w"
  shows
  "(0 < N \<and> N \<le> length rs \<and> rs ! (N - 1) = Inr resp \<and> Response.ToolCalls resp = [] \<longrightarrow>
      N \<le> 5 \<and> N = length rs
      \<and> (\<exists>r c' w'. ProcessPrompt E G tools request c w = (Inr r, c', w')
            \<and> Response r = Response.Content resp
            \<and> map_of (Metadata r) ''iterations'' = Some (MInt (int N))
            \<and> map_of (Metadata r) ''finish_reason'' = Some (MString (FinishReason resp))
            \<and> map_of (Metadata r) ''max_reached'' = None))
   \<and> ((\<forall>x \<in> set rs. asks_tools x) \<longrightarrow>
      length rs = 5
      \<and> (\<exists>r c' w'. ProcessPrompt E G tools request c w = (Inr r, c', w')
            \<and> Response r =
                ''Maximum tool execution iterations reached. Please try breaking down your request.''
            \<and> map_of (Metadata r) ''iterations'' = Some (MInt 5)
            \<and> map_of (Metadata r) ''max_reached'' = Some (MBool True)))"
proof -
  let ?s0 = "\<lparr>conversationHistory = [], allToolCalls = [], allToolResults = [],
              cacheHits = 0, cacheMisses = 0\<rparr>"
  let ?run = "tool_loop E G tools 0 (Prompt request) ?s0 c w"
  have rs: "rs = chat_outcomes E G tools 0 (Prompt request) ?s0 c w"
    by (simp add: rs_def adapter_outcomes_def)
  have run: "ProcessPrompt E G tools request c w = ?run"
    by (simp add: ProcessPrompt_def)
  note summary = run_summary [of E G tools 0 "Prompt request" ?s0 c w, folded rs]
  from summary have len: "length rs \<le> 5"
    and all: "\<forall>x \<in> set (butlast rs). asks_tools x" and ne: "rs \<noteq> []"
    by (simp_all add: MaxToolIterations_def)
  from summary have ending:
    "case last rs of
       Inl err \<Rightarrow> fst ?run = Inl (''AI provider error: '' @ err)
     | Inr resp \<Rightarrow>
         if Response.ToolCalls resp = []
         then (\<exists>s' c'. fst ?run = Inr (done_response E tools c' (length rs) s' resp))
         else length rs = 5 \<and> (\<exists>s' c'. fst ?run = Inr (limit_response E tools c' 5 s'))"
    by (auto simp: MaxToolIterations_def split: sum.splits if_splits)
  have final: ?thesis if N: "0 < N" "N \<le> length rs" and at: "rs ! (N - 1) = Inr resp"
    and none: "Response.ToolCalls resp = []" and other: "\<not> (\<forall>x \<in> set rs. asks_tools x)"
  proof -
    from at none have "\<not> asks_tools (rs ! (N - 1))" by simp
    from last_answer_is_final [OF all N this] at
    have N_eq: "N = length rs" and last: "last rs = Inr resp" by simp_all
    from ending last none obtain s' c' where
      "fst ?run = Inr (done_response E tools c' (length rs) s' resp)"
      by auto
    then obtain c'' w'' where
      "?run = (Inr (done_response E tools c' (length rs) s' resp), c'', w'')"
      by (cases ?run) auto
    with N_eq len other show ?thesis
      unfolding run by (auto simp: done_response_fields)
  qed
  have ceiling: "length rs = 5
      \<and> (\<exists>r c' w'. ProcessPrompt E G tools request c w = (Inr r, c', w')
            \<and> Response r =
                ''Maximum tool execution iterations reached. Please try breaking down your request.''
            \<and> map_of (Metadata r) ''iterations'' = Some (MInt 5)
            \<and> map_of (Metadata r) ''max_reached'' = Some (MBool True))"
    if every: "\<forall>x \<in> set rs. asks_tools x"
  proof -
    from ne every have "asks_tools (last rs)" by simp
    then obtain resp' where last: "last rs = Inr resp'" and some: "Response.ToolCalls resp' \<noteq> []"
      by (cases "last rs") auto
    from ending last some obtain s' c' where five: "length rs = 5"
      and "fst ?run = Inr (limit_response E tools c' 5 s')"
      by auto
    then obtain c'' w'' where "?run = (Inr (limit_response E tools c' 5 s'), c'', w'')"
      by (cases ?run) auto
    with five show ?thesis
      unfolding run by (auto simp: limit_response_fields)
  qed
  show ?thesis
  proof (cases "\<forall>x \<in> set rs. asks_tools x")
    case True
    have "\<not> (0 < N \<and> N \<le> length rs \<and> rs ! (N - 1) = Inr resp \<and> Response.ToolCalls resp = [])"
    proof
      assume a: "0 < N \<and> N \<le> length rs \<and> rs ! (N - 1) = Inr resp \<and> Response.ToolCalls resp = []"
      then have "N - 1 < length rs" by auto
      then have "rs ! (N - 1) \<in> set rs" by (rule nth_mem)
      with True have "asks_tools (rs ! (N - 1))" by blast
      with a show False by simp
    qed
    with ceiling [OF True] True show ?thesis by blast
  next
    case False
    with final show ?thesis by blast
  qed
qed

lemma scenario_outcomes:
  "adapter_outcomes scenario_env sample_lib sample_tools list_request empty_cache start =
     [Inr asks_list, Inr answers]"
  by code_simp

lemma insisting_outcomes:
  "adapter_outcomes insisting_env sample_lib sample_tools list_request empty_cache start =
     [Inr asks_list, Inr asks_list, Inr asks_list, Inr asks_list, Inr asks_list]"
  by code_simp

theorem ProcessPrompt_iterations_witness:
  "adapter_outcomes scenario_env sample_lib sample_tools list_request empty_cache start =
     [Inr asks_list, Inr answers]
   \<and> Response.ToolCalls answers = []
   \<and> (\<exists>r c' w'.
         ProcessPrompt scenario_env sample_lib sample_tools list_request empty_cache start =
           (Inr r, c', w')
         \<and> Response r = ''No blueprints found''
         \<and> map_of (Metadata r) ''iterations'' = Some (MInt 2))
   \<and> adapter_outcomes insisting_env sample_lib sample_tools list_request empty_cache start =
       [Inr asks_list, Inr asks_list, Inr asks_list, Inr asks_list, Inr asks_list]
   \<and> Response.ToolCalls asks_list \<noteq> []
   \<and> (\<exists>r c' w'.
         ProcessPrompt insisting_env sample_lib sample_tools list_request empty_cache start =
           (Inr r, c', w')
         \<and> map_of (Metadata r) ''iterations'' = Some (MInt 5)
         \<and> map_of (Metadata r) ''max_reached'' = Some (MBool True))"
proof -
  note a = ProcessPrompt_iterations [of 2 scenario_env sample_lib sample_tools list_request
    empty_cache start answers, unfolded scenario_outcomes]
  note b = ProcessPrompt_iterations [of 0 insisting_env sample_lib sample_tools list_request
    empty_cache start answers, unfolded insisting_outcomes]
  have none: "Response.ToolCalls answers = []" and some: "Response.ToolCalls asks_list \<noteq> []"
    by (simp_all add: answers_def asks_list_def)
  from a none have
    "\<exists>r c' w'.
       ProcessPrompt scenario_env sample_lib sample_tools list_request empty_cache start =
         (Inr r, c', w')
       \<and> Response r = ''No blueprints found''
       \<and> map_of (Metadata r) ''iterations'' = Some (MInt 2)"
    by (auto simp: answers_def)
  moreover from b some have
    "\<exists>r c' w'.
       ProcessPrompt insisting_env sample_lib sample_tools list_request empty_cache start =
         (Inr r, c', w')
       \<and> map_of (Metadata r) ''iterations'' = Some (MInt 5)
       \<and> map_of (Metadata r) ''max_reached'' = Some (MBool True)"
    by auto
  ultimately show ?thesis
    using scenario_outcomes insisting_outcomes none some by simp
qed

section \<open>A call that asks for one tool and then answers\<close>

text \<open>
  The run of scenario A and of scenario B, for any collaborators: the first answer asks
  for one tool, the pass through the inner loop resolves it, the second answer asks for
  none.
\<close>

lemma one_tool_then_answer:
  fixes E :: "'w env"
  assumes first: "Chat E w (Prompt request) tools [] = (Inr resp1, w1)"
    and one: "Response.ToolCalls resp1 = [tc]"
    and pass: "execute_tool_call E G tc
       ([], \<lparr>conversationHistory = [assistant_message (Response.Content resp1)],
              allToolCalls = [], allToolResults = [], cacheHits = 0, cacheMisses = 0\<rparr>,
        c, w1) = (trs, s2, c2, w2)"
    and second: "Chat E w2 (formatToolResultsForPrompt trs) tools
       [assistant_message (Response.Content resp1), tool_results_message trs] = (Inr resp2, w3)"
    and none: "Response.ToolCalls resp2 = []"
  shows "ProcessPrompt E G tools request c w =
     (Inr (done_response E tools c2 2
        (s2\<lparr>conversationHistory :=
              [assistant_message (Response.Content resp1), tool_results_message trs,
               assistant_message (Response.Content resp2)]\<rparr>) resp2), c2, w3)"
    and "adapter_outcomes E G tools request c w = [Inr resp1, Inr resp2]"
proof -
  let ?s0 = "\<lparr>conversationHistory = [], allToolCalls = [], allToolResults = [],
              cacheHits = 0, cacheMisses = 0\<rparr>"
  let ?p' = "formatToolResultsForPrompt trs"
  let ?s' = "s2\<lparr>conversationHistory :=
              [assistant_message (Response.Content resp1), tool_results_message trs]\<rparr>"
  have hist: "conversationHistory s2 = [assistant_message (Response.Content resp1)]"
    using execute_tool_call_effect(2) [OF pass] by simp
  have body1: "loop_body E G tools (0 + 1) (Prompt request) ?s0 c w = (Continue ?p' ?s', c2, w2)"
    using first one pass hist by (simp add: loop_body_def)
  have lt0: "(0::nat) < MaxToolIterations" and lt1: "(0::nat) + 1 < MaxToolIterations"
    by (simp_all add: MaxToolIterations_def)
  have chat2: "Chat E w2 ?p' tools (conversationHistory ?s') = (Inr resp2, w3)"
    using second by simp
  note body2 = loop_body_Return [OF chat2 none, of G "0 + 1 + 1" c2]
  note step1 = tool_loop_Continue [OF lt0 body1]
  note step2 = tool_loop_Return [OF lt1 body2]
  show "ProcessPrompt E G tools request c w =
     (Inr (done_response E tools c2 2
        (s2\<lparr>conversationHistory :=
              [assistant_message (Response.Content resp1), tool_results_message trs,
               assistant_message (Response.Content resp2)]\<rparr>) resp2), c2, w3)"
    unfolding ProcessPrompt_def step1(1) step2(1) by (simp add: numeral_2_eq_2)
  show "adapter_outcomes E G tools request c w = [Inr resp1, Inr resp2]"
    unfolding adapter_outcomes_def step1(2) step2(2) using first chat2 by simp
qed

text \<open>The answers of such a run tell what \<^verbatim>\<open>Chat\<close> returned in it.\<close>

lemma one_tool_then_answer_chats:
  fixes E :: "'w env"
  assumes rs: "adapter_outcomes E G tools request c w = [Inr resp1, Inr resp2]"
    and one: "Response.ToolCalls resp1 = [tc]"
    and pass: "execute_tool_call E G tc
       ([], \<lparr>conversationHistory = [assistant_message (Response.Content resp1)],
              allToolCalls = [], allToolResults = [], cacheHits = 0, cacheMisses = 0\<rparr>,
        c, snd (Chat E w (Prompt request) tools [])) = (trs, s2, c2, w2)"
  shows "Chat E w (Prompt request) tools [] =
           (Inr resp1, snd (Chat E w (Prompt request) tools []))"
    and "Chat E w2 (formatToolResultsForPrompt trs) tools
           [assistant_message (Response.Content resp1), tool_results_message trs] =
         (Inr resp2,
          snd (Chat E w2 (formatToolResultsForPrompt trs) tools
                 [assistant_message (Response.Content resp1), tool_results_message trs]))"
proof -
  let ?s0 = "\<lparr>conversationHistory = [], allToolCalls = [], allToolResults = [],
              cacheHits = 0, cacheMisses = 0\<rparr>"
  let ?p' = "formatToolResultsForPrompt trs"
  let ?s' = "s2\<lparr>conversationHistory :=
              [assistant_message (Response.Content resp1), tool_results_message trs]\<rparr>"
  have lt0: "(0::nat) < MaxToolIterations" and lt1: "(0::nat) + 1 < MaxToolIterations"
    by (simp_all add: MaxToolIterations_def)
  obtain o1 w1 where ch: "Chat E w (Prompt request) tools [] = (o1, w1)"
    by (cases "Chat E w (Prompt request) tools []") auto
  from rs lt0 have "fst (Chat E w (Prompt request) tools []) = Inr resp1"
    by (simp add: adapter_outcomes_def chat_outcomes.simps [of E G tools 0])
  with ch have first: "Chat E w (Prompt request) tools [] = (Inr resp1, w1)"
    by simp
  then show "Chat E w (Prompt request) tools [] =
      (Inr resp1, snd (Chat E w (Prompt request) tools []))"
    by simp
  from pass first have pass': "execute_tool_call E G tc
       ([], \<lparr>conversationHistory = [assistant_message (Response.Content resp1)],
              allToolCalls = [], allToolResults = [], cacheHits = 0, cacheMisses = 0\<rparr>,
        c, w1) = (trs, s2, c2, w2)"
    by simp
  have hist: "conversationHistory s2 = [assistant_message (Response.Content resp1)]"
    using execute_tool_call_effect(2) [OF pass'] by simp
  have body1: "loop_body E G tools (0 + 1) (Prompt request) ?s0 c w = (Continue ?p' ?s', c2, w2)"
    using first one pass' hist by (simp add: loop_body_def)
  from tool_loop_Continue(2) [OF lt0 body1] rs
  have rest: "chat_outcomes E G tools (0 + 1) ?p' ?s' c2 w2 = [Inr resp2]"
    by (simp add: adapter_outcomes_def)
  from rest lt1 have "fst (Chat E w2 ?p' tools (conversationHistory ?s')) = Inr resp2"
    by (simp add: chat_outcomes.simps [of E G tools "Suc 0"])
  then show "Chat E w2 ?p' tools
      [assistant_message (Response.Content resp1), tool_results_message trs] =
      (Inr resp2,
       snd (Chat E w2 ?p' tools
              [assistant_message (Response.Content resp1), tool_results_message trs]))"
    by (simp add: prod_eq_iff)
qed

lemma one_tool_run:
  fixes E :: "'w env"
  assumes first: "Chat E w (Prompt request) tools [] = (Inr resp1, w1)"
    and one: "Response.ToolCalls resp1 = [tc]"
    and pass: "execute_tool_call E G tc
       ([], \<lparr>conversationHistory = [assistant_message (Response.Content resp1)],
              allToolCalls = [], allToolResults = [], cacheHits = 0, cacheMisses = 0\<rparr>,
        c, w1) = (trs, s2, c2, w2)"
    and rs: "adapter_outcomes E G tools request c w = [Inr resp1, Inr resp2]"
    and none: "Response.ToolCalls resp2 = []"
  shows "ProcessPrompt E G tools request c w =
     (Inr (done_response E tools c2 2
        (s2\<lparr>conversationHistory :=
              [assistant_message (Response.Content resp1), tool_results_message trs,
               assistant_message (Response.Content resp2)]\<rparr>) resp2), c2,
      snd (Chat E w2 (formatToolResultsForPrompt trs) tools
             [assistant_message (Response.Content resp1), tool_results_message trs]))"
    and "Chat E w2 (formatToolResultsForPrompt trs) tools
           [assistant_message (Response.Content resp1), tool_results_message trs] =
         (Inr resp2,
          snd (Chat E w2 (formatToolResultsForPrompt trs) tools
                 [assistant_message (Response.Content resp1), tool_results_message trs]))"
proof -
  from first have w1: "snd (Chat E w (Prompt request) tools []) = w1"
    by simp
  from pass have pass': "execute_tool_call E G tc
       ([], \<lparr>conversationHistory = [assistant_message (Response.Content resp1)],
              allToolCalls = [], allToolResults = [], cacheHits = 0, cacheMisses = 0\<rparr>,
        c, snd (Chat E w (Prompt request) tools [])) = (trs, s2, c2, w2)"
    unfolding w1 .
  show second: "Chat E w2 (formatToolResultsForPrompt trs) tools
           [assistant_message (Response.Content resp1), tool_results_message trs] =
         (Inr resp2,
          snd (Chat E w2 (formatToolResultsForPrompt trs) tools
                 [assistant_message (Response.Content resp1), tool_results_message trs]))"
    by (rule one_tool_then_answer_chats(2) [OF rs one pass'])
  show "ProcessPrompt E G tools request c w =
     (Inr (done_response E tools c2 2
        (s2\<lparr>conversationHistory :=
              [assistant_message (Response.Content resp1), tool_results_message trs,
               assistant_message (Response.Content resp2)]\<rparr>) resp2), c2,
      snd (Chat E w2 (formatToolResultsForPrompt trs) tools
             [assistant_message (Response.Content resp1), tool_results_message trs]))"
    by (rule one_tool_then_answer(1) [OF first one pass second none])
qed

text \<open>The call when the one invocation is found in the cache.\<close>

lemma run_hit:
  fixes E :: "'w env"
  assumes first: "Chat E w (Prompt request) tools [] = (Inr resp1, w1)"
    and one: "Response.ToolCalls resp1 = [tc]"
    and n: "Now E w1 = (now, w2)"
    and g: "Get c now (generateCacheKey G (ToolCall.Name tc) (Arguments tc)) = Some cached"
    and rs: "adapter_outcomes E G tools request c w = [Inr resp1, Inr resp2]"
    and none: "Response.ToolCalls resp2 = []"
  shows "\<exists>r w'. ProcessPrompt E G tools request c w = (Inr r, c, w')
           \<and> Response r = Response.Content resp2
           \<and> ChatResponse.ToolCalls r = [tc]
           \<and> ChatResponse.ToolResults r =
               [\<lparr>models_ToolResult.ToolCallID = ToolCall.ID tc,
                 models_ToolResult.Name = ToolCall.Name tc,
                 models_ToolResult.Content = CachedResult.Content cached,
                 models_ToolResult.IsError = CachedResult.IsError cached\<rparr>]
           \<and> map_of (Metadata r) ''iterations'' = Some (MInt 2)
           \<and> map_of (Metadata r) ''cache_hits'' = Some (MInt 1)
           \<and> map_of (Metadata r) ''cache_misses'' = Some (MInt 0)"
    and "ProcessPrompt (E\<lparr>CallTool := other\<rparr>) G tools request c w =
         ProcessPrompt E G tools request c w"
proof -
  let ?s1 = "\<lparr>conversationHistory = [assistant_message (Response.Content resp1)],
              allToolCalls = [], allToolResults = [], cacheHits = 0, cacheMisses = 0\<rparr>"
  let ?E = "E\<lparr>CallTool := other\<rparr>"
  note pass = execute_tool_call_hit [OF n g, of "[]" ?s1]
  note run = one_tool_run [OF first one pass rs none]
  from run(1) show "\<exists>r w'. ProcessPrompt E G tools request c w = (Inr r, c, w')
           \<and> Response r = Response.Content resp2
           \<and> ChatResponse.ToolCalls r = [tc]
           \<and> ChatResponse.ToolResults r =
               [\<lparr>models_ToolResult.ToolCallID = ToolCall.ID tc,
                 models_ToolResult.Name = ToolCall.Name tc,
                 models_ToolResult.Content = CachedResult.Content cached,
                 models_ToolResult.IsError = CachedResult.IsError cached\<rparr>]
           \<and> map_of (Metadata r) ''iterations'' = Some (MInt 2)
           \<and> map_of (Metadata r) ''cache_hits'' = Some (MInt 1)
           \<and> map_of (Metadata r) ''cache_misses'' = Some (MInt 0)"
    by (simp add: done_response_def)
  have first': "Chat ?E w (Prompt request) tools [] = (Inr resp1, w1)"
    using first by simp
  have n': "Now ?E w1 = (now, w2)"
    using n by simp
  note pass' = execute_tool_call_hit [OF n' g, of "[]" ?s1]
  let ?trs = "[] @ [\<lparr>ai_ToolResult.ToolCallID = ToolCall.ID tc,
                     ai_ToolResult.Content = CachedResult.Content cached,
                     ai_ToolResult.IsError = CachedResult.IsError cached\<rparr>]"
  have second': "Chat ?E w2 (formatToolResultsForPrompt ?trs) tools
      [assistant_message (Response.Content resp1), tool_results_message ?trs] =
      (Inr resp2,
       snd (Chat E w2 (formatToolResultsForPrompt ?trs) tools
        [assistant_message (Response.Content resp1), tool_results_message ?trs]))"
    using run(2) by simp
  from one_tool_then_answer(1) [OF first' one pass' second' none] run(1)
  show "ProcessPrompt ?E G tools request c w = ProcessPrompt E G tools request c w"
    by (simp add: done_response_def)
qed

text \<open>The call when the one invocation is not found in the cache.\<close>

lemma run_miss:
  fixes E :: "'w env"
  assumes first: "Chat E w (Prompt request) tools [] = (Inr resp1, w1)"
    and one: "Response.ToolCalls resp1 = [tc]"
    and n: "Now E w1 = (now, w2)"
    and g: "Get c now (generateCacheKey G (ToolCall.Name tc) (Arguments tc)) = None"
    and ct: "CallTool E w2 (ToolCall.Name tc) (Arguments tc) = (outcome, w3)"
    and rs: "adapter_outcomes E G tools request c w = [Inr resp1, Inr resp2]"
    and none: "Response.ToolCalls resp2 = []"
  shows "\<exists>r c' w'. ProcessPrompt E G tools request c w = (Inr r, c', w')
           \<and> Response r = Response.Content resp2
           \<and> ChatResponse.ToolCalls r = (case outcome of Inl err \<Rightarrow> [] | Inr res \<Rightarrow> [tc])
           \<and> ChatResponse.ToolResults r =
               [case outcome of
                  Inl err \<Rightarrow>
                    \<lparr>models_ToolResult.ToolCallID = ToolCall.ID tc,
                     models_ToolResult.Name = ToolCall.Name tc,
                     models_ToolResult.Content =
                       ''Error calling tool '' @ ToolCall.Name tc @ '': '' @ err,
                     models_ToolResult.IsError = True\<rparr>
                | Inr res \<Rightarrow>
                    \<lparr>models_ToolResult.ToolCallID = ToolCall.ID tc,
                     models_ToolResult.Name = ToolCall.Name tc,
                     models_ToolResult.Content = formatToolResult G res,
                     models_ToolResult.IsError = CallToolResult.IsError res\<rparr>]
           \<and> map_of (Metadata r) ''iterations'' = Some (MInt 2)
           \<and> map_of (Metadata r) ''cache_hits'' = Some (MInt 0)
           \<and> map_of (Metadata r) ''cache_misses'' = Some (MInt 1)
           \<and> c' = (case outcome of
                     Inl err \<Rightarrow> c
                   | Inr res \<Rightarrow>
                       if CallToolResult.IsError res then c
                       else Set c (fst (Now E w3))
                              (generateCacheKey G (ToolCall.Name tc) (Arguments tc))
                              (formatToolResult G res) False)"
proof -
  let ?s1 = "\<lparr>conversationHistory = [assistant_message (Response.Content resp1)],
              allToolCalls = [], allToolResults = [], cacheHits = 0, cacheMisses = 0\<rparr>"
  show ?thesis
  proof (cases outcome)
    case (Inl err)
    note pass = execute_tool_call_transport_error [OF n g ct [unfolded Inl], of "[]" ?s1]
    from one_tool_run(1) [OF first one pass rs none] Inl show ?thesis
      by (simp add: done_response_def)
  next
    case (Inr res)
    show ?thesis
    proof (cases "CallToolResult.IsError res")
      case True
      note pass = execute_tool_call_tool_error [OF n g ct [unfolded Inr] True, of "[]" ?s1]
      from one_tool_run(1) [OF first one pass rs none] Inr True show ?thesis
        by (simp add: done_response_def)
    next
      case False
      obtain stored w4 where n2: "Now E w3 = (stored, w4)" by (cases "Now E w3")
      note pass = execute_tool_call_stored [OF n g ct [unfolded Inr] False n2, of "[]" ?s1]
      from one_tool_run(1) [OF first one pass rs none] Inr False n2 show ?thesis
        by (simp add: done_response_def)
    qed
  qed
qed

text \<open>
  A second call, after one that stored the result of its invocation, with an invocation
  of the same key within the time to live.
\<close>

lemma run_repeat:
  fixes E :: "'w env"
  assumes first: "Chat E w (Prompt request) tools [] = (Inr resp1, w1)"
    and one: "Response.ToolCalls resp1 = [tc]"
    and n: "Now E w1 = (now, w2)"
    and g: "Get c now (generateCacheKey G (ToolCall.Name tc) (Arguments tc)) = None"
    and ct: "CallTool E w2 (ToolCall.Name tc) (Arguments tc) = (Inr res, w3)"
    and ok: "\<not> CallToolResult.IsError res"
    and n2: "Now E w3 = (stored, w4)"
    and rs: "adapter_outcomes E G tools request c w = [Inr resp1, Inr resp2]"
    and none: "Response.ToolCalls resp2 = []"
    and key: "generateCacheKey G (ToolCall.Name again) (Arguments again) =
              generateCacheKey G (ToolCall.Name tc) (Arguments tc)"
    and first': "Chat E v (Prompt request') tools [] = (Inr resp3, v1)"
    and one': "Response.ToolCalls resp3 = [again]"
    and n': "Now E v1 = (later, v2)"
    and fresh: "later - stored \<le> ttl c"
    and rs': "adapter_outcomes E G tools request'
                (fst (snd (ProcessPrompt E G tools request c w))) v = [Inr resp3, Inr resp4]"
    and none': "Response.ToolCalls resp4 = []"
  shows "\<exists>r w'. ProcessPrompt E G tools request'
                  (fst (snd (ProcessPrompt E G tools request c w))) v =
                (Inr r, fst (snd (ProcessPrompt E G tools request c w)), w')
           \<and> Response r = Response.Content resp4
           \<and> ChatResponse.ToolCalls r = [again]
           \<and> ChatResponse.ToolResults r =
               [\<lparr>models_ToolResult.ToolCallID = ToolCall.ID again,
                 models_ToolResult.Name = ToolCall.Name again,
                 models_ToolResult.Content = formatToolResult G res,
                 models_ToolResult.IsError = False\<rparr>]
           \<and> map_of (Metadata r) ''iterations'' = Some (MInt 2)
           \<and> map_of (Metadata r) ''cache_hits'' = Some (MInt 1)
           \<and> map_of (Metadata r) ''cache_misses'' = Some (MInt 0)"
    and "ProcessPrompt (E\<lparr>CallTool := other\<rparr>) G tools request'
           (fst (snd (ProcessPrompt E G tools request c w))) v =
         ProcessPrompt E G tools request' (fst (snd (ProcessPrompt E G tools request c w))) v"
proof -
  let ?s1 = "\<lparr>conversationHistory = [assistant_message (Response.Content resp1)],
              allToolCalls = [], allToolResults = [], cacheHits = 0, cacheMisses = 0\<rparr>"
  let ?key = "generateCacheKey G (ToolCall.Name tc) (Arguments tc)"
  let ?c1 = "Set c stored ?key (formatToolResult G res) False"
  let ?entry = "\<lparr>CachedResult.Content = formatToolResult G res, Timestamp = stored,
                 CachedResult.IsError = False\<rparr>"
  note pass = execute_tool_call_stored [OF n g ct ok n2, of "[]" ?s1]
  from one_tool_run(1) [OF first one pass rs none]
  have c1: "fst (snd (ProcessPrompt E G tools request c w)) = ?c1"
    by simp
  from fresh have "Get ?c1 later ?key = Some ?entry"
    by (simp add: Get_Set_same)
  with key have found:
    "Get ?c1 later (generateCacheKey G (ToolCall.Name again) (Arguments again)) = Some ?entry"
    by simp
  note hit = run_hit [OF first' one' n' found rs' [unfolded c1] none']
  from hit(1) show "\<exists>r w'. ProcessPrompt E G tools request'
                  (fst (snd (ProcessPrompt E G tools request c w))) v =
                (Inr r, fst (snd (ProcessPrompt E G tools request c w)), w')
           \<and> Response r = Response.Content resp4
           \<and> ChatResponse.ToolCalls r = [again]
           \<and> ChatResponse.ToolResults r =
               [\<lparr>models_ToolResult.ToolCallID = ToolCall.ID again,
                 models_ToolResult.Name = ToolCall.Name again,
                 models_ToolResult.Content = formatToolResult G res,
                 models_ToolResult.IsError = False\<rparr>]
           \<and> map_of (Metadata r) ''iterations'' = Some (MInt 2)
           \<and> map_of (Metadata r) ''cache_hits'' = Some (MInt 1)
           \<and> map_of (Metadata r) ''cache_misses'' = Some (MInt 0)"
    unfolding c1 by simp
  from hit(2) show "ProcessPrompt (E\<lparr>CallTool := other\<rparr>) G tools request'
           (fst (snd (ProcessPrompt E G tools request c w))) v =
         ProcessPrompt E G tools request' (fst (snd (ProcessPrompt E G tools request c w))) v"
    unfolding c1 .
qed

section \<open>The passes of an iteration and the counters of a call\<close>

lemma execute_tool_calls_append:
  "execute_tool_calls E G (xs @ ys) st = execute_tool_calls E G ys (execute_tool_calls E G xs st)"
  by (induction xs arbitrary: st) simp_all

text \<open>
  An iteration whose answer asks for tools runs one pass for each invocation, each from
  the state, the cache and the world that the passes before it left.
\<close>

lemma loop_body_passes:
  fixes E :: "'w env"
  assumes chat: "Chat E w p tools (conversationHistory s) = (Inr resp, w1)"
    and split: "Response.ToolCalls resp = before @ tc # rest"
  shows "loop_body E G tools iteration p s c w =
     (case execute_tool_calls E G rest
             (execute_tool_call E G tc
               (execute_tool_calls E G before
                 ([], s\<lparr>conversationHistory := conversationHistory s @
                          [assistant_message (Response.Content resp)]\<rparr>, c, w1))) of
        (trs, s2, c2, w2) \<Rightarrow>
          (Continue (formatToolResultsForPrompt trs)
             (s2\<lparr>conversationHistory := conversationHistory s2 @ [tool_results_message trs]\<rparr>),
           c2, w2))"
  using chat split by (simp add: loop_body_def execute_tool_calls_append)

text \<open>The two counters of the metadata count the invocations of the call.\<close>

lemma tool_loop_counters:
  fixes E :: "'w env"
  assumes "tool_loop E G tools iteration p s c w = (Inr r, c', w')"
  shows "\<exists>h m. map_of (Metadata r) ''cache_hits'' = Some (MInt (int h))
           \<and> map_of (Metadata r) ''cache_misses'' = Some (MInt (int m))
           \<and> h + m = cacheHits s + cacheMisses s
               + length (concat (map invocations (chat_outcomes E G tools iteration p s c w)))"
  using assms
proof (induction "MaxToolIterations - iteration" arbitrary: iteration p s c w)
  case 0
  then have ge: "\<not> iteration < MaxToolIterations" by simp
  from tool_loop_exhausted [OF ge, of E G tools p s c w] "0.prems" show ?case
    by (auto simp: limit_response_def)
next
  case (Suc k)
  then have lt: "iteration < MaxToolIterations" by simp
  obtain o1 w1 where chat: "Chat E w p tools (conversationHistory s) = (o1, w1)"
    by (cases "Chat E w p tools (conversationHistory s)")
  show ?case
  proof (cases o1)
    case (Inl err)
    from chat Inl have "loop_body E G tools (iteration + 1) p s c w =
        (Abort (''AI provider error: '' @ err), c, w1)"
      by (simp add: loop_body_Abort)
    from tool_loop_Abort(1) [OF lt this] Suc.prems show ?thesis by simp
  next
    case (Inr resp)
    with chat have ch: "Chat E w p tools (conversationHistory s) = (Inr resp, w1)"
      by simp
    show ?thesis
    proof (cases "Response.ToolCalls resp = []")
      case True
      from tool_loop_Return [OF lt loop_body_Return [OF ch True]] ch True Suc.prems
      show ?thesis by (auto simp: done_response_def)
    next
      case False
      from ch False obtain trs s2 c2 w2 where
        ex: "execute_tool_calls E G (Response.ToolCalls resp)
          ([], s\<lparr>conversationHistory := conversationHistory s @
                    [assistant_message (Response.Content resp)]\<rparr>, c, w1) = (trs, s2, c2, w2)"
        and lb: "loop_body E G tools (iteration + 1) p s c w =
          (Continue (formatToolResultsForPrompt trs)
            (s2\<lparr>conversationHistory := conversationHistory s2 @ [tool_results_message trs]\<rparr>),
           c2, w2)"
        by (rule loop_body_Continue)
      let ?p' = "formatToolResultsForPrompt trs"
      let ?s' = "s2\<lparr>conversationHistory := conversationHistory s2 @ [tool_results_message trs]\<rparr>"
      note unfold = tool_loop_Continue [OF lt lb]
      from unfold(1) Suc.prems
      have next_run: "tool_loop E G tools (iteration + 1) ?p' ?s' c2 w2 = (Inr r, c', w')"
        by simp
      from Suc.hyps(2) have k: "k = MaxToolIterations - (iteration + 1)" by simp
      note IH = Suc.hyps(1) [OF k next_run]
      from execute_tool_calls_effect(6) [OF ex]
      have "cacheHits ?s' + cacheMisses ?s' =
            cacheHits s + cacheMisses s + length (Response.ToolCalls resp)"
        by simp
      with IH show ?thesis
        unfolding unfold(2) using ch by auto
    qed
  qed
qed

lemma run_counters:
  fixes E :: "'w env"
  assumes "ProcessPrompt E G tools request c w = (Inr r, c', w')"
  shows "\<exists>h m. map_of (Metadata r) ''cache_hits'' = Some (MInt (int h))
           \<and> map_of (Metadata r) ''cache_misses'' = Some (MInt (int m))
           \<and> h + m = length (concat (map invocations (adapter_outcomes E G tools request c w)))"
  using tool_loop_counters [OF assms [unfolded ProcessPrompt_def]]
  by (simp add: adapter_outcomes_def)

text \<open>The passes of an iteration add one result each, after the results that were there.\<close>

lemma execute_tool_calls_extends:
  assumes "execute_tool_calls E G tcs (trs, s, c, w) = (trs', s', c', w')"
  shows "\<exists>more. trs' = trs @ more \<and> length more = length tcs"
    and "\<exists>more. allToolResults s' = allToolResults s @ more \<and> length more = length tcs"
  using assms
proof (induction tcs arbitrary: trs s c w)
  case Nil
  {
    case 1 then show ?case by simp
  next
    case 2 then show ?case by simp
  }
next
  case (Cons tc tcs)
  {
    case 1
    obtain trs1 s1 c1 w1 where
      one: "execute_tool_call E G tc (trs, s, c, w) = (trs1, s1, c1, w1)"
      by (cases "execute_tool_call E G tc (trs, s, c, w)") auto
    from execute_tool_call_effect(1) [OF one] obtain x where x: "trs1 = trs @ [x]"
      by blast
    from 1 one have "execute_tool_calls E G tcs (trs1, s1, c1, w1) = (trs', s', c', w')"
      by simp
    from Cons.IH(1) [OF this] obtain more where "trs' = trs1 @ more" "length more = length tcs"
      by blast
    with x have "trs' = trs @ (x # more) \<and> length (x # more) = length (tc # tcs)"
      by simp
    then show ?case by blast
  next
    case 2
    obtain trs1 s1 c1 w1 where
      one: "execute_tool_call E G tc (trs, s, c, w) = (trs1, s1, c1, w1)"
      by (cases "execute_tool_call E G tc (trs, s, c, w)") auto
    from execute_tool_call_effect(1) [OF one] obtain y where
      y: "allToolResults s1 = allToolResults s @ [y]"
      by blast
    from 2 one have "execute_tool_calls E G tcs (trs1, s1, c1, w1) = (trs', s', c', w')"
      by simp
    from Cons.IH(2) [OF this] obtain more where
      "allToolResults s' = allToolResults s1 @ more" "length more = length tcs"
      by blast
    with y have "allToolResults s' = allToolResults s @ (y # more)
        \<and> length (y # more) = length (tc # tcs)"
      by simp
    then show ?case by blast
  }
qed

text \<open>
  An iteration in which the transport fails for one of the invocations, whatever comes
  before and after it in the answer.
\<close>

lemma loop_body_transport_error:
  fixes E :: "'w env"
  assumes chat: "Chat E v p tools (conversationHistory s) = (Inr resp, v1)"
    and split: "Response.ToolCalls resp = before @ tc # rest"
    and pre: "execute_tool_calls E G before
        ([], s\<lparr>conversationHistory := conversationHistory s @
                 [assistant_message (Response.Content resp)]\<rparr>, c0, v1) = (trsb, sb, cb, vb)"
    and n: "Now E vb = (now, vb1)"
    and g: "Get cb now (generateCacheKey G (ToolCall.Name tc) (Arguments tc)) = None"
    and ct: "CallTool E vb1 (ToolCall.Name tc) (Arguments tc) = (Inl err, vb2)"
  shows "\<exists>results s' c' v'.
     loop_body E G tools n p s c0 v =
       (Continue (formatToolResultsForPrompt results) s', c', v')
     \<and> length results = length (Response.ToolCalls resp)
     \<and> results ! length before =
         \<lparr>ai_ToolResult.ToolCallID = ToolCall.ID tc,
          ai_ToolResult.Content = ''Error calling tool '' @ ToolCall.Name tc @ '': '' @ err,
          ai_ToolResult.IsError = True\<rparr>
     \<and> length (allToolResults s') =
         length (allToolResults s) + length (Response.ToolCalls resp)
     \<and> allToolResults s' ! (length (allToolResults s) + length before) =
         \<lparr>models_ToolResult.ToolCallID = ToolCall.ID tc,
          models_ToolResult.Name = ToolCall.Name tc,
          models_ToolResult.Content =
            ''Error calling tool '' @ ToolCall.Name tc @ '': '' @ err,
          models_ToolResult.IsError = True\<rparr>
     \<and> conversationHistory s' =
         conversationHistory s @
           [assistant_message (Response.Content resp), tool_results_message results]"
proof -
  let ?s1 = "s\<lparr>conversationHistory := conversationHistory s @
                 [assistant_message (Response.Content resp)]\<rparr>"
  let ?e = "\<lparr>ai_ToolResult.ToolCallID = ToolCall.ID tc,
             ai_ToolResult.Content = ''Error calling tool '' @ ToolCall.Name tc @ '': '' @ err,
             ai_ToolResult.IsError = True\<rparr>"
  let ?m = "\<lparr>models_ToolResult.ToolCallID = ToolCall.ID tc,
             models_ToolResult.Name = ToolCall.Name tc,
             models_ToolResult.Content =
               ''Error calling tool '' @ ToolCall.Name tc @ '': '' @ err,
             models_ToolResult.IsError = True\<rparr>"
  let ?sx = "sb\<lparr>cacheMisses := cacheMisses sb + 1,
                  allToolResults := allToolResults sb @ [?m]\<rparr>"
  note pass = execute_tool_call_transport_error [OF n g ct, of trsb sb]
  obtain results s2 c2 v2 where
    post: "execute_tool_calls E G rest (trsb @ [?e], ?sx, cb, vb2) = (results, s2, c2, v2)"
    by (cases "execute_tool_calls E G rest (trsb @ [?e], ?sx, cb, vb2)") auto
  let ?s' = "s2\<lparr>conversationHistory := conversationHistory s2 @ [tool_results_message results]\<rparr>"
  from loop_body_passes [OF chat split, of G n c0] pre pass post
  have body: "loop_body E G tools n p s c0 v =
      (Continue (formatToolResultsForPrompt results) ?s', c2, v2)"
    by simp
  from execute_tool_calls_extends [OF pre] obtain mb mb' where
    mb: "trsb = mb" "length mb = length before"
    and mb': "allToolResults sb = allToolResults s @ mb'" "length mb' = length before"
    by auto
  from execute_tool_calls_extends [OF post] obtain mr mr' where
    mr: "results = (trsb @ [?e]) @ mr" "length mr = length rest"
    and mr': "allToolResults s2 = (allToolResults sb @ [?m]) @ mr'" "length mr' = length rest"
    by auto
  from mb mr split have len: "length results = length (Response.ToolCalls resp)"
    and at: "results ! length before = ?e"
    by (simp_all add: nth_append)
  from mb' mr' split have len': "length (allToolResults ?s') =
      length (allToolResults s) + length (Response.ToolCalls resp)"
    by simp
  from mb' mr' have "allToolResults s2 = (allToolResults s @ mb') @ ?m # mr'"
    by simp
  then have "allToolResults s2 ! length (allToolResults s @ mb') = ?m"
    by (simp only: nth_append_length)
  with mb' have at': "allToolResults ?s' ! (length (allToolResults s) + length before) = ?m"
    by simp
  from execute_tool_calls_effect(3) [OF pre] execute_tool_calls_effect(3) [OF post]
  have hist: "conversationHistory ?s' =
      conversationHistory s @
        [assistant_message (Response.Content resp), tool_results_message results]"
    by simp
  from body len at len' at' hist show ?thesis
    by blast
qed

text \<open>
  When the transport fails for the one invocation of the first answer, the adapter is
  called again, with the failure as its prompt and in the history.
\<close>

lemma run_transport_error:
  fixes E :: "'w env"
  assumes first: "Chat E w (Prompt request) tools [] = (Inr resp1, w1)"
    and one: "Response.ToolCalls resp1 = [tc]"
    and n: "Now E w1 = (now, w2)"
    and g: "Get c now (generateCacheKey G (ToolCall.Name tc) (Arguments tc)) = None"
    and ct: "CallTool E w2 (ToolCall.Name tc) (Arguments tc) = (Inl err, w3)"
  shows "1 < length (adapter_outcomes E G tools request c w)"
    and "adapter_outcomes E G tools request c w ! 1 =
      fst (Chat E w3
        (formatToolResultsForPrompt
          [\<lparr>ai_ToolResult.ToolCallID = ToolCall.ID tc,
            ai_ToolResult.Content = ''Error calling tool '' @ ToolCall.Name tc @ '': '' @ err,
            ai_ToolResult.IsError = True\<rparr>])
        tools
        [assistant_message (Response.Content resp1),
         tool_results_message
           [\<lparr>ai_ToolResult.ToolCallID = ToolCall.ID tc,
             ai_ToolResult.Content = ''Error calling tool '' @ ToolCall.Name tc @ '': '' @ err,
             ai_ToolResult.IsError = True\<rparr>]])"
proof -
  let ?s0 = "\<lparr>conversationHistory = [], allToolCalls = [], allToolResults = [],
              cacheHits = 0, cacheMisses = 0\<rparr>"
  let ?s1 = "\<lparr>conversationHistory = [assistant_message (Response.Content resp1)],
              allToolCalls = [], allToolResults = [], cacheHits = 0, cacheMisses = 0\<rparr>"
  let ?e = "\<lparr>ai_ToolResult.ToolCallID = ToolCall.ID tc,
             ai_ToolResult.Content = ''Error calling tool '' @ ToolCall.Name tc @ '': '' @ err,
             ai_ToolResult.IsError = True\<rparr>"
  let ?m = "\<lparr>models_ToolResult.ToolCallID = ToolCall.ID tc,
             models_ToolResult.Name = ToolCall.Name tc,
             models_ToolResult.Content =
               ''Error calling tool '' @ ToolCall.Name tc @ '': '' @ err,
             models_ToolResult.IsError = True\<rparr>"
  let ?s' = "\<lparr>conversationHistory =
                [assistant_message (Response.Content resp1), tool_results_message [?e]],
              allToolCalls = [], allToolResults = [?m], cacheHits = 0, cacheMisses = 1\<rparr>"
  note pass = execute_tool_call_transport_error [OF n g ct, of "[]" ?s1]
  have body: "loop_body E G tools (0 + 1) (Prompt request) ?s0 c w =
      (Continue (formatToolResultsForPrompt [?e]) ?s', c, w3)"
    using first one pass by (simp add: loop_body_def)
  have lt0: "(0::nat) < MaxToolIterations" and lt1: "Suc 0 < MaxToolIterations"
    by (simp_all add: MaxToolIterations_def)
  from tool_loop_Continue(2) [OF lt0 body] first
  have rs: "adapter_outcomes E G tools request c w =
      Inr resp1 # chat_outcomes E G tools (Suc 0) (formatToolResultsForPrompt [?e]) ?s' c w3"
    by (simp add: adapter_outcomes_def)
  from lt1 obtain more where
    "chat_outcomes E G tools (Suc 0) (formatToolResultsForPrompt [?e]) ?s' c w3 =
       fst (Chat E w3 (formatToolResultsForPrompt [?e]) tools (conversationHistory ?s')) # more"
    by (simp add: chat_outcomes.simps [of E G tools "Suc 0"])
  with rs have all: "adapter_outcomes E G tools request c w =
      Inr resp1 #
      fst (Chat E w3 (formatToolResultsForPrompt [?e]) tools
             [assistant_message (Response.Content resp1), tool_results_message [?e]]) # more"
    by simp
  from all show "1 < length (adapter_outcomes E G tools request c w)"
    by simp
  from all show "adapter_outcomes E G tools request c w ! 1 =
      fst (Chat E w3 (formatToolResultsForPrompt [?e]) tools
        [assistant_message (Response.Content resp1), tool_results_message [?e]])"
    by simp
qed

section \<open>Failed results and the cache\<close>

lemma run_ops_cache:
  fixes E :: "'w env"
  assumes "no_cached_errors c"
  shows "no_cached_errors (run_ops E G tools ops c)"
  unfolding run_ops_def using assms
proof (induction ops arbitrary: c)
  case Nil
  then show ?case by simp
next
  case (Cons x ops)
  have "no_cached_errors (apply_op E G tools c x)"
  proof (cases x)
    case (Sweep now)
    with Cons.prems show ?thesis by (simp add: no_cached_errors_cleanupExpired)
  next
    case (Resolve tc trs s w)
    obtain trs' s' c' w' where
      pass: "execute_tool_call E G tc (trs, s, c, w) = (trs', s', c', w')"
      by (cases "execute_tool_call E G tc (trs, s, c, w)") auto
    from execute_tool_call_effect(4) [OF pass Cons.prems] Resolve pass
    show ?thesis by simp
  next
    case (Iterate n p s w)
    obtain r c' w' where pass: "loop_body E G tools n p s c w = (r, c', w')"
      by (cases "loop_body E G tools n p s c w") auto
    from loop_body_cache(2) [OF pass Cons.prems] Iterate pass
    show ?thesis by simp
  next
    case (Serve request w)
    obtain r c' w' where run: "ProcessPrompt E G tools request c w = (r, c', w')"
      by (cases "ProcessPrompt E G tools request c w") auto
    from tool_loop_cache [OF run [unfolded ProcessPrompt_def]] Cons.prems
    have "no_cached_errors c'" by simp
    with Serve run show ?thesis by simp
  qed
  from Cons.IH [OF this] show ?case by simp
qed

lemma Get_stays_None:
  assumes "Get c now k = None" "now \<le> later"
  shows "Get c later k = None"
  using assms by (auto simp: Get_def split: option.splits if_splits)

lemma failed_result_not_stored:
  assumes run: "execute_tool_call E G tc (trs, s, c, w) = (trs', s', c', w')"
    and clean: "no_cached_errors c"
    and failed: "ai_ToolResult.IsError (last trs')"
  shows "c' = c"
    and "Get c (fst (Now E w)) (generateCacheKey G (ToolCall.Name tc) (Arguments tc)) = None"
    and "cacheMisses s' = cacheMisses s + 1" and "cacheHits s' = cacheHits s"
proof -
  consider (hit) now w1 cached where
      "Now E w = (now, w1)"
      "Get c now (generateCacheKey G (ToolCall.Name tc) (Arguments tc)) = Some cached"
  | (transport_error) now w1 err w2 where
      "Now E w = (now, w1)"
      "Get c now (generateCacheKey G (ToolCall.Name tc) (Arguments tc)) = None"
      "CallTool E w1 (ToolCall.Name tc) (Arguments tc) = (Inl err, w2)"
  | (tool_error) now w1 res w2 where
      "Now E w = (now, w1)"
      "Get c now (generateCacheKey G (ToolCall.Name tc) (Arguments tc)) = None"
      "CallTool E w1 (ToolCall.Name tc) (Arguments tc) = (Inr res, w2)"
      "CallToolResult.IsError res"
  | (stored) now w1 res w2 stored w3 where
      "Now E w = (now, w1)"
      "Get c now (generateCacheKey G (ToolCall.Name tc) (Arguments tc)) = None"
      "CallTool E w1 (ToolCall.Name tc) (Arguments tc) = (Inr res, w2)"
      "\<not> CallToolResult.IsError res"
      "Now E w2 = (stored, w3)"
    by (rule execute_tool_call_cases)
  then have "c' = c
    \<and> Get c (fst (Now E w)) (generateCacheKey G (ToolCall.Name tc) (Arguments tc)) = None
    \<and> cacheMisses s' = cacheMisses s + 1 \<and> cacheHits s' = cacheHits s"
  proof cases
    case hit
    from execute_tool_call_hit [OF hit, of trs s] run
    have "trs' = trs @ [\<lparr>ai_ToolResult.ToolCallID = ToolCall.ID tc,
                           ai_ToolResult.Content = CachedResult.Content cached,
                           ai_ToolResult.IsError = CachedResult.IsError cached\<rparr>]"
      by simp
    with failed have "CachedResult.IsError cached" by simp
    with no_cached_errors_Get [OF clean hit(2)] show ?thesis by simp
  next
    case transport_error
    from execute_tool_call_transport_error [OF transport_error, of trs s] run
    have "c' = c" and "cacheMisses s' = cacheMisses s + 1" and "cacheHits s' = cacheHits s"
      by auto
    with transport_error(1,2) show ?thesis by simp
  next
    case tool_error
    from execute_tool_call_tool_error [OF tool_error, of trs s] run
    have "c' = c" and "cacheMisses s' = cacheMisses s + 1" and "cacheHits s' = cacheHits s"
      by auto
    with tool_error(1,2) show ?thesis by simp
  next
    case stored
    from execute_tool_call_stored [OF stored, of trs s] run
    have "trs' = trs @ [\<lparr>ai_ToolResult.ToolCallID = ToolCall.ID tc,
                           ai_ToolResult.Content = formatToolResult G res,
                           ai_ToolResult.IsError = False\<rparr>]"
      by simp
    with failed show ?thesis by simp
  qed
  then show "c' = c"
    and "Get c (fst (Now E w)) (generateCacheKey G (ToolCall.Name tc) (Arguments tc)) = None"
    and "cacheMisses s' = cacheMisses s + 1" and "cacheHits s' = cacheHits s"
    by simp_all
qed

text \<open>
  C2. Take any history of a cache since it was created: sweeps, single passes through the
  body of the inner loop, single passes through the body of the outer loop and whole calls
  of \<^verbatim>\<open>ProcessPrompt\<close>, of any calls, in any states and worlds, in any order. After it
  \<^verbatim>\<open>Get\<close> never returns an entry with \<^verbatim>\<open>IsError\<close> set. A pass that then ends in a
  failed result, from the tool or from the transport, was a miss and not a hit, leaves the
  cache as it was, and a lookup of its key stays in vain from the time of the failed
  lookup on, so that the next occurrence calls the tool again.
\<close>

theorem no_error_result_retrievable:
  fixes E :: "'w env" and E' :: "'v env"
  shows
  "(Get (run_ops E G tools ops (NewResultCache t)) now k = Some r \<longrightarrow>
      \<not> CachedResult.IsError r)
   \<and> (execute_tool_call E' G tc (trs, s, run_ops E G tools ops (NewResultCache t), w) =
         (trs', s', c', w')
       \<and> ai_ToolResult.IsError (last trs') \<longrightarrow>
      c' = run_ops E G tools ops (NewResultCache t)
      \<and> cacheMisses s' = cacheMisses s + 1 \<and> cacheHits s' = cacheHits s
      \<and> (\<forall>later \<ge> fst (Now E' w).
            Get c' later (generateCacheKey G (ToolCall.Name tc) (Arguments tc)) = None))"
proof -
  let ?c = "run_ops E G tools ops (NewResultCache t)"
  let ?key = "generateCacheKey G (ToolCall.Name tc) (Arguments tc)"
  have clean: "no_cached_errors ?c"
    by (rule run_ops_cache) (rule no_cached_errors_New)
  show ?thesis
  proof (intro conjI impI)
    assume "Get ?c now k = Some r"
    then show "\<not> CachedResult.IsError r"
      by (rule no_cached_errors_Get [OF clean])
  next
    assume both: "execute_tool_call E' G tc (trs, s, ?c, w) = (trs', s', c', w')
       \<and> ai_ToolResult.IsError (last trs')"
    then have run: "execute_tool_call E' G tc (trs, s, ?c, w) = (trs', s', c', w')"
      and failed: "ai_ToolResult.IsError (last trs')"
      by (rule conjunct1, rule conjunct2)
    note facts = failed_result_not_stored [OF run clean failed]
    show "c' = ?c" by (rule facts(1))
    show "cacheMisses s' = cacheMisses s + 1" by (rule facts(3))
    show "cacheHits s' = cacheHits s" by (rule facts(4))
    show "\<forall>later \<ge> fst (Now E' w). Get c' later ?key = None"
    proof (intro allI impI)
      fix later assume "fst (Now E' w) \<le> later"
      from Get_stays_None [OF facts(2) this] show "Get c' later ?key = None"
        by (simp only: facts(1))
    qed
  qed
qed

theorem no_error_result_retrievable_witness:
  "Get (run_ops scenario_env sample_lib sample_tools sample_history (NewResultCache CacheTTL))
      150 ''list_blueprints:540a4b5a53f9977b'' =
     Some \<lparr>CachedResult.Content = ''[]'', Timestamp = 3, CachedResult.IsError = False\<rparr>
   \<and> \<not> CachedResult.IsError
         \<lparr>CachedResult.Content = ''[]'', Timestamp = 3, CachedResult.IsError = False\<rparr>
   \<and> ai_ToolResult.IsError (last (fst
         (execute_tool_call scenario_down_env sample_lib orders_call
            ([], fresh_state,
             run_ops scenario_env sample_lib sample_tools sample_history
               (NewResultCache CacheTTL),
             (2, 1, 200)))))
   \<and> fst (snd (snd
         (execute_tool_call scenario_down_env sample_lib orders_call
            ([], fresh_state,
             run_ops scenario_env sample_lib sample_tools sample_history
               (NewResultCache CacheTTL),
             (2, 1, 200))))) =
       run_ops scenario_env sample_lib sample_tools sample_history (NewResultCache CacheTTL)
   \<and> cacheMisses (fst (snd
         (execute_tool_call scenario_down_env sample_lib orders_call
            ([], fresh_state,
             run_ops scenario_env sample_lib sample_tools sample_history
               (NewResultCache CacheTTL),
             (2, 1, 200))))) = 1
   \<and> fst (Now scenario_down_env (2, 1, 200)) \<le> 1000
   \<and> Get (run_ops scenario_env sample_lib sample_tools sample_history
            (NewResultCache CacheTTL)) 1000
         (generateCacheKey sample_lib (ToolCall.Name orders_call) (Arguments orders_call)) = None"
proof -
  let ?c = "run_ops scenario_env sample_lib sample_tools sample_history
              (NewResultCache CacheTTL)"
  let ?X = "execute_tool_call scenario_down_env sample_lib orders_call
              ([], fresh_state, ?c, (2, 1, 200))"
  let ?e = "\<lparr>CachedResult.Content = ''[]'', Timestamp = 3, CachedResult.IsError = False\<rparr>"
  have got: "Get ?c 150 ''list_blueprints:540a4b5a53f9977b'' = Some ?e"
    by code_simp
  have failed: "ai_ToolResult.IsError (last (fst ?X))"
    by code_simp
  have run: "?X = (fst ?X, fst (snd ?X), fst (snd (snd ?X)), snd (snd (snd ?X)))"
    by simp
  have clock: "fst (Now scenario_down_env (2, 1, 200)) \<le> 1000"
    by code_simp
  note claim = no_error_result_retrievable [where E = scenario_env and G = sample_lib
    and tools = sample_tools and ops = sample_history
    and t = CacheTTL and now = 150 and k = "''list_blueprints:540a4b5a53f9977b''" and r = ?e
    and E' = scenario_down_env and tc = orders_call and trs = "[]" and s = fresh_state
    and w = "(2, 1, 200)" and trs' = "fst ?X" and s' = "fst (snd ?X)"
    and c' = "fst (snd (snd ?X))" and w' = "snd (snd (snd ?X))"]
  note after = claim [THEN conjunct2, rule_format, OF conjI [OF run failed]]
  from after have same: "fst (snd (snd ?X)) = ?c"
    by (rule conjunct1)
  from after have "cacheMisses (fst (snd ?X)) = cacheMisses fresh_state + 1"
    by (rule conjunct2 [THEN conjunct1])
  then have missed: "cacheMisses (fst (snd ?X)) = 1"
    by (simp add: fresh_state_def)
  from after have vain: "\<forall>later \<ge> fst (Now scenario_down_env (2, 1, 200)).
      Get (fst (snd (snd ?X))) later
        (generateCacheKey sample_lib (ToolCall.Name orders_call) (Arguments orders_call)) = None"
    by (rule conjunct2 [THEN conjunct2, THEN conjunct2])
  from vain [rule_format, OF clock] same
  have "Get ?c 1000
      (generateCacheKey sample_lib (ToolCall.Name orders_call) (Arguments orders_call)) = None"
    by (simp only:)
  moreover from claim [THEN conjunct1, rule_format, OF got]
  have "\<not> CachedResult.IsError ?e" .
  ultimately show ?thesis
    using got failed same missed clock by (intro conjI)
qed

section \<open>Hits and misses\<close>

lemma Now_other_CallTool [simp]: "Now (E\<lparr>CallTool := other\<rparr>) = Now E"
  by simp


text \<open>Scenarios A and B of the specification, run as they are written.\<close>

lemma scenario_A:
  "ProcessPrompt scenario_env sample_lib sample_tools list_request empty_cache start =
     (Inr \<lparr>Response = ''No blueprints found'',
           ChatResponse.ToolCalls = [list_call],
           ChatResponse.ToolResults =
             [\<lparr>models_ToolResult.ToolCallID = ''call_1'',
               models_ToolResult.Name = ''list_blueprints'',
               models_ToolResult.Content = ''[]'', models_ToolResult.IsError = False\<rparr>],
           Metadata =
             [(''iterations'', MInt 2), (''finish_reason'', MString ''stop''),
              (''provider'', MString ''gemini''), (''tools_available'', MInt 1),
              (''cache_hits'', MInt 0), (''cache_misses'', MInt 1),
              (''cache_stats'', MStats [(''total_entries'', 1)])]\<rparr>,
      \<lparr>store =
         [(''list_blueprints:540a4b5a53f9977b'',
           \<lparr>CachedResult.Content = ''[]'', Timestamp = 3, CachedResult.IsError = False\<rparr>)],
       ttl = CacheTTL\<rparr>,
      (2, 1, 5))"
  by code_simp

lemma scenario_B:
  "ProcessPrompt scenario_env sample_lib sample_tools list_request
     (fst (snd (ProcessPrompt scenario_env sample_lib sample_tools list_request empty_cache start)))
     (2, 1, 100) =
     (Inr \<lparr>Response = ''No blueprints found'',
           ChatResponse.ToolCalls = [list_call],
           ChatResponse.ToolResults =
             [\<lparr>models_ToolResult.ToolCallID = ''call_1'',
               models_ToolResult.Name = ''list_blueprints'',
               models_ToolResult.Content = ''[]'', models_ToolResult.IsError = False\<rparr>],
           Metadata =
             [(''iterations'', MInt 2), (''finish_reason'', MString ''stop''),
              (''provider'', MString ''gemini''), (''tools_available'', MInt 1),
              (''cache_hits'', MInt 1), (''cache_misses'', MInt 0),
              (''cache_stats'', MStats [(''total_entries'', 1)])]\<rparr>,
      \<lparr>store =
         [(''list_blueprints:540a4b5a53f9977b'',
           \<lparr>CachedResult.Content = ''[]'', Timestamp = 3, CachedResult.IsError = False\<rparr>)],
       ttl = CacheTTL\<rparr>,
      (4, 1, 103))"
  by code_simp

text \<open>
  C5. In every iteration whose answer asks for tools, \<^verbatim>\<open>ProcessPrompt\<close> runs one pass
  for each invocation, in the order of asking, each from what the passes before it left.
  A pass whose key is in the cache and fresh takes the cached content and flag as its
  result and adds one to the hits, and the world after it is the one that the reading of
  the clock left, whatever \<^verbatim>\<open>CallTool\<close> would have done. A pass whose key is not found
  adds one to the misses and its result is what \<^verbatim>\<open>CallTool\<close> returned. The fields
  \<^verbatim>\<open>cache_hits\<close> and \<^verbatim>\<open>cache_misses\<close> of the metadata that a call returns add up to the
  number of invocations that the adapter asked for in the call. For a call whose first
  answer asks for one invocation and whose second answer asks for none: if the key is in
  the cache and fresh, the call returns the cached result in its trace with
  \<^verbatim>\<open>cache_hits\<close> 1 and \<^verbatim>\<open>cache_misses\<close> 0, leaves the cache as it was, and returns the
  same whatever \<^verbatim>\<open>CallTool\<close> is; if the key is not found, it returns what
  \<^verbatim>\<open>CallTool\<close> returned in its trace with \<^verbatim>\<open>cache_hits\<close> 0 and \<^verbatim>\<open>cache_misses\<close> 1.
  Hence, after such a call that missed and stored its result, a second such call on the
  cache that the first one left, with the same tool and the same arguments and within
  the time to live, returns the stored result with \<^verbatim>\<open>cache_hits\<close> 1 and
  \<^verbatim>\<open>cache_misses\<close> 0, whatever \<^verbatim>\<open>CallTool\<close> is.
\<close>

theorem cache_hit_spares_CallTool:
  fixes E :: "'w env"
  shows
  "(Chat E v p tools (conversationHistory s) = (Inr resp, v1)
    \<and> Response.ToolCalls resp = before @ tc # rest \<longrightarrow>
      loop_body E G tools n p s c0 v =
        (case execute_tool_calls E G rest
                (execute_tool_call E G tc
                  (execute_tool_calls E G before
                    ([], s\<lparr>conversationHistory := conversationHistory s @
                             [assistant_message (Response.Content resp)]\<rparr>, c0, v1))) of
           (trs, s2, c2, v2) \<Rightarrow>
             (Continue (formatToolResultsForPrompt trs)
                (s2\<lparr>conversationHistory :=
                      conversationHistory s2 @ [tool_results_message trs]\<rparr>),
              c2, v2)))
   \<and> (Now E v = (now, v1)
      \<and> Get c0 now (generateCacheKey G (ToolCall.Name tc) (Arguments tc)) = Some cached \<longrightarrow>
      execute_tool_call E G tc (trs, s, c0, v) =
        (trs @ [\<lparr>ai_ToolResult.ToolCallID = ToolCall.ID tc,
                  ai_ToolResult.Content = CachedResult.Content cached,
                  ai_ToolResult.IsError = CachedResult.IsError cached\<rparr>],
         s\<lparr>cacheHits := cacheHits s + 1,
           allToolCalls := allToolCalls s @ [tc],
           allToolResults := allToolResults s @
             [\<lparr>models_ToolResult.ToolCallID = ToolCall.ID tc,
               models_ToolResult.Name = ToolCall.Name tc,
               models_ToolResult.Content = CachedResult.Content cached,
               models_ToolResult.IsError = CachedResult.IsError cached\<rparr>]\<rparr>,
         c0, v1)
      \<and> execute_tool_call (E\<lparr>CallTool := other\<rparr>) G tc (trs, s, c0, v) =
          execute_tool_call E G tc (trs, s, c0, v))
   \<and> (Now E v = (now, v1)
      \<and> Get c0 now (generateCacheKey G (ToolCall.Name tc) (Arguments tc)) = None
      \<and> CallTool E v1 (ToolCall.Name tc) (Arguments tc) = (outcome, v2) \<longrightarrow>
      (\<exists>trs' s' c' v'.
         execute_tool_call E G tc (trs, s, c0, v) = (trs', s', c', v')
         \<and> cacheMisses s' = cacheMisses s + 1 \<and> cacheHits s' = cacheHits s
         \<and> (v' = v2 \<or> v' = snd (Now E v2))
         \<and> last trs' =
             (case outcome of
                Inl err \<Rightarrow>
                  \<lparr>ai_ToolResult.ToolCallID = ToolCall.ID tc,
                   ai_ToolResult.Content =
                     ''Error calling tool '' @ ToolCall.Name tc @ '': '' @ err,
                   ai_ToolResult.IsError = True\<rparr>
              | Inr res \<Rightarrow>
                  \<lparr>ai_ToolResult.ToolCallID = ToolCall.ID tc,
                   ai_ToolResult.Content = formatToolResult G res,
                   ai_ToolResult.IsError = CallToolResult.IsError res\<rparr>)))
   \<and> (ProcessPrompt E G tools request c w = (Inr r, c', w') \<longrightarrow>
      (\<exists>h m. map_of (Metadata r) ''cache_hits'' = Some (MInt (int h))
         \<and> map_of (Metadata r) ''cache_misses'' = Some (MInt (int m))
         \<and> h + m =
             length (concat (map invocations (adapter_outcomes E G tools request c w)))))
   \<and> (Chat E w (Prompt request) tools [] = (Inr resp1, w1)
      \<and> Response.ToolCalls resp1 = [tc]
      \<and> Now E w1 = (now, w2)
      \<and> Get c now (generateCacheKey G (ToolCall.Name tc) (Arguments tc)) = Some cached
      \<and> adapter_outcomes E G tools request c w = [Inr resp1, Inr resp2]
      \<and> Response.ToolCalls resp2 = [] \<longrightarrow>
      (\<exists>r w'. ProcessPrompt E G tools request c w = (Inr r, c, w')
         \<and> Response r = Response.Content resp2
         \<and> ChatResponse.ToolCalls r = [tc]
         \<and> ChatResponse.ToolResults r =
             [\<lparr>models_ToolResult.ToolCallID = ToolCall.ID tc,
               models_ToolResult.Name = ToolCall.Name tc,
               models_ToolResult.Content = CachedResult.Content cached,
               models_ToolResult.IsError = CachedResult.IsError cached\<rparr>]
         \<and> map_of (Metadata r) ''iterations'' = Some (MInt 2)
         \<and> map_of (Metadata r) ''cache_hits'' = Some (MInt 1)
         \<and> map_of (Metadata r) ''cache_misses'' = Some (MInt 0))
      \<and> ProcessPrompt (E\<lparr>CallTool := other\<rparr>) G tools request c w =
          ProcessPrompt E G tools request c w)
   \<and> (Chat E w (Prompt request) tools [] = (Inr resp1, w1)
      \<and> Response.ToolCalls resp1 = [tc]
      \<and> Now E w1 = (now, w2)
      \<and> Get c now (generateCacheKey G (ToolCall.Name tc) (Arguments tc)) = None
      \<and> CallTool E w2 (ToolCall.Name tc) (Arguments tc) = (outcome, w3)
      \<and> adapter_outcomes E G tools request c w = [Inr resp1, Inr resp2]
      \<and> Response.ToolCalls resp2 = [] \<longrightarrow>
      (\<exists>r c' w'. ProcessPrompt E G tools request c w = (Inr r, c', w')
         \<and> Response r = Response.Content resp2
         \<and> ChatResponse.ToolCalls r = (case outcome of Inl err \<Rightarrow> [] | Inr res \<Rightarrow> [tc])
         \<and> ChatResponse.ToolResults r =
             [case outcome of
                Inl err \<Rightarrow>
                  \<lparr>models_ToolResult.ToolCallID = ToolCall.ID tc,
                   models_ToolResult.Name = ToolCall.Name tc,
                   models_ToolResult.Content =
                     ''Error calling tool '' @ ToolCall.Name tc @ '': '' @ err,
                   models_ToolResult.IsError = True\<rparr>
              | Inr res \<Rightarrow>
                  \<lparr>models_ToolResult.ToolCallID = ToolCall.ID tc,
                   models_ToolResult.Name = ToolCall.Name tc,
                   models_ToolResult.Content = formatToolResult G res,
                   models_ToolResult.IsError = CallToolResult.IsError res\<rparr>]
         \<and> map_of (Metadata r) ''iterations'' = Some (MInt 2)
         \<and> map_of (Metadata r) ''cache_hits'' = Some (MInt 0)
         \<and> map_of (Metadata r) ''cache_misses'' = Some (MInt 1)
         \<and> c' = (case outcome of
                   Inl err \<Rightarrow> c
                 | Inr res \<Rightarrow>
                     if CallToolResult.IsError res then c
                     else Set c (fst (Now E w3))
                            (generateCacheKey G (ToolCall.Name tc) (Arguments tc))
                            (formatToolResult G res) False)))
   \<and> (Chat E w (Prompt request) tools [] = (Inr resp1, w1)
      \<and> Response.ToolCalls resp1 = [tc]
      \<and> Now E w1 = (now, w2)
      \<and> Get c now (generateCacheKey G (ToolCall.Name tc) (Arguments tc)) = None
      \<and> CallTool E w2 (ToolCall.Name tc) (Arguments tc) = (Inr res, w3)
      \<and> \<not> CallToolResult.IsError res
      \<and> Now E w3 = (stored, w4)
      \<and> adapter_outcomes E G tools request c w = [Inr resp1, Inr resp2]
      \<and> Response.ToolCalls resp2 = []
      \<and> Chat E u (Prompt request') tools [] = (Inr resp3, u1)
      \<and> Response.ToolCalls resp3 = [again]
      \<and> ToolCall.Name again = ToolCall.Name tc
      \<and> same_arguments (Arguments tc) (Arguments again)
      \<and> is_nil (Arguments tc) = is_nil (Arguments again)
      \<and> Now E u1 = (later, u2) \<and> later - stored \<le> ttl c
      \<and> adapter_outcomes E G tools request'
           (fst (snd (ProcessPrompt E G tools request c w))) u = [Inr resp3, Inr resp4]
      \<and> Response.ToolCalls resp4 = [] \<longrightarrow>
      (\<exists>r u'. ProcessPrompt E G tools request'
                 (fst (snd (ProcessPrompt E G tools request c w))) u =
               (Inr r, fst (snd (ProcessPrompt E G tools request c w)), u')
         \<and> Response r = Response.Content resp4
         \<and> ChatResponse.ToolCalls r = [again]
         \<and> ChatResponse.ToolResults r =
             [\<lparr>models_ToolResult.ToolCallID = ToolCall.ID again,
               models_ToolResult.Name = ToolCall.Name again,
               models_ToolResult.Content = formatToolResult G res,
               models_ToolResult.IsError = False\<rparr>]
         \<and> map_of (Metadata r) ''iterations'' = Some (MInt 2)
         \<and> map_of (Metadata r) ''cache_hits'' = Some (MInt 1)
         \<and> map_of (Metadata r) ''cache_misses'' = Some (MInt 0))
      \<and> ProcessPrompt (E\<lparr>CallTool := other\<rparr>) G tools request'
           (fst (snd (ProcessPrompt E G tools request c w))) u =
         ProcessPrompt E G tools request'
           (fst (snd (ProcessPrompt E G tools request c w))) u)"
  (is "(?H1 \<longrightarrow> ?C1) \<and> (?H2 \<longrightarrow> ?C2a \<and> ?C2b) \<and> (?H3 \<longrightarrow> ?C3) \<and> (?H4 \<longrightarrow> ?C4)
       \<and> (?H5 \<longrightarrow> ?C5a \<and> ?C5b) \<and> (?H6 \<longrightarrow> ?C6) \<and> (?H7 \<longrightarrow> ?C7a \<and> ?C7b)")
proof (intro conjI impI)
  assume ?H1
  then show ?C1
    by (intro loop_body_passes) simp_all
next
  assume h: ?H2
  then have n: "Now E v = (now, v1)"
    and g: "Get c0 now (generateCacheKey G (ToolCall.Name tc) (Arguments tc)) = Some cached"
    by simp_all
  show hit: ?C2a
    by (rule execute_tool_call_hit [OF n g])
  have n': "Now (E\<lparr>CallTool := other\<rparr>) v = (now, v1)"
    using n by simp
  show ?C2b
    unfolding hit by (rule execute_tool_call_hit [OF n' g])
next
  assume h: ?H3
  then have n: "Now E v = (now, v1)"
    and g: "Get c0 now (generateCacheKey G (ToolCall.Name tc) (Arguments tc)) = None"
    and ct: "CallTool E v1 (ToolCall.Name tc) (Arguments tc) = (outcome, v2)"
    by simp_all
  show ?C3
  proof (cases outcome)
    case (Inl err)
    from execute_tool_call_transport_error [OF n g ct [unfolded Inl], of trs s] Inl
    show ?thesis by simp
  next
    case (Inr res)
    show ?thesis
    proof (cases "CallToolResult.IsError res")
      case True
      from execute_tool_call_tool_error [OF n g ct [unfolded Inr] True, of trs s] Inr True
      show ?thesis by simp
    next
      case False
      obtain stored w3 where n2: "Now E v2 = (stored, w3)" by (cases "Now E v2")
      from execute_tool_call_stored [OF n g ct [unfolded Inr] False n2, of trs s] Inr False n2
      show ?thesis by simp
    qed
  qed
next
  assume ?H4
  then show ?C4
    by (rule run_counters)
next
  assume h: ?H5
  then have first: "Chat E w (Prompt request) tools [] = (Inr resp1, w1)"
    and one: "Response.ToolCalls resp1 = [tc]"
    and n: "Now E w1 = (now, w2)"
    and g: "Get c now (generateCacheKey G (ToolCall.Name tc) (Arguments tc)) = Some cached"
    and rs: "adapter_outcomes E G tools request c w = [Inr resp1, Inr resp2]"
    and none: "Response.ToolCalls resp2 = []"
    by simp_all
  show ?C5a
    by (rule run_hit(1) [OF first one n g rs none])
  show ?C5b
    by (rule run_hit(2) [OF first one n g rs none])
next
  assume h: ?H6
  then have first: "Chat E w (Prompt request) tools [] = (Inr resp1, w1)"
    and one: "Response.ToolCalls resp1 = [tc]"
    and n: "Now E w1 = (now, w2)"
    and g: "Get c now (generateCacheKey G (ToolCall.Name tc) (Arguments tc)) = None"
    and ct: "CallTool E w2 (ToolCall.Name tc) (Arguments tc) = (outcome, w3)"
    and rs: "adapter_outcomes E G tools request c w = [Inr resp1, Inr resp2]"
    and none: "Response.ToolCalls resp2 = []"
    by simp_all
  show ?C6
    by (rule run_miss [OF first one n g ct rs none])
next
  assume h: ?H7
  then have first: "Chat E w (Prompt request) tools [] = (Inr resp1, w1)"
    and one: "Response.ToolCalls resp1 = [tc]"
    and n: "Now E w1 = (now, w2)"
    and g: "Get c now (generateCacheKey G (ToolCall.Name tc) (Arguments tc)) = None"
    and ct: "CallTool E w2 (ToolCall.Name tc) (Arguments tc) = (Inr res, w3)"
    and ok: "\<not> CallToolResult.IsError res"
    and n2: "Now E w3 = (stored, w4)"
    and rs: "adapter_outcomes E G tools request c w = [Inr resp1, Inr resp2]"
    and none: "Response.ToolCalls resp2 = []"
    and first': "Chat E u (Prompt request') tools [] = (Inr resp3, u1)"
    and one': "Response.ToolCalls resp3 = [again]"
    and n': "Now E u1 = (later, u2)"
    and fresh: "later - stored \<le> ttl c"
    and rs': "adapter_outcomes E G tools request'
                (fst (snd (ProcessPrompt E G tools request c w))) u = [Inr resp3, Inr resp4]"
    and none': "Response.ToolCalls resp4 = []"
    by simp_all
  from h have key: "generateCacheKey G (ToolCall.Name again) (Arguments again) =
      generateCacheKey G (ToolCall.Name tc) (Arguments tc)"
    using same_arguments_same_key [of "Arguments tc" "Arguments again" G "ToolCall.Name tc"]
    by simp
  show ?C7a
    by (rule run_repeat(1) [OF first one n g ct ok n2 rs none key first' one' n' fresh rs' none'])
  show ?C7b
    by (rule run_repeat(2) [OF first one n g ct ok n2 rs none key first' one' n' fresh rs' none'])
qed

theorem cache_hit_spares_CallTool_witness:
  "Chat scenario_env start (Prompt list_request) sample_tools (conversationHistory fresh_state) =
     (Inr asks_list, (1, 0, 1))
   \<and> Response.ToolCalls asks_list = [] @ list_call # []
   \<and> snd (snd (loop_body scenario_env sample_lib sample_tools 1 (Prompt list_request)
                  fresh_state empty_cache start)) = (1, 1, 4)
   \<and> Now scenario_env (3, 1, 101) = (101, (3, 1, 102))
   \<and> Get scenario_cache 101
        (generateCacheKey sample_lib (ToolCall.Name list_call) (Arguments list_call)) =
      Some \<lparr>CachedResult.Content = ''[]'', Timestamp = 3, CachedResult.IsError = False\<rparr>
   \<and> cacheHits (fst (snd (execute_tool_call scenario_env sample_lib list_call
         ([], fresh_state, scenario_cache, (3, 1, 101))))) = 1
   \<and> snd (snd (execute_tool_call scenario_env sample_lib list_call
         ([], fresh_state, scenario_cache, (3, 1, 101)))) = (scenario_cache, (3, 1, 102))
   \<and> execute_tool_call (scenario_env\<lparr>CallTool := tool_down\<rparr>) sample_lib list_call
         ([], fresh_state, scenario_cache, (3, 1, 101)) =
       execute_tool_call scenario_env sample_lib list_call
         ([], fresh_state, scenario_cache, (3, 1, 101))
   \<and> Now scenario_env (1, 0, 1) = (1, (1, 0, 2))
   \<and> Get empty_cache 1
        (generateCacheKey sample_lib (ToolCall.Name list_call) (Arguments list_call)) = None
   \<and> CallTool scenario_env (1, 0, 2) (ToolCall.Name list_call) (Arguments list_call) =
        (Inr empty_list, (1, 1, 3))
   \<and> cacheMisses (fst (snd (execute_tool_call scenario_env sample_lib list_call
         ([], fresh_state, empty_cache, (1, 0, 1))))) = 1
   \<and> (\<exists>r c' w'.
         ProcessPrompt scenario_env sample_lib sample_tools list_request empty_cache start =
           (Inr r, c', w')
         \<and> (\<exists>h m. map_of (Metadata r) ''cache_hits'' = Some (MInt (int h))
               \<and> map_of (Metadata r) ''cache_misses'' = Some (MInt (int m))
               \<and> h + m = 1))
   \<and> Chat scenario_env (2, 1, 100) (Prompt list_request) sample_tools [] =
        (Inr asks_list, (3, 1, 101))
   \<and> Response.ToolCalls asks_list = [list_call]
   \<and> adapter_outcomes scenario_env sample_lib sample_tools list_request scenario_cache
        (2, 1, 100) = [Inr asks_list, Inr answers]
   \<and> Response.ToolCalls answers = []
   \<and> (\<exists>r w'.
         ProcessPrompt scenario_env sample_lib sample_tools list_request scenario_cache
           (2, 1, 100) = (Inr r, scenario_cache, w')
         \<and> ChatResponse.ToolResults r =
             [\<lparr>models_ToolResult.ToolCallID = ''call_1'',
               models_ToolResult.Name = ''list_blueprints'',
               models_ToolResult.Content = ''[]'', models_ToolResult.IsError = False\<rparr>]
         \<and> map_of (Metadata r) ''cache_hits'' = Some (MInt 1)
         \<and> map_of (Metadata r) ''cache_misses'' = Some (MInt 0))
   \<and> Chat scenario_env start (Prompt list_request) sample_tools [] = (Inr asks_list, (1, 0, 1))
   \<and> adapter_outcomes scenario_env sample_lib sample_tools list_request empty_cache start =
        [Inr asks_list, Inr answers]
   \<and> (\<exists>r w'.
         ProcessPrompt scenario_env sample_lib sample_tools list_request empty_cache start =
           (Inr r, scenario_cache, w')
         \<and> ChatResponse.ToolCalls r = [list_call]
         \<and> ChatResponse.ToolResults r =
             [\<lparr>models_ToolResult.ToolCallID = ''call_1'',
               models_ToolResult.Name = ''list_blueprints'',
               models_ToolResult.Content = ''[]'', models_ToolResult.IsError = False\<rparr>]
         \<and> map_of (Metadata r) ''cache_hits'' = Some (MInt 0)
         \<and> map_of (Metadata r) ''cache_misses'' = Some (MInt 1))
   \<and> \<not> CallToolResult.IsError empty_list
   \<and> Now scenario_env (1, 1, 3) = (3, (1, 1, 4))
   \<and> same_arguments (Arguments list_call) (Arguments list_call)
   \<and> (101::int) - 3 \<le> ttl empty_cache
   \<and> (\<exists>r w'.
         ProcessPrompt scenario_env sample_lib sample_tools list_request scenario_cache
           (2, 1, 100) = (Inr r, scenario_cache, w')
         \<and> Response r = ''No blueprints found''
         \<and> ChatResponse.ToolCalls r = [list_call]
         \<and> map_of (Metadata r) ''iterations'' = Some (MInt 2)
         \<and> map_of (Metadata r) ''cache_hits'' = Some (MInt 1)
         \<and> map_of (Metadata r) ''cache_misses'' = Some (MInt 0))
   \<and> ProcessPrompt (scenario_env\<lparr>CallTool := tool_down\<rparr>) sample_lib sample_tools list_request
        scenario_cache (2, 1, 100) =
      ProcessPrompt scenario_env sample_lib sample_tools list_request scenario_cache (2, 1, 100)"
  (is "?h1a \<and> ?h1b \<and> ?c1 \<and> ?h2a \<and> ?h2b \<and> ?c2a \<and> ?c2b \<and> ?c2c \<and> ?h3a \<and> ?h3b \<and> ?h3c \<and> ?c3
       \<and> ?c4 \<and> ?h5a \<and> ?h5b \<and> ?h5c \<and> ?h5d \<and> ?c5 \<and> ?h6a \<and> ?h6b \<and> ?c6 \<and> ?h7a \<and> ?h7b
       \<and> ?h7c \<and> ?h7d \<and> ?c7a \<and> ?c7b")
proof -
  let ?key = "generateCacheKey sample_lib (ToolCall.Name list_call) (Arguments list_call)"
  let ?entry = "\<lparr>CachedResult.Content = ''[]'', Timestamp = 3, CachedResult.IsError = False\<rparr>"
  have h1a: ?h1a by code_simp
  have h1b: ?h1b by code_simp
  have h2a: ?h2a by code_simp
  have h2b: ?h2b by code_simp
  have h3a: ?h3a by code_simp
  have h3b: ?h3b by code_simp
  have h3c: ?h3c by code_simp
  have h5a: ?h5a by code_simp
  have h5b: ?h5b by code_simp
  have h5c: ?h5c by code_simp
  have h5d: ?h5d by code_simp
  have h6a: ?h6a by code_simp
  have h6b: ?h6b by (rule scenario_outcomes)
  have h7a: ?h7a by code_simp
  have h7b: ?h7b by code_simp
  have h7c: ?h7c by code_simp
  have h7d: ?h7d by code_simp
  have name: "ToolCall.Name list_call = ToolCall.Name list_call"
    and nil: "is_nil (Arguments list_call) = is_nil (Arguments list_call)"
    by simp_all
  have content: "formatToolResult sample_lib empty_list = ''[]''"
    by code_simp
  have ident: "ToolCall.ID list_call = ''call_1''" "ToolCall.Name list_call = ''list_blueprints''"
    by code_simp+
  have shown: "Response.Content answers = ''No blueprints found''"
    by code_simp
  have cache: "fst (snd (ProcessPrompt scenario_env sample_lib sample_tools list_request
      empty_cache start)) = scenario_cache"
    by (simp add: scenario_cache_def)
  note passes = cache_hit_spares_CallTool [THEN conjunct1, rule_format, OF conjI [OF h1a h1b],
    of sample_lib 1 empty_cache]
  have "snd (snd (case execute_tool_calls scenario_env sample_lib []
                (execute_tool_call scenario_env sample_lib list_call
                  (execute_tool_calls scenario_env sample_lib []
                    ([], fresh_state\<lparr>conversationHistory := conversationHistory fresh_state @
                             [assistant_message (Response.Content asks_list)]\<rparr>,
                     empty_cache, (1, 0, 1)))) of
           (trs, s2, c2, v2) \<Rightarrow>
             (Continue (formatToolResultsForPrompt trs)
                (s2\<lparr>conversationHistory :=
                      conversationHistory s2 @ [tool_results_message trs]\<rparr>),
              c2, v2))) = ((1, 1, 4) :: sample_world)"
    by code_simp
  with passes have c1: ?c1 by simp
  note hit = cache_hit_spares_CallTool [THEN conjunct2, THEN conjunct1, rule_format,
    OF conjI [OF h2a h2b], of "[]" fresh_state tool_down]
  from hit have c2a: ?c2a and c2b: ?c2b and c2c: ?c2c
    by (simp_all add: fresh_state_def)
  note miss = cache_hit_spares_CallTool [THEN conjunct2, THEN conjunct2, THEN conjunct1,
    rule_format, OF conjI [OF h3a conjI [OF h3b h3c]], of "[]" fresh_state]
  from miss have c3: ?c3
    by (auto simp: fresh_state_def)
  note count = cache_hit_spares_CallTool [THEN conjunct2, THEN conjunct2, THEN conjunct2,
    THEN conjunct1, rule_format, OF scenario_A, unfolded scenario_outcomes]
  have c4: ?c4
    unfolding scenario_A using count by (simp add: asks_list_def answers_def)
  note run_hit = cache_hit_spares_CallTool [THEN conjunct2, THEN conjunct2, THEN conjunct2,
    THEN conjunct2, THEN conjunct1, rule_format,
    OF conjI [OF h5a conjI [OF h5b conjI [OF h2a conjI [OF h2b conjI [OF h5c h5d]]]]],
    of tool_down]
  from run_hit have c5: ?c5
    by (auto simp: ident)
  note run_miss = cache_hit_spares_CallTool [THEN conjunct2, THEN conjunct2, THEN conjunct2,
    THEN conjunct2, THEN conjunct2, THEN conjunct1, rule_format,
    OF conjI [OF h6a conjI [OF h5b conjI [OF h3a conjI [OF h3b conjI [OF h3c
       conjI [OF h6b h5d]]]]]]]
  from run_miss h7a h7b have c6: ?c6
    by (auto simp: ident content empty_list_def scenario_cache_def scenario_A)
  note again = cache_hit_spares_CallTool [THEN conjunct2, THEN conjunct2, THEN conjunct2,
    THEN conjunct2, THEN conjunct2, THEN conjunct2, rule_format,
    OF conjI [OF h6a conjI [OF h5b conjI [OF h3a conjI [OF h3b conjI [OF h3c conjI [OF h7a
       conjI [OF h7b conjI [OF h6b conjI [OF h5d conjI [OF h5a conjI [OF h5b conjI [OF name
       conjI [OF h7c conjI [OF nil conjI [OF h2a conjI [OF h7d
       conjI [OF h5c [folded cache] h5d]]]]]]]]]]]]]]]]],
    of tool_down, unfolded cache]
  from again have c7a: ?c7a and c7b: ?c7b
    by (auto simp: shown)
  from h1a h1b c1 h2a h2b c2a c2b c2c h3a h3b h3c c3 c4 h5a h5b h5c h5d c5 h6a h6b c6
    h7a h7b h7c h7d c7a c7b
  show ?thesis by (intro conjI)
qed

section \<open>Arguments that cannot be encoded\<close>



section \<open>Failures of the transport\<close>

text \<open>
  C7, as the code has it. When \<^verbatim>\<open>CallTool\<close> fails for an invocation, the invocation
  gets one result with \<^verbatim>\<open>IsError\<close> set and the message
  \<^verbatim>\<open>Error calling tool <name>: <error>\<close>, in the results of the iteration and in the
  trace, and counts as a miss. An iteration whose answer asks for tools always reaches its
  end, with one result for each invocation, in order, and these results join the history.
  If this was one of the first four iterations the adapter is called once more; if it was
  the fifth, the call returns the advisory response without error. The call returns an
  error only when the last answer of the adapter was an error, and then it is that error.
  Wherever the failing invocation stands in the answer, the iteration ends with as many
  results as invocations, the result at the place of the failing invocation is that error
  result, in the results of the iteration and in the trace, and the results are the last
  message of the history. When the transport fails for the one invocation of the first
  answer, the adapter is called a second time, with the error result as its prompt and in
  its history; and when that second answer asks for no tool the call returns it without
  error, with the error result as its trace and \<^verbatim>\<open>cache_misses\<close> 1.
\<close>

theorem transport_error_absorbed:
  fixes E :: "'w env" and G tools request c w
  defines "rs \<equiv> adapter_outcomes E G tools request c w"
  shows
  "(Now E v = (now, v1)
    \<and> Get c0 now (generateCacheKey G (ToolCall.Name tc) (Arguments tc)) = None
    \<and> CallTool E v1 (ToolCall.Name tc) (Arguments tc) = (Inl err, v2) \<longrightarrow>
      execute_tool_call E G tc (trs, s, c0, v) =
        (trs @ [\<lparr>ai_ToolResult.ToolCallID = ToolCall.ID tc,
                  ai_ToolResult.Content =
                    ''Error calling tool '' @ ToolCall.Name tc @ '': '' @ err,
                  ai_ToolResult.IsError = True\<rparr>],
         s\<lparr>cacheMisses := cacheMisses s + 1,
           allToolResults := allToolResults s @
             [\<lparr>models_ToolResult.ToolCallID = ToolCall.ID tc,
               models_ToolResult.Name = ToolCall.Name tc,
               models_ToolResult.Content =
                 ''Error calling tool '' @ ToolCall.Name tc @ '': '' @ err,
               models_ToolResult.IsError = True\<rparr>]\<rparr>,
         c0, v2))
   \<and> (Chat E v p tools (conversationHistory s) = (Inr resp, v1)
      \<and> Response.ToolCalls resp \<noteq> [] \<longrightarrow>
      (\<exists>results s' c' v'.
         loop_body E G tools n p s c0 v =
           (Continue (formatToolResultsForPrompt results) s', c', v')
         \<and> map ai_ToolResult.ToolCallID results = map ToolCall.ID (Response.ToolCalls resp)
         \<and> conversationHistory s' =
             conversationHistory s @
               [assistant_message (Response.Content resp), tool_results_message results]))
   \<and> (0 < N \<and> N \<le> length rs \<and> asks_tools (rs ! (N - 1)) \<and> N < 5 \<longrightarrow> N < length rs)
   \<and> (0 < N \<and> N \<le> length rs \<and> asks_tools (rs ! (N - 1)) \<and> N = 5 \<longrightarrow>
      (\<exists>r c' w'. ProcessPrompt E G tools request c w = (Inr r, c', w')
         \<and> map_of (Metadata r) ''max_reached'' = Some (MBool True)))
   \<and> (fst (ProcessPrompt E G tools request c w) = Inl e \<longrightarrow>
      (\<exists>failure. last rs = Inl failure \<and> e = ''AI provider error: '' @ failure))
   \<and> (Chat E v p tools (conversationHistory s) = (Inr resp, v1)
      \<and> Response.ToolCalls resp = before @ tc # rest
      \<and> execute_tool_calls E G before
           ([], s\<lparr>conversationHistory := conversationHistory s @
                    [assistant_message (Response.Content resp)]\<rparr>, c0, v1) =
           (trsb, sb, cb, vb)
      \<and> Now E vb = (now, vb1)
      \<and> Get cb now (generateCacheKey G (ToolCall.Name tc) (Arguments tc)) = None
      \<and> CallTool E vb1 (ToolCall.Name tc) (Arguments tc) = (Inl err, vb2) \<longrightarrow>
      (\<exists>results s' c' v'.
         loop_body E G tools n p s c0 v =
           (Continue (formatToolResultsForPrompt results) s', c', v')
         \<and> length results = length (Response.ToolCalls resp)
         \<and> results ! length before =
             \<lparr>ai_ToolResult.ToolCallID = ToolCall.ID tc,
              ai_ToolResult.Content =
                ''Error calling tool '' @ ToolCall.Name tc @ '': '' @ err,
              ai_ToolResult.IsError = True\<rparr>
         \<and> length (allToolResults s') =
             length (allToolResults s) + length (Response.ToolCalls resp)
         \<and> allToolResults s' ! (length (allToolResults s) + length before) =
             \<lparr>models_ToolResult.ToolCallID = ToolCall.ID tc,
              models_ToolResult.Name = ToolCall.Name tc,
              models_ToolResult.Content =
                ''Error calling tool '' @ ToolCall.Name tc @ '': '' @ err,
              models_ToolResult.IsError = True\<rparr>
         \<and> conversationHistory s' =
             conversationHistory s @
               [assistant_message (Response.Content resp), tool_results_message results]))
   \<and> (Chat E w (Prompt request) tools [] = (Inr resp1, w1)
      \<and> Response.ToolCalls resp1 = [tc]
      \<and> Now E w1 = (now, w2)
      \<and> Get c now (generateCacheKey G (ToolCall.Name tc) (Arguments tc)) = None
      \<and> CallTool E w2 (ToolCall.Name tc) (Arguments tc) = (Inl err, w3) \<longrightarrow>
      1 < length rs
      \<and> rs ! 1 =
          fst (Chat E w3
            (formatToolResultsForPrompt
              [\<lparr>ai_ToolResult.ToolCallID = ToolCall.ID tc,
                ai_ToolResult.Content =
                  ''Error calling tool '' @ ToolCall.Name tc @ '': '' @ err,
                ai_ToolResult.IsError = True\<rparr>])
            tools
            [assistant_message (Response.Content resp1),
             tool_results_message
               [\<lparr>ai_ToolResult.ToolCallID = ToolCall.ID tc,
                 ai_ToolResult.Content =
                   ''Error calling tool '' @ ToolCall.Name tc @ '': '' @ err,
                 ai_ToolResult.IsError = True\<rparr>]]))
   \<and> (Chat E w (Prompt request) tools [] = (Inr resp1, w1)
      \<and> Response.ToolCalls resp1 = [tc]
      \<and> Now E w1 = (now, w2)
      \<and> Get c now (generateCacheKey G (ToolCall.Name tc) (Arguments tc)) = None
      \<and> CallTool E w2 (ToolCall.Name tc) (Arguments tc) = (Inl err, w3)
      \<and> rs = [Inr resp1, Inr resp2]
      \<and> Response.ToolCalls resp2 = [] \<longrightarrow>
      (\<exists>r w'. ProcessPrompt E G tools request c w = (Inr r, c, w')
         \<and> Response r = Response.Content resp2
         \<and> ChatResponse.ToolResults r =
             [\<lparr>models_ToolResult.ToolCallID = ToolCall.ID tc,
               models_ToolResult.Name = ToolCall.Name tc,
               models_ToolResult.Content =
                 ''Error calling tool '' @ ToolCall.Name tc @ '': '' @ err,
               models_ToolResult.IsError = True\<rparr>]
         \<and> map_of (Metadata r) ''iterations'' = Some (MInt 2)
         \<and> map_of (Metadata r) ''cache_misses'' = Some (MInt 1)))"
  (is "_ \<and> _ \<and> _ \<and> _ \<and> _ \<and> (?H6 \<longrightarrow> ?C6) \<and> (?H7 \<longrightarrow> ?C7a \<and> ?C7b) \<and> (?H8 \<longrightarrow> ?C8)")
proof -
  let ?s0 = "\<lparr>conversationHistory = [], allToolCalls = [], allToolResults = [],
              cacheHits = 0, cacheMisses = 0\<rparr>"
  let ?run = "tool_loop E G tools 0 (Prompt request) ?s0 c w"
  have rs: "rs = chat_outcomes E G tools 0 (Prompt request) ?s0 c w"
    by (simp add: rs_def adapter_outcomes_def)
  have run: "ProcessPrompt E G tools request c w = ?run"
    by (simp add: ProcessPrompt_def)
  note summary = run_summary [of E G tools 0 "Prompt request" ?s0 c w, folded rs]
  from summary have len: "length rs \<le> 5" and ne: "rs \<noteq> []"
    by (simp_all add: MaxToolIterations_def)
  from summary have ending:
    "case last rs of
       Inl err \<Rightarrow> fst ?run = Inl (''AI provider error: '' @ err)
     | Inr resp \<Rightarrow>
         if Response.ToolCalls resp = []
         then (\<exists>s' c'. fst ?run = Inr (done_response E tools c' (length rs) s' resp))
         else length rs = 5 \<and> (\<exists>s' c'. fst ?run = Inr (limit_response E tools c' 5 s'))"
    by (auto simp: MaxToolIterations_def split: sum.splits if_splits)
  have absorbed: "execute_tool_call E G tc (trs, s, c0, v) =
        (trs @ [\<lparr>ai_ToolResult.ToolCallID = ToolCall.ID tc,
                  ai_ToolResult.Content =
                    ''Error calling tool '' @ ToolCall.Name tc @ '': '' @ err,
                  ai_ToolResult.IsError = True\<rparr>],
         s\<lparr>cacheMisses := cacheMisses s + 1,
           allToolResults := allToolResults s @
             [\<lparr>models_ToolResult.ToolCallID = ToolCall.ID tc,
               models_ToolResult.Name = ToolCall.Name tc,
               models_ToolResult.Content =
                 ''Error calling tool '' @ ToolCall.Name tc @ '': '' @ err,
               models_ToolResult.IsError = True\<rparr>]\<rparr>,
         c0, v2)"
    if "Now E v = (now, v1)
      \<and> Get c0 now (generateCacheKey G (ToolCall.Name tc) (Arguments tc)) = None
      \<and> CallTool E v1 (ToolCall.Name tc) (Arguments tc) = (Inl err, v2)"
    using that by (intro execute_tool_call_transport_error [where now = now and ?w1.0 = v1]) simp_all
  have goes_on: "\<exists>results s' c' v'.
         loop_body E G tools n p s c0 v =
           (Continue (formatToolResultsForPrompt results) s', c', v')
         \<and> map ai_ToolResult.ToolCallID results = map ToolCall.ID (Response.ToolCalls resp)
         \<and> conversationHistory s' =
             conversationHistory s @
               [assistant_message (Response.Content resp), tool_results_message results]"
    if h: "Chat E v p tools (conversationHistory s) = (Inr resp, v1)
      \<and> Response.ToolCalls resp \<noteq> []"
  proof -
    from h have ch: "Chat E v p tools (conversationHistory s) = (Inr resp, v1)"
      and some: "Response.ToolCalls resp \<noteq> []"
      by simp_all
    from ch some obtain results s2 c2 v2 where
      ex: "execute_tool_calls E G (Response.ToolCalls resp)
          ([], s\<lparr>conversationHistory := conversationHistory s @
                    [assistant_message (Response.Content resp)]\<rparr>, c0, v1) =
          (results, s2, c2, v2)"
      and lb: "loop_body E G tools n p s c0 v =
          (Continue (formatToolResultsForPrompt results)
            (s2\<lparr>conversationHistory := conversationHistory s2 @
                  [tool_results_message results]\<rparr>),
           c2, v2)"
      by (rule loop_body_Continue)
    let ?s' = "s2\<lparr>conversationHistory := conversationHistory s2 @
                  [tool_results_message results]\<rparr>"
    from execute_tool_calls_effect(1,3) [OF ex]
    have ids: "map ai_ToolResult.ToolCallID results = map ToolCall.ID (Response.ToolCalls resp)"
      and "conversationHistory s2 =
        conversationHistory s @ [assistant_message (Response.Content resp)]"
      by simp_all
    then have "conversationHistory ?s' =
        conversationHistory s @
          [assistant_message (Response.Content resp), tool_results_message results]"
      by simp
    with lb ids show ?thesis by blast
  qed
  have last_asks: "length rs = 5
      \<and> (\<exists>r c' w'. ProcessPrompt E G tools request c w = (Inr r, c', w')
            \<and> map_of (Metadata r) ''max_reached'' = Some (MBool True))"
    if "asks_tools (last rs)"
  proof -
    from that obtain resp' where last: "last rs = Inr resp'"
      and some: "Response.ToolCalls resp' \<noteq> []"
      by (cases "last rs") auto
    from ending last some obtain s' c' where five: "length rs = 5"
      and "fst ?run = Inr (limit_response E tools c' 5 s')"
      by auto
    then obtain c'' w'' where "?run = (Inr (limit_response E tools c' 5 s'), c'', w'')"
      by (cases ?run) auto
    with five show ?thesis
      unfolding run by (auto simp: limit_response_fields)
  qed
  have another: "N < length rs"
    if h: "0 < N \<and> N \<le> length rs \<and> asks_tools (rs ! (N - 1)) \<and> N < 5"
  proof (rule ccontr)
    assume "\<not> N < length rs"
    with h have N: "N = length rs" by simp
    from h have "asks_tools (rs ! (N - 1))" by blast
    with ne have "asks_tools (last rs)" unfolding N by (simp add: last_conv_nth)
    from last_asks [OF this] N h show False by simp
  qed
  have ceiling: "\<exists>r c' w'. ProcessPrompt E G tools request c w = (Inr r, c', w')
         \<and> map_of (Metadata r) ''max_reached'' = Some (MBool True)"
    if h: "0 < N \<and> N \<le> length rs \<and> asks_tools (rs ! (N - 1)) \<and> N = 5"
  proof -
    from h len have N: "N = length rs" by simp
    from h have "asks_tools (rs ! (N - 1))" by blast
    with ne have "asks_tools (last rs)" unfolding N by (simp add: last_conv_nth)
    from last_asks [OF this] show ?thesis by simp
  qed
  have only_adapter: "\<exists>failure. last rs = Inl failure \<and> e = ''AI provider error: '' @ failure"
    if h: "fst (ProcessPrompt E G tools request c w) = Inl e"
  proof (cases "last rs")
    case (Inl failure)
    with ending h run show ?thesis by simp
  next
    case (Inr resp')
    with ending h run show ?thesis by (auto split: if_splits)
  qed
  have anywhere: ?C6 if h: ?H6
  proof -
    from h have chat: "Chat E v p tools (conversationHistory s) = (Inr resp, v1)"
      and split: "Response.ToolCalls resp = before @ tc # rest"
      and pre: "execute_tool_calls E G before
           ([], s\<lparr>conversationHistory := conversationHistory s @
                    [assistant_message (Response.Content resp)]\<rparr>, c0, v1) =
           (trsb, sb, cb, vb)"
      and n: "Now E vb = (now, vb1)"
      and g: "Get cb now (generateCacheKey G (ToolCall.Name tc) (Arguments tc)) = None"
      and ct: "CallTool E vb1 (ToolCall.Name tc) (Arguments tc) = (Inl err, vb2)"
      by simp_all
    show ?thesis
      by (rule loop_body_transport_error [OF chat split pre n g ct])
  qed
  have again: ?C7a ?C7b if h: ?H7
  proof -
    from h have first: "Chat E w (Prompt request) tools [] = (Inr resp1, w1)"
      and one: "Response.ToolCalls resp1 = [tc]"
      and n: "Now E w1 = (now, w2)"
      and g: "Get c now (generateCacheKey G (ToolCall.Name tc) (Arguments tc)) = None"
      and ct: "CallTool E w2 (ToolCall.Name tc) (Arguments tc) = (Inl err, w3)"
      by simp_all
    from run_transport_error(1) [OF first one n g ct] show ?C7a
      unfolding rs_def .
    from run_transport_error(2) [OF first one n g ct] show ?C7b
      unfolding rs_def .
  qed
  have traced: ?C8 if h: ?H8
  proof -
    from h have first: "Chat E w (Prompt request) tools [] = (Inr resp1, w1)"
      and one: "Response.ToolCalls resp1 = [tc]"
      and n: "Now E w1 = (now, w2)"
      and g: "Get c now (generateCacheKey G (ToolCall.Name tc) (Arguments tc)) = None"
      and ct: "CallTool E w2 (ToolCall.Name tc) (Arguments tc) = (Inl err, w3)"
      and two: "adapter_outcomes E G tools request c w = [Inr resp1, Inr resp2]"
      and none: "Response.ToolCalls resp2 = []"
      by (simp_all add: rs_def)
    from run_miss [OF first one n g ct two none] show ?thesis
      by auto
  qed
  from absorbed goes_on another ceiling only_adapter anywhere again traced show ?thesis
    by (intro conjI impI)
qed

lemma scenario_down_outcomes:
  "adapter_outcomes scenario_down_env sample_lib sample_tools list_request empty_cache start =
     [Inr asks_list, Inr answers]"
  by code_simp

lemma insisting_down_outcomes:
  "adapter_outcomes insisting_down_env sample_lib sample_tools list_request empty_cache start =
     [Inr asks_list, Inr asks_list, Inr asks_list, Inr asks_list, Inr asks_list]"
  by code_simp

lemma broken_outcomes:
  "adapter_outcomes broken_env sample_lib sample_tools list_request empty_cache start =
     [Inl ''quota exceeded'']"
  by code_simp

theorem transport_error_absorbed_witness:
  "Now scenario_down_env (1, 0, 1) = (1, (1, 0, 2))
   \<and> Get empty_cache 1
        (generateCacheKey sample_lib (ToolCall.Name list_call) (Arguments list_call)) = None
   \<and> CallTool scenario_down_env (1, 0, 2) (ToolCall.Name list_call) (Arguments list_call) =
        (Inl ''connection refused'', (1, 1, 3))
   \<and> fst (execute_tool_call scenario_down_env sample_lib list_call
          ([], fresh_state, empty_cache, (1, 0, 1))) =
       [\<lparr>ai_ToolResult.ToolCallID = ''call_1'',
         ai_ToolResult.Content = ''Error calling tool list_blueprints: connection refused'',
         ai_ToolResult.IsError = True\<rparr>]
   \<and> Chat scenario_down_env start (Prompt list_request) sample_tools
        (conversationHistory fresh_state) = (Inr asks_list, (1, 0, 1))
   \<and> Response.ToolCalls asks_list \<noteq> []
   \<and> (\<exists>results s' c' v'.
         loop_body scenario_down_env sample_lib sample_tools 1 (Prompt list_request)
           fresh_state empty_cache start =
           (Continue (formatToolResultsForPrompt results) s', c', v')
         \<and> map ai_ToolResult.ToolCallID results = [''call_1''])
   \<and> adapter_outcomes scenario_down_env sample_lib sample_tools list_request empty_cache start =
       [Inr asks_list, Inr answers]
   \<and> asks_tools (Inr asks_list)
   \<and> adapter_outcomes insisting_down_env sample_lib sample_tools list_request empty_cache start =
       [Inr asks_list, Inr asks_list, Inr asks_list, Inr asks_list, Inr asks_list]
   \<and> (\<exists>r c' w'.
         ProcessPrompt insisting_down_env sample_lib sample_tools list_request empty_cache start =
           (Inr r, c', w')
         \<and> map_of (Metadata r) ''max_reached'' = Some (MBool True))
   \<and> fst (ProcessPrompt broken_env sample_lib sample_tools list_request empty_cache start) =
       Inl ''AI provider error: quota exceeded''
   \<and> last (adapter_outcomes broken_env sample_lib sample_tools list_request empty_cache start) =
       Inl ''quota exceeded''
   \<and> Response.ToolCalls asks_list = [] @ list_call # []
   \<and> execute_tool_calls scenario_down_env sample_lib []
        ([], fresh_state\<lparr>conversationHistory := conversationHistory fresh_state @
                            [assistant_message (Response.Content asks_list)]\<rparr>,
         empty_cache, (1, 0, 1)) =
      ([], fresh_state\<lparr>conversationHistory := conversationHistory fresh_state @
                            [assistant_message (Response.Content asks_list)]\<rparr>,
       empty_cache, (1, 0, 1))
   \<and> (\<exists>results s' c' v'.
         loop_body scenario_down_env sample_lib sample_tools 1 (Prompt list_request)
           fresh_state empty_cache start =
           (Continue (formatToolResultsForPrompt results) s', c', v')
         \<and> length results = 1
         \<and> results ! 0 =
             \<lparr>ai_ToolResult.ToolCallID = ''call_1'',
              ai_ToolResult.Content =
                ''Error calling tool list_blueprints: connection refused'',
              ai_ToolResult.IsError = True\<rparr>
         \<and> length (allToolResults s') = 1
         \<and> allToolResults s' ! 0 =
             \<lparr>models_ToolResult.ToolCallID = ''call_1'',
              models_ToolResult.Name = ''list_blueprints'',
              models_ToolResult.Content =
                ''Error calling tool list_blueprints: connection refused'',
              models_ToolResult.IsError = True\<rparr>
         \<and> conversationHistory s' =
             [assistant_message ''TOOL_CALL: list_blueprints({})'',
              tool_results_message results])
   \<and> Chat scenario_down_env start (Prompt list_request) sample_tools [] =
        (Inr asks_list, (1, 0, 1))
   \<and> Response.ToolCalls asks_list = [list_call]
   \<and> fst (Chat scenario_down_env (1, 1, 3)
        (formatToolResultsForPrompt
          [\<lparr>ai_ToolResult.ToolCallID = ''call_1'',
            ai_ToolResult.Content =
              ''Error calling tool list_blueprints: connection refused'',
            ai_ToolResult.IsError = True\<rparr>])
        sample_tools
        [assistant_message ''TOOL_CALL: list_blueprints({})'',
         tool_results_message
           [\<lparr>ai_ToolResult.ToolCallID = ''call_1'',
             ai_ToolResult.Content =
               ''Error calling tool list_blueprints: connection refused'',
             ai_ToolResult.IsError = True\<rparr>]]) = Inr answers
   \<and> Response.ToolCalls answers = []
   \<and> (\<exists>r w'.
         ProcessPrompt scenario_down_env sample_lib sample_tools list_request empty_cache start =
           (Inr r, empty_cache, w')
         \<and> Response r = ''No blueprints found''
         \<and> ChatResponse.ToolResults r =
             [\<lparr>models_ToolResult.ToolCallID = ''call_1'',
               models_ToolResult.Name = ''list_blueprints'',
               models_ToolResult.Content =
                 ''Error calling tool list_blueprints: connection refused'',
               models_ToolResult.IsError = True\<rparr>]
         \<and> map_of (Metadata r) ''iterations'' = Some (MInt 2)
         \<and> map_of (Metadata r) ''cache_misses'' = Some (MInt 1))"
  (is "?n \<and> ?g \<and> ?ct \<and> ?absorbed \<and> ?ch \<and> ?some \<and> ?goes_on \<and> ?outcomes \<and> ?asks
       \<and> ?insisting \<and> ?ceiling \<and> ?failed \<and> ?only \<and> ?split \<and> ?pre \<and> ?anywhere \<and> ?first
       \<and> ?one \<and> ?again \<and> ?none \<and> ?traced")
proof -
  have n: ?n by code_simp
  have g: ?g by code_simp
  have ct: ?ct by code_simp
  have ch: ?ch by code_simp
  have some: ?some by code_simp
  have asks: ?asks by code_simp
  have failed: ?failed by code_simp
  have split: ?split by code_simp
  have pre: ?pre by simp
  have first: ?first by code_simp
  have one: ?one by code_simp
  have none: ?none by code_simp
  have ident: "ToolCall.ID list_call = ''call_1''" "ToolCall.Name list_call = ''list_blueprints''"
    by (simp_all add: list_call_def)
  have shown: "Response.Content asks_list = ''TOOL_CALL: list_blueprints({})''"
    "Response.Content answers = ''No blueprints found''"
    by (simp_all add: asks_list_def answers_def)
  have fresh: "conversationHistory fresh_state = []" "allToolResults fresh_state = []"
    by (simp_all add: fresh_state_def)
  note down = transport_error_absorbed [where E = scenario_down_env and G = sample_lib
    and tools = sample_tools and request = list_request and c = empty_cache and w = start,
    unfolded scenario_down_outcomes]
  note insisting = transport_error_absorbed [where E = insisting_down_env and G = sample_lib
    and tools = sample_tools and request = list_request and c = empty_cache and w = start,
    unfolded insisting_down_outcomes]
  note broken = transport_error_absorbed [where E = broken_env and G = sample_lib
    and tools = sample_tools and request = list_request and c = empty_cache and w = start,
    unfolded broken_outcomes]
  from down [THEN conjunct1, rule_format, OF conjI [OF n conjI [OF g ct]],
    of "[]" fresh_state]
  have absorbed: ?absorbed
    by (simp add: list_call_def)
  from down [THEN conjunct2, THEN conjunct1, rule_format, OF conjI [OF ch some],
    of 1 empty_cache]
  have goes_on: ?goes_on
    by (auto simp: asks_list_def list_call_def)
  from down [THEN conjunct2, THEN conjunct2, THEN conjunct1, rule_format, of 1] asks
  have another: "(1::nat) < length [Inr asks_list, Inr answers]"
    by simp
  from insisting [THEN conjunct2, THEN conjunct2, THEN conjunct2, THEN conjunct1,
    rule_format, of 5] asks
  have ceiling: ?ceiling
    by simp
  from broken [THEN conjunct2, THEN conjunct2, THEN conjunct2, THEN conjunct2,
    THEN conjunct1, rule_format, OF failed]
  have only: ?only
    by (simp add: broken_outcomes)
  from down [THEN conjunct2, THEN conjunct2, THEN conjunct2, THEN conjunct2,
    THEN conjunct2, THEN conjunct1, rule_format,
    OF conjI [OF ch conjI [OF split conjI [OF pre conjI [OF n conjI [OF g ct]]]]], of 1]
  have anywhere: ?anywhere
    by (simp add: ident shown fresh one)
  from down [THEN conjunct2, THEN conjunct2, THEN conjunct2, THEN conjunct2,
    THEN conjunct2, THEN conjunct2, THEN conjunct1, rule_format,
    OF conjI [OF first conjI [OF one conjI [OF n conjI [OF g ct]]]]]
  have again: ?again
    by (simp add: ident shown)
  from down [THEN conjunct2, THEN conjunct2, THEN conjunct2, THEN conjunct2,
    THEN conjunct2, THEN conjunct2, THEN conjunct2, rule_format,
    OF conjI [OF first conjI [OF one conjI [OF n conjI [OF g conjI [OF ct
       conjI [OF refl none]]]]]]]
  have traced: ?traced
    by (simp add: ident shown)
  from n g ct absorbed ch some goes_on scenario_down_outcomes asks insisting_down_outcomes
    ceiling failed only split pre anywhere first one again none traced
  show ?thesis by (intro conjI)
qed

text \<open>
  The claim C7 as it is stated fails in the fifth iteration: the adapter asks for a tool
  five times, the transport fails five times, and after the fifth failure the call returns
  the advisory response; the adapter is not called a sixth time.
\<close>

theorem transport_error_in_fifth_iteration:
  "adapter_outcomes insisting_down_env sample_lib sample_tools list_request empty_cache start =
     [Inr asks_list, Inr asks_list, Inr asks_list, Inr asks_list, Inr asks_list]
   \<and> ProcessPrompt insisting_down_env sample_lib sample_tools list_request empty_cache start =
       (Inr \<lparr>Response =
               ''Maximum tool execution iterations reached. Please try breaking down your request.'',
             ChatResponse.ToolCalls = [],
             ChatResponse.ToolResults =
               replicate 5
                 \<lparr>models_ToolResult.ToolCallID = ''call_1'',
                  models_ToolResult.Name = ''list_blueprints'',
                  models_ToolResult.Content =
                    ''Error calling tool list_blueprints: connection refused'',
                  models_ToolResult.IsError = True\<rparr>,
             Metadata =
               [(''iterations'', MInt 5), (''max_reached'', MBool True),
                (''provider'', MString ''gemini''), (''tools_available'', MInt 1),
                (''cache_hits'', MInt 0), (''cache_misses'', MInt 5),
                (''cache_stats'', MStats [(''total_entries'', 0)])]\<rparr>,
        empty_cache, (5, 5, 15))"
  by code_simp

section \<open>The trace of a call\<close>

text \<open>
  The results of the trace are complete: one result for each invocation that the adapter
  asked for, in the order of asking.
\<close>

lemma tool_loop_results:
  fixes E :: "'w env"
  assumes "tool_loop E G tools iteration p s c w = (Inr r, c', w')"
  shows "map (\<lambda>x. (models_ToolResult.ToolCallID x, models_ToolResult.Name x))
           (ChatResponse.ToolResults r) =
         map (\<lambda>x. (models_ToolResult.ToolCallID x, models_ToolResult.Name x)) (allToolResults s)
         @ map (\<lambda>tc. (ToolCall.ID tc, ToolCall.Name tc))
             (concat (map invocations (chat_outcomes E G tools iteration p s c w)))"
  using assms
proof (induction "MaxToolIterations - iteration" arbitrary: iteration p s c w)
  case 0
  then have ge: "\<not> iteration < MaxToolIterations" by simp
  from tool_loop_exhausted [OF ge, of E G tools p s c w] "0.prems" show ?case
    by (auto simp: limit_response_fields)
next
  case (Suc k)
  then have lt: "iteration < MaxToolIterations" by simp
  obtain o1 w1 where chat: "Chat E w p tools (conversationHistory s) = (o1, w1)"
    by (cases "Chat E w p tools (conversationHistory s)")
  show ?case
  proof (cases o1)
    case (Inl err)
    from chat Inl have "loop_body E G tools (iteration + 1) p s c w =
        (Abort (''AI provider error: '' @ err), c, w1)"
      by (simp add: loop_body_Abort)
    from tool_loop_Abort(1) [OF lt this] Suc.prems show ?thesis by simp
  next
    case (Inr resp)
    with chat have ch: "Chat E w p tools (conversationHistory s) = (Inr resp, w1)"
      by simp
    show ?thesis
    proof (cases "Response.ToolCalls resp = []")
      case True
      from tool_loop_Return [OF lt loop_body_Return [OF ch True]] ch True Suc.prems
      show ?thesis by (auto simp: done_response_fields)
    next
      case False
      from ch False obtain trs s2 c2 w2 where
        ex: "execute_tool_calls E G (Response.ToolCalls resp)
          ([], s\<lparr>conversationHistory := conversationHistory s @
                    [assistant_message (Response.Content resp)]\<rparr>, c, w1) = (trs, s2, c2, w2)"
        and lb: "loop_body E G tools (iteration + 1) p s c w =
          (Continue (formatToolResultsForPrompt trs)
            (s2\<lparr>conversationHistory := conversationHistory s2 @ [tool_results_message trs]\<rparr>),
           c2, w2)"
        by (rule loop_body_Continue)
      let ?p' = "formatToolResultsForPrompt trs"
      let ?s' = "s2\<lparr>conversationHistory := conversationHistory s2 @ [tool_results_message trs]\<rparr>"
      note unfold = tool_loop_Continue [OF lt lb]
      from unfold(1) Suc.prems
      have next_run: "tool_loop E G tools (iteration + 1) ?p' ?s' c2 w2 = (Inr r, c', w')"
        by simp
      from Suc.hyps(2) have k: "k = MaxToolIterations - (iteration + 1)" by simp
      note IH = Suc.hyps(1) [OF k next_run]
      from execute_tool_calls_effect(2) [OF ex]
      have "map (\<lambda>x. (models_ToolResult.ToolCallID x, models_ToolResult.Name x))
              (allToolResults ?s') =
            map (\<lambda>x. (models_ToolResult.ToolCallID x, models_ToolResult.Name x))
              (allToolResults s)
            @ map (\<lambda>tc. (ToolCall.ID tc, ToolCall.Name tc)) (Response.ToolCalls resp)"
        by simp
      with IH show ?thesis
        unfolding unfold(2) using ch by simp
    qed
  qed
qed

lemma trace_results_complete:
  fixes E :: "'w env"
  assumes "ProcessPrompt E G tools request c w = (Inr r, c', w')"
  shows "map (\<lambda>x. (models_ToolResult.ToolCallID x, models_ToolResult.Name x))
           (ChatResponse.ToolResults r) =
         map (\<lambda>tc. (ToolCall.ID tc, ToolCall.Name tc))
           (concat (map invocations (adapter_outcomes E G tools request c w)))"
  using tool_loop_results [OF assms [unfolded ProcessPrompt_def]]
  by (simp add: adapter_outcomes_def)

text \<open>
  C6 fails for the list of invocations. In scenario A with the endpoint out of reach the
  adapter asks for \<open>list_call\<close>; the call returns its failed result in
  \<^verbatim>\<open>ToolResults\<close> and nothing in \<^verbatim>\<open>ToolCalls\<close>: the branch for a failed
  \<^verbatim>\<open>CallTool\<close> appends to the two lists of results and continues before the statement
  that appends the invocation.
\<close>

theorem failed_invocation_missing_from_ToolCalls:
  "adapter_outcomes scenario_down_env sample_lib sample_tools list_request empty_cache start =
     [Inr asks_list, Inr answers]
   \<and> concat (map invocations
        (adapter_outcomes scenario_down_env sample_lib sample_tools list_request empty_cache
           start)) = [list_call]
   \<and> fst (ProcessPrompt scenario_down_env sample_lib sample_tools list_request empty_cache start) =
       Inr \<lparr>Response = ''No blueprints found'',
            ChatResponse.ToolCalls = [],
            ChatResponse.ToolResults =
              [\<lparr>models_ToolResult.ToolCallID = ''call_1'',
                models_ToolResult.Name = ''list_blueprints'',
                models_ToolResult.Content =
                  ''Error calling tool list_blueprints: connection refused'',
                models_ToolResult.IsError = True\<rparr>],
            Metadata =
              [(''iterations'', MInt 2), (''finish_reason'', MString ''stop''),
               (''provider'', MString ''gemini''), (''tools_available'', MInt 1),
               (''cache_hits'', MInt 0), (''cache_misses'', MInt 1),
               (''cache_stats'', MStats [(''total_entries'', 0)])]\<rparr>"
  by code_simp

section \<open>The client and its catalog\<close>

text \<open>
  The claim C8 as it is stated fails: a client that has listed its catalog is asked for a
  tool that is not in it; the request reaches the endpoint, whose log shows it, and the
  failure that comes back is the one of the endpoint. The older client does the same.
\<close>

theorem CallTool_dispatches_unknown_tool:
  "''no_such_tool'' \<notin> set (map Tool.Name (tools_cached listed_client))
   \<and> Client_CallTool logging_session listed_client ''no_such_tool'' (Entries []) [] =
       (Inl ''failed to call tool no_such_tool: unknown tool'', listed_client,
        [(''no_such_tool'', Entries [])])
   \<and> ''no_such_tool'' \<notin> set (map Tool.Name (stdio_tools listed_stdio))
   \<and> Stdio_CallTool logging_stdio listed_stdio ''no_such_tool'' (Entries []) [] =
       (Returns (Inl ''failed to call tool no_such_tool: JSON-RPC error -32602: unknown tool''),
        listed_stdio, [(''tools/call'', ToolCallParams ''no_such_tool'' (Entries []))])"
  by code_simp

text \<open>
  C8, as the code has it. \<^verbatim>\<open>CallTool\<close> does not look at the catalog: with any other
  catalog it does the same. A client whose session is open sends every call to the
  endpoint and returns its result, or its failure behind the words
  \<^verbatim>\<open>failed to call tool <name>:\<close>. A client whose session is not open connects first; it
  returns the failure to connect, or goes on as a client whose session is open. The older
  client does not look at its catalog either, and once it has shaken hands it sends every
  call as a request \<^verbatim>\<open>tools/call\<close> and returns what comes back, decoded, or the failure
  behind the same words.
\<close>

theorem CallTool_ignores_catalog:
  "Client_CallTool S (cl\<lparr>tools_cached := catalog\<rparr>) name args t =
     (case Client_CallTool S cl name args t of
        (r, cl', t') \<Rightarrow> (r, cl'\<lparr>tools_cached := catalog\<rparr>, t'))
   \<and> (initialized cl \<longrightarrow>
        Client_CallTool S cl name args t =
          (case session_CallTool S t name args of
             (Inl err, t') \<Rightarrow> (Inl (''failed to call tool '' @ name @ '': '' @ err), cl, t')
           | (Inr result, t') \<Rightarrow> (Inr result, cl, t')))
   \<and> (\<not> initialized cl \<and> Connect S t = (Some err, t1) \<longrightarrow>
        Client_CallTool S cl name args t =
          (Inl (''failed to connect to MCP server via HTTP: '' @ err), cl, t1))
   \<and> (\<not> initialized cl \<and> Connect S t = (None, t1) \<longrightarrow>
        Client_CallTool S cl name args t =
          Client_CallTool S (cl\<lparr>initialized := True\<rparr>) name args t1)
   \<and> Stdio_CallTool L (old\<lparr>stdio_tools := catalog\<rparr>) name args u =
       (case Stdio_CallTool L old name args u of
          (r, old', u') \<Rightarrow> (r, old'\<lparr>stdio_tools := catalog\<rparr>, u'))
   \<and> (stdio_initialized old \<longrightarrow>
        Stdio_CallTool L old name args u =
          (case rpc_call L u ''tools/call'' (ToolCallParams name args) of
             (Never, u') \<Rightarrow> (Never, old, u')
           | (Returns (Inl err), u') \<Rightarrow>
               (Returns (Inl (''failed to call tool '' @ name @ '': '' @ err)), old, u')
           | (Returns (Inr result), u') \<Rightarrow>
               (case marshal_result L result of
                  Inl err \<Rightarrow>
                    (Returns (Inl (''failed to marshal tool call result: '' @ err)), old, u')
                | Inr resultBytes \<Rightarrow>
                    (case unmarshal_ToolCallResult L resultBytes of
                       Inl err \<Rightarrow>
                         (Returns (Inl (''failed to unmarshal tool call result: '' @ err)),
                          old, u')
                     | Inr toolResult \<Rightarrow> (Returns (Inr toolResult), old, u')))))"
proof (intro conjI impI)
  show "Client_CallTool S (cl\<lparr>tools_cached := catalog\<rparr>) name args t =
     (case Client_CallTool S cl name args t of
        (r, cl', t') \<Rightarrow> (r, cl'\<lparr>tools_cached := catalog\<rparr>, t'))"
    by (auto simp: Client_CallTool_def Client_Initialize_def
        split: prod.splits sum.splits option.splits)
next
  assume "initialized cl"
  then show "Client_CallTool S cl name args t =
          (case session_CallTool S t name args of
             (Inl err, t') \<Rightarrow> (Inl (''failed to call tool '' @ name @ '': '' @ err), cl, t')
           | (Inr result, t') \<Rightarrow> (Inr result, cl, t'))"
    by (simp add: Client_CallTool_def)
next
  assume "\<not> initialized cl \<and> Connect S t = (Some err, t1)"
  then show "Client_CallTool S cl name args t =
          (Inl (''failed to connect to MCP server via HTTP: '' @ err), cl, t1)"
    by (simp add: Client_CallTool_def Client_Initialize_def)
next
  assume "\<not> initialized cl \<and> Connect S t = (None, t1)"
  then show "Client_CallTool S cl name args t =
          Client_CallTool S (cl\<lparr>initialized := True\<rparr>) name args t1"
    by (simp add: Client_CallTool_def Client_Initialize_def)
next
  show "Stdio_CallTool L (old\<lparr>stdio_tools := catalog\<rparr>) name args u =
       (case Stdio_CallTool L old name args u of
          (r, old', u') \<Rightarrow> (r, old'\<lparr>stdio_tools := catalog\<rparr>, u'))"
    by (auto simp: Stdio_CallTool_def Stdio_Initialize_def Let_def
        split: prod.splits sum.splits option.splits returned.splits)
next
  assume "stdio_initialized old"
  then show "Stdio_CallTool L old name args u =
          (case rpc_call L u ''tools/call'' (ToolCallParams name args) of
             (Never, u') \<Rightarrow> (Never, old, u')
           | (Returns (Inl err), u') \<Rightarrow>
               (Returns (Inl (''failed to call tool '' @ name @ '': '' @ err)), old, u')
           | (Returns (Inr result), u') \<Rightarrow>
               (case marshal_result L result of
                  Inl err \<Rightarrow>
                    (Returns (Inl (''failed to marshal tool call result: '' @ err)), old, u')
                | Inr resultBytes \<Rightarrow>
                    (case unmarshal_ToolCallResult L resultBytes of
                       Inl err \<Rightarrow>
                         (Returns (Inl (''failed to unmarshal tool call result: '' @ err)),
                          old, u')
                     | Inr toolResult \<Rightarrow> (Returns (Inr toolResult), old, u'))))"
    by (simp add: Stdio_CallTool_def)
qed

theorem CallTool_ignores_catalog_witness:
  "initialized listed_client
   \<and> Client_CallTool logging_session listed_client ''no_such_tool'' (Entries []) [] =
       (Inl ''failed to call tool no_such_tool: unknown tool'', listed_client,
        [(''no_such_tool'', Entries [])])
   \<and> Client_CallTool logging_session (listed_client\<lparr>tools_cached := []\<rparr>) ''list_blueprints''
        (Entries []) [] =
       (Inr empty_list, listed_client\<lparr>tools_cached := []\<rparr>, [(''list_blueprints'', Entries [])])
   \<and> \<not> initialized NewClient
   \<and> Connect refusing_session [] = (Some ''connection refused'', [])
   \<and> Client_CallTool refusing_session NewClient ''list_blueprints'' (Entries []) [] =
       (Inl ''failed to connect to MCP server via HTTP: connection refused'', NewClient, [])
   \<and> Connect logging_session [] = (None, [])
   \<and> Client_CallTool logging_session NewClient ''list_blueprints'' (Entries []) [] =
       (Inr empty_list, NewClient\<lparr>initialized := True\<rparr>, [(''list_blueprints'', Entries [])])
   \<and> stdio_initialized listed_stdio
   \<and> Stdio_CallTool logging_stdio listed_stdio ''no_such_tool'' (Entries []) [] =
       (Returns (Inl ''failed to call tool no_such_tool: JSON-RPC error -32602: unknown tool''),
        listed_stdio, [(''tools/call'', ToolCallParams ''no_such_tool'' (Entries []))])
   \<and> Stdio_CallTool logging_stdio (listed_stdio\<lparr>stdio_tools := []\<rparr>) ''list_blueprints''
        (Entries []) [] =
       (Returns (Inr (quoted ''[]'')), listed_stdio\<lparr>stdio_tools := []\<rparr>,
        [(''tools/call'', ToolCallParams ''list_blueprints'' (Entries []))])"
proof -
  have open_session: "initialized listed_client"
    and closed: "\<not> initialized NewClient"
    and refuses: "Connect refusing_session [] = (Some ''connection refused'', [])"
    and accepts: "Connect logging_session [] = (None, [])"
    and shaken: "stdio_initialized listed_stdio"
    by code_simp+
  have unknown: "session_CallTool logging_session [] ''no_such_tool'' (Entries []) =
      (Inl ''unknown tool'', [(''no_such_tool'', Entries [])])"
    and known: "session_CallTool logging_session [] ''list_blueprints'' (Entries []) =
      (Inr empty_list, [(''list_blueprints'', Entries [])])"
    by code_simp+
  have refused: "rpc_call logging_stdio [] ''tools/call''
        (ToolCallParams ''no_such_tool'' (Entries [])) =
      (Returns (Inl ''JSON-RPC error -32602: unknown tool''),
       [(''tools/call'', ToolCallParams ''no_such_tool'' (Entries []))])"
    and served: "rpc_call logging_stdio [] ''tools/call''
        (ToolCallParams ''list_blueprints'' (Entries [])) =
      (Returns (Inr (JString ''[]'')),
       [(''tools/call'', ToolCallParams ''list_blueprints'' (Entries []))])"
    and encoded: "marshal_result logging_stdio (JString ''[]'') = Inr (quoted ''[]'')"
    and decoded: "unmarshal_ToolCallResult logging_stdio (quoted ''[]'') = Inr (quoted ''[]'')"
    by code_simp+
  note listed = CallTool_ignores_catalog [where S = logging_session and cl = listed_client
    and t = "[]" and args = "Entries []"]
  from listed [where name = "''no_such_tool''", THEN conjunct2, THEN conjunct1, rule_format,
    OF open_session]
  have a: "Client_CallTool logging_session listed_client ''no_such_tool'' (Entries []) [] =
       (Inl ''failed to call tool no_such_tool: unknown tool'', listed_client,
        [(''no_such_tool'', Entries [])])"
    by (simp add: unknown)
  from listed [where name = "''list_blueprints''" and catalog = "[]", THEN conjunct1]
    listed [where name = "''list_blueprints''", THEN conjunct2, THEN conjunct1, rule_format,
      OF open_session]
  have b: "Client_CallTool logging_session (listed_client\<lparr>tools_cached := []\<rparr>)
        ''list_blueprints'' (Entries []) [] =
       (Inr empty_list, listed_client\<lparr>tools_cached := []\<rparr>, [(''list_blueprints'', Entries [])])"
    by (simp add: known)
  from CallTool_ignores_catalog [where S = refusing_session and cl = NewClient and t = "[]",
    THEN conjunct2, THEN conjunct2, THEN conjunct1, rule_format, OF conjI [OF closed refuses]]
  have c: "Client_CallTool refusing_session NewClient ''list_blueprints'' (Entries []) [] =
       (Inl ''failed to connect to MCP server via HTTP: connection refused'', NewClient, [])"
    by simp
  have opened: "initialized (NewClient\<lparr>initialized := True\<rparr>)"
    by simp
  from CallTool_ignores_catalog [where S = logging_session and cl = NewClient and t = "[]"
    and name = "''list_blueprints''" and args = "Entries []",
    THEN conjunct2, THEN conjunct2, THEN conjunct2, THEN conjunct1, rule_format,
    OF conjI [OF closed accepts]]
    CallTool_ignores_catalog [where S = logging_session
    and cl = "NewClient\<lparr>initialized := True\<rparr>" and t = "[]"
    and name = "''list_blueprints''" and args = "Entries []",
    THEN conjunct2, THEN conjunct1, rule_format, OF opened]
  have d: "Client_CallTool logging_session NewClient ''list_blueprints'' (Entries []) [] =
       (Inr empty_list, NewClient\<lparr>initialized := True\<rparr>, [(''list_blueprints'', Entries [])])"
    by (simp add: known)
  note older = CallTool_ignores_catalog [where L = logging_stdio and old = listed_stdio
    and u = "[]" and args = "Entries []"]
  from older [where name = "''no_such_tool''", THEN conjunct2, THEN conjunct2, THEN conjunct2,
    THEN conjunct2, THEN conjunct2, rule_format, OF shaken]
  have e: "Stdio_CallTool logging_stdio listed_stdio ''no_such_tool'' (Entries []) [] =
       (Returns (Inl ''failed to call tool no_such_tool: JSON-RPC error -32602: unknown tool''),
        listed_stdio, [(''tools/call'', ToolCallParams ''no_such_tool'' (Entries []))])"
    by (simp add: refused)
  from older [where name = "''list_blueprints''", THEN conjunct2, THEN conjunct2,
    THEN conjunct2, THEN conjunct2, THEN conjunct2, rule_format, OF shaken]
  have f0: "Stdio_CallTool logging_stdio listed_stdio ''list_blueprints'' (Entries []) [] =
       (Returns (Inr (quoted ''[]'')), listed_stdio,
        [(''tools/call'', ToolCallParams ''list_blueprints'' (Entries []))])"
    by (simp add: served encoded decoded)
  from older [where name = "''list_blueprints''" and catalog = "[]", THEN conjunct2,
    THEN conjunct2, THEN conjunct2, THEN conjunct2, THEN conjunct1]
  have f: "Stdio_CallTool logging_stdio (listed_stdio\<lparr>stdio_tools := []\<rparr>) ''list_blueprints''
        (Entries []) [] =
       (Returns (Inr (quoted ''[]'')), listed_stdio\<lparr>stdio_tools := []\<rparr>,
        [(''tools/call'', ToolCallParams ''list_blueprints'' (Entries []))])"
    by (simp add: f0)
  from open_session a b closed refuses c accepts d shaken e f show ?thesis
    by (intro conjI)
qed

section \<open>Calls that are pending when the transport closes\<close>

text \<open>
  Once the stream has ended, a caller that waits on an empty channel waits in every state
  that any further event leads to: the reader delivers nothing more, and the other
  callers touch their own ids only.
\<close>

lemma stranded_step:
  assumes "stranded s i"
  shows "stranded (step_client s e) i"
proof (cases e)
  case (Call outcome)
  from assms have "i \<noteq> requestID s + 1" by (simp add: stranded_def)
  with assms Call show ?thesis
    by (cases outcome) (simp_all add: stranded_def Let_def update_conv' delete_conv')
next
  case Scan
  with assms show ?thesis by (simp add: stranded_def)
next
  case Close
  with assms show ?thesis by (simp add: stranded_def)
next
  case (Receive j)
  show ?thesis
  proof (cases "j = i")
    case True
    with assms Receive show ?thesis by (simp add: stranded_def)
  next
    case False
    with assms Receive show ?thesis
      by (auto simp: stranded_def update_conv' delete_conv'
               split: option.splits call_status.splits)
  qed
qed

lemma stranded_run:
  assumes "stranded s i"
  shows "stranded (run_client s evs) i"
  using assms unfolding run_client_def
  by (induction evs arbitrary: s) (simp_all add: stranded_step)

lemma one_pending_stranded: "stranded one_pending 1"
  by (simp add: stranded_def one_pending_def)

text \<open>
  C9 fails. A client sends one request and its caller waits for the response; this is the
  one call outstanding when the reader finds the end of the stream. The reader returns, and
  whatever happens afterwards the caller is still blocked on its channel, which is still
  registered and still empty: no error reaches it.
\<close>

theorem pending_caller_stays_blocked:
  "run_client silent_client [Call Written] = one_pending
   \<and> reading (run_client one_pending [Scan]) = False
   \<and> map_of (callers (run_client one_pending (Scan # evs))) 1 = Some Blocked
   \<and> map_of (pendingCalls (run_client one_pending (Scan # evs))) 1 = Some None"
proof -
  have "stranded (run_client one_pending (Scan # evs)) 1"
    by (rule stranded_run) (rule one_pending_stranded)
  moreover have "reading (run_client one_pending [Scan]) = False"
    by (simp add: run_client_def one_pending_def)
  moreover have "run_client silent_client [Call Written] = one_pending"
    by (simp add: run_client_def silent_client_def one_pending_def)
  ultimately show ?thesis by (simp add: stranded_def)
qed

text \<open>The same call returns when its response arrives before the stream ends.\<close>

lemma answered_caller_returns:
  "map_of (callers (run_client one_answered [Scan, Receive 1])) 1 =
     Some (Returned (Inr (JString ''[]'')))"
  by code_simp

end
